theory Spec2Isabelle
  imports Complex_Main "HOL-Library.Monad_Syntax"
begin

section \<open>Scalars, vectors and counted loops\<close>

text \<open>
  The values of the scalar type \<^verbatim>\<open>mlpdouble\<close> (a C++ \<^verbatim>\<open>double\<close>) are real numbers;
  infinities and NaN are not modelled. The evaluation functions come twice: with exact
  arithmetic, for what does not depend on rounding, and with the rounding of every
  operation written out (\<open>Predict_fp\<close>), for what does. A \<^verbatim>\<open>std::vector\<close>
  is a list; \<^verbatim>\<open>v[i]\<close> is \<open>v ! i\<close> and \<^verbatim>\<open>v[i] = x\<close> is \<open>v[i := x]\<close>. C++ leaves an
  out-of-range \<^verbatim>\<open>operator[]\<close> undefined; the evaluation functions below are stated for
  networks whose containers have the sizes the build sequence gives them, and the
  sizing function itself (\<open>SizeWeights\<close>) is modelled with its range checks written out.
  Loop counters are natural numbers.
\<close>

type_synonym mlpdouble = real

text \<open>\<^verbatim>\<open>for (i = lo; i < hi; i++) body(i)\<close> over a state.\<close>

definition for_loop :: "nat \<Rightarrow> nat \<Rightarrow> (nat \<Rightarrow> 's \<Rightarrow> 's) \<Rightarrow> 's \<Rightarrow> 's" where
  "for_loop lo hi body s = fold body [lo..<hi] s"

text \<open>\<^verbatim>\<open>std::vector::resize(n)\<close> with value-initialised new elements.\<close>

definition resize :: "nat \<Rightarrow> 'a \<Rightarrow> 'a list \<Rightarrow> 'a list" where
  "resize n dflt xs = take n xs @ replicate (n - length xs) dflt"

section \<open>Neurons and layers\<close>

text \<open>
  Modelled from the spec: \<^verbatim>\<open>CNeuron.hpp\<close> is not among the sources. Section 3 of the
  specification gives a neuron one scalar output, one scalar input, one bias and a vector
  of partial derivatives of its output with respect to each network input; \<^verbatim>\<open>CLayer\<close>
  reaches them through the accessors below. A new neuron holds zeros and an unsized
  gradient.
\<close>

record CNeuron =
  output_value :: mlpdouble
  input_value :: mlpdouble
  bias :: mlpdouble
  gradient :: "mlpdouble list"

definition CNeuron_new :: CNeuron where
  "CNeuron_new = \<lparr>output_value = 0, input_value = 0, bias = 0, gradient = []\<rparr>"

definition SizeGradient :: "nat \<Rightarrow> CNeuron \<Rightarrow> CNeuron" where
  "SizeGradient nInputs n = n\<lparr>gradient := resize nInputs 0 (gradient n)\<rparr>"

text \<open>\<^verbatim>\<open>CLayer\<close> (CLayer.hpp). Every accessor indexes \<^verbatim>\<open>neurons\<close> without a range check.\<close>

record CLayer =
  number_of_neurons :: nat
  neurons :: "CNeuron list"
  is_input :: bool
  activation_type :: string

text \<open>
  Modelled from the spec: the constructor \<^verbatim>\<open>CLayer(n_neurons)\<close> is defined in
  \<^verbatim>\<open>CLayer.cpp\<close>, which is not among the sources; a layer is an ordered sequence of
  \<^verbatim>\<open>n_neurons\<close> neurons.
\<close>

definition CLayer_new :: "nat \<Rightarrow> CLayer" where
  "CLayer_new n_neurons =
     \<lparr>number_of_neurons = n_neurons, neurons = replicate n_neurons CNeuron_new,
      is_input = False, activation_type = []\<rparr>"

definition GetNNeurons :: "CLayer \<Rightarrow> nat" where
  "GetNNeurons l = number_of_neurons l"

definition SetInput_flag :: "bool \<Rightarrow> CLayer \<Rightarrow> CLayer" where
  "SetInput_flag d l = l\<lparr>is_input := d\<rparr>"

definition SetOutput :: "nat \<Rightarrow> mlpdouble \<Rightarrow> CLayer \<Rightarrow> CLayer" where
  "SetOutput i_neuron v l = l\<lparr>neurons := (neurons l)[i_neuron := (neurons l ! i_neuron)\<lparr>output_value := v\<rparr>]\<rparr>"

definition GetOutput :: "CLayer \<Rightarrow> nat \<Rightarrow> mlpdouble" where
  "GetOutput l i_neuron = output_value (neurons l ! i_neuron)"

definition SetInput :: "nat \<Rightarrow> mlpdouble \<Rightarrow> CLayer \<Rightarrow> CLayer" where
  "SetInput i_neuron v l = l\<lparr>neurons := (neurons l)[i_neuron := (neurons l ! i_neuron)\<lparr>input_value := v\<rparr>]\<rparr>"

definition GetInput :: "CLayer \<Rightarrow> nat \<Rightarrow> mlpdouble" where
  "GetInput l i_neuron = input_value (neurons l ! i_neuron)"

definition SetBias :: "nat \<Rightarrow> mlpdouble \<Rightarrow> CLayer \<Rightarrow> CLayer" where
  "SetBias i_neuron v l = l\<lparr>neurons := (neurons l)[i_neuron := (neurons l ! i_neuron)\<lparr>bias := v\<rparr>]\<rparr>"

definition GetBias :: "CLayer \<Rightarrow> nat \<Rightarrow> mlpdouble" where
  "GetBias l i_neuron = bias (neurons l ! i_neuron)"

definition GetdYdX :: "CLayer \<Rightarrow> nat \<Rightarrow> nat \<Rightarrow> mlpdouble" where
  "GetdYdX l i_neuron iInput = gradient (neurons l ! i_neuron) ! iInput"

definition SetdYdX :: "nat \<Rightarrow> nat \<Rightarrow> mlpdouble \<Rightarrow> CLayer \<Rightarrow> CLayer" where
  "SetdYdX i_neuron iInput dy_dx l =
     l\<lparr>neurons := (neurons l)[i_neuron :=
          (neurons l ! i_neuron)\<lparr>gradient := (gradient (neurons l ! i_neuron))[iInput := dy_dx]\<rparr>]\<rparr>"

section \<open>The network\<close>

datatype ENUM_ACTIVATION_FUNCTION =
  NONE | LINEAR | RELU | ELU | GELU | SELU | SIGMOID | SWISH | TANH | EXPONENTIAL

text \<open>
  \<^verbatim>\<open>CNeuralNetwork\<close> (CNeuralNetwork.hpp). The layers are heap objects reached through
  the pointers \<^verbatim>\<open>inputLayer\<close>, \<^verbatim>\<open>outputLayer\<close>, \<^verbatim>\<open>hiddenLayers[i]\<close> and
  \<^verbatim>\<open>total_layers[i]\<close>, several of which point to the same object once \<open>SizeWeights\<close> has
  run. The model keeps the store explicit: a pointer is an address, \<open>heap\<close> maps an
  address to the layer stored there, \<open>nullptr\<close> is address 0 and \<open>next_addr\<close> is the
  first address \<^verbatim>\<open>new\<close> has not handed out. \<^verbatim>\<open>ANN_outputs\<close>, a \<^verbatim>\<open>double*\<close> array, is a list.
\<close>

type_synonym addr = nat

definition nullptr :: addr where
  "nullptr = 0"

record CNeuralNetwork =
  heap :: "addr \<Rightarrow> CLayer"
  next_addr :: addr
  input_names :: "string list"
  output_names :: "string list"
  n_hidden_layers :: nat
  inputLayer :: addr
  outputLayer :: addr
  hiddenLayers :: "addr list"
  total_layers :: "addr list"
  weights_mat :: "mlpdouble list list list"
  input_norm :: "(mlpdouble \<times> mlpdouble) list"
  output_norm :: "(mlpdouble \<times> mlpdouble) list"
  last_inputs :: "mlpdouble list"
  ANN_outputs :: "mlpdouble list"
  dOutputs_dInputs :: "mlpdouble list list"
  activation_function_types :: "ENUM_ACTIVATION_FUNCTION list"
  activation_function_names :: "string list"

text \<open>\<^verbatim>\<open>p->method(...)\<close> for a method that changes the layer \<open>p\<close> points to.\<close>

definition update_layer :: "addr \<Rightarrow> (CLayer \<Rightarrow> CLayer) \<Rightarrow> CNeuralNetwork \<Rightarrow> CNeuralNetwork" where
  "update_layer p f s = s\<lparr>heap := (heap s)(p := f (heap s p))\<rparr>"

subsection \<open>Evaluation: \<^verbatim>\<open>ComputeX\<close>, \<^verbatim>\<open>ComputedOutputdInput\<close>, \<^verbatim>\<open>Predict\<close>\<close>

definition ComputeX :: "CNeuralNetwork \<Rightarrow> nat \<Rightarrow> nat \<Rightarrow> mlpdouble" where
  "ComputeX s iLayer iNeuron =
     for_loop 0 (GetNNeurons (heap s (total_layers s ! (iLayer - 1))))
       (\<lambda>jNeuron x. x + weights_mat s ! (iLayer - 1) ! iNeuron ! jNeuron *
                        GetOutput (heap s (total_layers s ! (iLayer - 1))) jNeuron)
       (GetBias (heap s (total_layers s ! iLayer)) iNeuron)"

definition ComputedOutputdInput :: "CNeuralNetwork \<Rightarrow> nat \<Rightarrow> nat \<Rightarrow> nat \<Rightarrow> mlpdouble" where
  "ComputedOutputdInput s iLayer iNeuron iInput =
     for_loop 0 (GetNNeurons (heap s (total_layers s ! (iLayer - 1))))
       (\<lambda>jNeuron doutput_dinput. doutput_dinput +
           weights_mat s ! (iLayer - 1) ! iNeuron ! jNeuron *
           GetdYdX (heap s (total_layers s ! (iLayer - 1))) jNeuron iInput)
       0"

text \<open>
  Predict, lines 26 to 37: one turn of the normalisation loop. The state of the loop is
  the network and the flag \<^verbatim>\<open>same_point\<close>; \<open>x_norm\<close> is the value of lines 27 and 28.
\<close>

definition x_norm :: "CNeuralNetwork \<Rightarrow> mlpdouble list \<Rightarrow> nat \<Rightarrow> mlpdouble" where
  "x_norm s inputs iNeuron =
     (inputs ! iNeuron - fst (input_norm s ! iNeuron)) /
     (snd (input_norm s ! iNeuron) - fst (input_norm s ! iNeuron))"

definition normalize_neuron ::
  "mlpdouble list \<Rightarrow> bool \<Rightarrow> nat \<Rightarrow> CNeuralNetwork \<times> bool \<Rightarrow> CNeuralNetwork \<times> bool" where
  "normalize_neuron inputs compute_gradient iNeuron st =
     (let s = fst st;
          x = x_norm s inputs iNeuron;
          same_point = (if \<bar>x - GetOutput (heap s (inputLayer s)) iNeuron\<bar> > 0
                        then False else snd st);
          s1 = update_layer (inputLayer s) (SetOutput iNeuron x) s;
          s2 = (if compute_gradient
                then update_layer (inputLayer s1)
                       (SetdYdX iNeuron iNeuron
                          (1 / (snd (input_norm s1 ! iNeuron) - fst (input_norm s1 ! iNeuron)))) s1
                else s1)
      in (s2, same_point))"

text \<open>Lines 51 to 60: the input of one neuron and, on request, its input-side gradient.\<close>

definition compute_neuron_input :: "bool \<Rightarrow> nat \<Rightarrow> nat \<Rightarrow> CNeuralNetwork \<Rightarrow> CNeuralNetwork" where
  "compute_neuron_input compute_gradient iLayer iNeuron s =
     (let x = ComputeX s iLayer iNeuron;
          s1 = update_layer (total_layers s ! iLayer) (SetInput iNeuron x) s
      in if compute_gradient
         then for_loop 0 (GetNNeurons (heap s1 (inputLayer s1)))
                (\<lambda>iInput t. update_layer (total_layers t ! iLayer)
                    (SetdYdX iNeuron iInput (ComputedOutputdInput t iLayer iNeuron iInput)) t) s1
         else s1)"

text \<open>
  Lines 63 to 251: the \<^verbatim>\<open>switch\<close> over the layer's activation function. Every case is
  the same loop over the layer's neurons and differs in the two formulas for \<^verbatim>\<open>y\<close> and
  \<^verbatim>\<open>dy_dx\<close> only, which are collected here case by case, with the constants
  \<^verbatim>\<open>alpha\<close> and \<^verbatim>\<open>lambda\<close> of lines 41 and 42.
\<close>

definition alpha :: mlpdouble where
  "alpha = 1.67326324"

definition lambda :: mlpdouble where
  "lambda = 1.05070098"

fun activation_y :: "ENUM_ACTIVATION_FUNCTION \<Rightarrow> mlpdouble \<Rightarrow> mlpdouble" where
  "activation_y ELU x = (if x > 0 then x else exp x - 1)"
| "activation_y LINEAR x = x"
| "activation_y EXPONENTIAL x = exp x"
| "activation_y RELU x = (if x > 0 then x else 0)"
| "activation_y SWISH x = x / (1 + exp (- x))"
| "activation_y TANH x = tanh x"
| "activation_y SIGMOID x = 1 / (1 + exp (- x))"
| "activation_y SELU x = (if x > 0 then lambda * x else lambda * alpha * (exp x - 1))"
| "activation_y GELU x = 0.5 * x * (1 + tanh (0.7978845608028654 * (x + 0.044715 * x ^ 3)))"
| "activation_y NONE x = 0"

fun activation_dy_dx :: "ENUM_ACTIVATION_FUNCTION \<Rightarrow> mlpdouble \<Rightarrow> mlpdouble" where
  "activation_dy_dx ELU x = (if x > 0 then 1 else exp x)"
| "activation_dy_dx LINEAR x = 1"
| "activation_dy_dx EXPONENTIAL x = 1"
| "activation_dy_dx RELU x = (if x > 0 then 1 else 0)"
| "activation_dy_dx SWISH x = exp x * (x + exp x + 1) / (exp x + 1) ^ 2"
| "activation_dy_dx TANH x = 1 / (cosh x) ^ 2"
| "activation_dy_dx SIGMOID x = exp (- x) / (exp (- x) + 1) ^ 2"
| "activation_dy_dx SELU x = (if x > 0 then lambda else lambda * alpha * exp x)"
| "activation_dy_dx GELU x =
     0.5 * (tanh (0.0356774 * x ^ 3 + 0.797885 * x) +
            (0.107032 * x ^ 3 + 0.797885 * x) * (cosh x) powi (- 2) *
            (0.0356774 * x ^ 3 + 0.797885 * x))"
| "activation_dy_dx NONE x = 0"

text \<open>The innermost loop of every case: the stored gradient times \<^verbatim>\<open>dy_dx\<close>.\<close>

definition scale_gradient :: "nat \<Rightarrow> nat \<Rightarrow> mlpdouble \<Rightarrow> CNeuralNetwork \<Rightarrow> CNeuralNetwork" where
  "scale_gradient iLayer iNeuron dy_dx s =
     for_loop 0 (GetNNeurons (heap s (inputLayer s)))
       (\<lambda>iInput t. update_layer (total_layers t ! iLayer)
           (\<lambda>l. SetdYdX iNeuron iInput (dy_dx * GetdYdX l iNeuron iInput) l) t) s"

definition activate_neuron ::
  "ENUM_ACTIVATION_FUNCTION \<Rightarrow> bool \<Rightarrow> nat \<Rightarrow> nat \<Rightarrow> CNeuralNetwork \<Rightarrow> CNeuralNetwork" where
  "activate_neuron kind compute_gradient iLayer iNeuron s =
     (let x = GetInput (heap s (total_layers s ! iLayer)) iNeuron;
          y = activation_y kind x;
          dy_dx = activation_dy_dx kind x;
          s1 = update_layer (total_layers s ! iLayer) (SetOutput iNeuron y) s
      in if compute_gradient then scale_gradient iLayer iNeuron dy_dx s1 else s1)"

text \<open>Lines 45 to 252: one turn of the loop over the layers.\<close>

definition evaluate_layer :: "bool \<Rightarrow> nat \<Rightarrow> CNeuralNetwork \<Rightarrow> CNeuralNetwork" where
  "evaluate_layer compute_gradient iLayer s =
     (let nNeurons_current = GetNNeurons (heap s (total_layers s ! iLayer));
          s1 = for_loop 0 nNeurons_current (compute_neuron_input compute_gradient iLayer) s
      in for_loop 0 nNeurons_current
           (activate_neuron (activation_function_types s1 ! iLayer) compute_gradient iLayer) s1)"

text \<open>Lines 255 to 270: one turn of the de-normalisation loop.\<close>

definition denormalize_neuron :: "bool \<Rightarrow> nat \<Rightarrow> CNeuralNetwork \<Rightarrow> CNeuralNetwork" where
  "denormalize_neuron compute_gradient iNeuron s =
     (let y_norm = GetOutput (heap s (outputLayer s)) iNeuron;
          y = y_norm * (snd (output_norm s ! iNeuron) - fst (output_norm s ! iNeuron)) +
              fst (output_norm s ! iNeuron);
          dy_dx = snd (output_norm s ! iNeuron) - fst (output_norm s ! iNeuron);
          s1 = (if compute_gradient
                then for_loop 0 (GetNNeurons (heap s (inputLayer s)))
                       (\<lambda>iInput t.
                          let t1 = update_layer (outputLayer t)
                                     (\<lambda>l. SetdYdX iNeuron iInput (dy_dx * GetdYdX l iNeuron iInput) l) t
                          in t1\<lparr>dOutputs_dInputs := (dOutputs_dInputs t1)[iNeuron :=
                                  (dOutputs_dInputs t1 ! iNeuron)[iInput :=
                                     GetdYdX (heap t1 (outputLayer t1)) iNeuron iInput]]\<rparr>) s
                else s)
      in s1\<lparr>ANN_outputs := (ANN_outputs s1)[iNeuron := y]\<rparr>)"

text \<open>The three phases of \<^verbatim>\<open>Predict\<close>, and \<^verbatim>\<open>Predict\<close> itself.\<close>

definition normalize_inputs :: "mlpdouble list \<Rightarrow> bool \<Rightarrow> CNeuralNetwork \<Rightarrow> CNeuralNetwork \<times> bool" where
  "normalize_inputs inputs compute_gradient s =
     for_loop 0 (GetNNeurons (heap s (inputLayer s)))
       (normalize_neuron inputs compute_gradient) (s, True)"

definition forward_pass :: "bool \<Rightarrow> CNeuralNetwork \<Rightarrow> CNeuralNetwork" where
  "forward_pass compute_gradient s =
     for_loop 1 (n_hidden_layers s + 2) (evaluate_layer compute_gradient) s"

definition denormalize_outputs :: "bool \<Rightarrow> CNeuralNetwork \<Rightarrow> CNeuralNetwork" where
  "denormalize_outputs compute_gradient s =
     for_loop 0 (GetNNeurons (heap s (outputLayer s))) (denormalize_neuron compute_gradient) s"

definition Predict :: "mlpdouble list \<Rightarrow> bool \<Rightarrow> CNeuralNetwork \<Rightarrow> CNeuralNetwork" where
  "Predict inputs compute_gradient s =
     (let st = normalize_inputs inputs compute_gradient s;
          s1 = fst st;
          same_point = snd st;
          s2 = (if \<not> same_point then forward_pass compute_gradient s1 else s1)
      in denormalize_outputs compute_gradient s2)"

subsection \<open>Evaluation in double precision\<close>

text \<open>
  \<^verbatim>\<open>mlpdouble\<close> is a double, and every operation of \<open>Predict\<close> rounds its exact result.
  The definitions of this subsection are those of the last one with the rounding written
  out: \<open>rnd\<close> maps the exact result of an operation to the value the operation stores.
  Every arithmetic operation rounds once (no fused multiply-add), and a function of the
  mathematical library returns the rounded exact value. With the identity for \<open>rnd\<close>
  these are the definitions above.
\<close>

definition fadd :: "(real \<Rightarrow> real) \<Rightarrow> mlpdouble \<Rightarrow> mlpdouble \<Rightarrow> mlpdouble" where
  "fadd rnd x y = rnd (x + y)"

definition fsub :: "(real \<Rightarrow> real) \<Rightarrow> mlpdouble \<Rightarrow> mlpdouble \<Rightarrow> mlpdouble" where
  "fsub rnd x y = rnd (x - y)"

definition fmul :: "(real \<Rightarrow> real) \<Rightarrow> mlpdouble \<Rightarrow> mlpdouble \<Rightarrow> mlpdouble" where
  "fmul rnd x y = rnd (x * y)"

definition fdiv :: "(real \<Rightarrow> real) \<Rightarrow> mlpdouble \<Rightarrow> mlpdouble \<Rightarrow> mlpdouble" where
  "fdiv rnd x y = rnd (x / y)"

definition ComputeX_fp :: "(real \<Rightarrow> real) \<Rightarrow> CNeuralNetwork \<Rightarrow> nat \<Rightarrow> nat \<Rightarrow> mlpdouble" where
  "ComputeX_fp rnd s iLayer iNeuron =
     for_loop 0 (GetNNeurons (heap s (total_layers s ! (iLayer - 1))))
       (\<lambda>jNeuron x. fadd rnd x (fmul rnd (weights_mat s ! (iLayer - 1) ! iNeuron ! jNeuron)
                        (GetOutput (heap s (total_layers s ! (iLayer - 1))) jNeuron)))
       (GetBias (heap s (total_layers s ! iLayer)) iNeuron)"

definition ComputedOutputdInput_fp ::
  "(real \<Rightarrow> real) \<Rightarrow> CNeuralNetwork \<Rightarrow> nat \<Rightarrow> nat \<Rightarrow> nat \<Rightarrow> mlpdouble" where
  "ComputedOutputdInput_fp rnd s iLayer iNeuron iInput =
     for_loop 0 (GetNNeurons (heap s (total_layers s ! (iLayer - 1))))
       (\<lambda>jNeuron doutput_dinput. fadd rnd doutput_dinput
           (fmul rnd (weights_mat s ! (iLayer - 1) ! iNeuron ! jNeuron)
              (GetdYdX (heap s (total_layers s ! (iLayer - 1))) jNeuron iInput)))
       0"

definition x_norm_fp :: "(real \<Rightarrow> real) \<Rightarrow> CNeuralNetwork \<Rightarrow> mlpdouble list \<Rightarrow> nat \<Rightarrow> mlpdouble" where
  "x_norm_fp rnd s inputs iNeuron =
     fdiv rnd (fsub rnd (inputs ! iNeuron) (fst (input_norm s ! iNeuron)))
       (fsub rnd (snd (input_norm s ! iNeuron)) (fst (input_norm s ! iNeuron)))"

definition normalize_neuron_fp ::
  "(real \<Rightarrow> real) \<Rightarrow> mlpdouble list \<Rightarrow> bool \<Rightarrow> nat \<Rightarrow> CNeuralNetwork \<times> bool \<Rightarrow>
   CNeuralNetwork \<times> bool" where
  "normalize_neuron_fp rnd inputs compute_gradient iNeuron st =
     (let s = fst st;
          x = x_norm_fp rnd s inputs iNeuron;
          same_point = (if \<bar>fsub rnd x (GetOutput (heap s (inputLayer s)) iNeuron)\<bar> > 0
                        then False else snd st);
          s1 = update_layer (inputLayer s) (SetOutput iNeuron x) s;
          s2 = (if compute_gradient
                then update_layer (inputLayer s1)
                       (SetdYdX iNeuron iNeuron
                          (fdiv rnd 1 (fsub rnd (snd (input_norm s1 ! iNeuron))
                                         (fst (input_norm s1 ! iNeuron))))) s1
                else s1)
      in (s2, same_point))"

definition compute_neuron_input_fp ::
  "(real \<Rightarrow> real) \<Rightarrow> bool \<Rightarrow> nat \<Rightarrow> nat \<Rightarrow> CNeuralNetwork \<Rightarrow> CNeuralNetwork" where
  "compute_neuron_input_fp rnd compute_gradient iLayer iNeuron s =
     (let x = ComputeX_fp rnd s iLayer iNeuron;
          s1 = update_layer (total_layers s ! iLayer) (SetInput iNeuron x) s
      in if compute_gradient
         then for_loop 0 (GetNNeurons (heap s1 (inputLayer s1)))
                (\<lambda>iInput t. update_layer (total_layers t ! iLayer)
                    (SetdYdX iNeuron iInput (ComputedOutputdInput_fp rnd t iLayer iNeuron iInput)) t) s1
         else s1)"

fun activation_y_fp :: "(real \<Rightarrow> real) \<Rightarrow> ENUM_ACTIVATION_FUNCTION \<Rightarrow> mlpdouble \<Rightarrow> mlpdouble" where
  "activation_y_fp rnd ELU x = (if x > 0 then x else fsub rnd (rnd (exp x)) 1)"
| "activation_y_fp rnd LINEAR x = x"
| "activation_y_fp rnd EXPONENTIAL x = rnd (exp x)"
| "activation_y_fp rnd RELU x = (if x > 0 then x else 0)"
| "activation_y_fp rnd SWISH x = fdiv rnd x (fadd rnd 1 (rnd (exp (- x))))"
| "activation_y_fp rnd TANH x = rnd (tanh x)"
| "activation_y_fp rnd SIGMOID x = fdiv rnd 1 (fadd rnd 1 (rnd (exp (- x))))"
| "activation_y_fp rnd SELU x =
     (if x > 0 then fmul rnd (rnd lambda) x
      else fmul rnd (fmul rnd (rnd lambda) (rnd alpha)) (fsub rnd (rnd (exp x)) 1))"
| "activation_y_fp rnd GELU x =
     fmul rnd (fmul rnd (rnd 0.5) x)
       (fadd rnd 1 (rnd (tanh (fmul rnd (rnd 0.7978845608028654)
          (fadd rnd x (fmul rnd (rnd 0.044715) (rnd (x ^ 3))))))))"
| "activation_y_fp rnd NONE x = 0"

fun activation_dy_dx_fp :: "(real \<Rightarrow> real) \<Rightarrow> ENUM_ACTIVATION_FUNCTION \<Rightarrow> mlpdouble \<Rightarrow> mlpdouble" where
  "activation_dy_dx_fp rnd ELU x = (if x > 0 then 1 else rnd (exp x))"
| "activation_dy_dx_fp rnd LINEAR x = 1"
| "activation_dy_dx_fp rnd EXPONENTIAL x = 1"
| "activation_dy_dx_fp rnd RELU x = (if x > 0 then 1 else 0)"
| "activation_dy_dx_fp rnd SWISH x =
     fdiv rnd (fmul rnd (rnd (exp x)) (fadd rnd (fadd rnd x (rnd (exp x))) 1))
       (rnd ((fadd rnd (rnd (exp x)) 1) ^ 2))"
| "activation_dy_dx_fp rnd TANH x = fdiv rnd 1 (rnd ((rnd (cosh x)) ^ 2))"
| "activation_dy_dx_fp rnd SIGMOID x =
     fdiv rnd (rnd (exp (- x))) (rnd ((fadd rnd (rnd (exp (- x))) 1) ^ 2))"
| "activation_dy_dx_fp rnd SELU x =
     (if x > 0 then rnd lambda else fmul rnd (fmul rnd (rnd lambda) (rnd alpha)) (rnd (exp x)))"
| "activation_dy_dx_fp rnd GELU x =
     fmul rnd (rnd 0.5)
       (fadd rnd
          (rnd (tanh (fadd rnd (fmul rnd (rnd 0.0356774) (rnd (x ^ 3))) (fmul rnd (rnd 0.797885) x))))
          (fmul rnd
             (fmul rnd
                (fadd rnd (fmul rnd (rnd 0.107032) (rnd (x ^ 3))) (fmul rnd (rnd 0.797885) x))
                (rnd ((rnd (cosh x)) powi (- 2))))
             (fadd rnd (fmul rnd (rnd 0.0356774) (rnd (x ^ 3))) (fmul rnd (rnd 0.797885) x))))"
| "activation_dy_dx_fp rnd NONE x = 0"

definition scale_gradient_fp ::
  "(real \<Rightarrow> real) \<Rightarrow> nat \<Rightarrow> nat \<Rightarrow> mlpdouble \<Rightarrow> CNeuralNetwork \<Rightarrow> CNeuralNetwork" where
  "scale_gradient_fp rnd iLayer iNeuron dy_dx s =
     for_loop 0 (GetNNeurons (heap s (inputLayer s)))
       (\<lambda>iInput t. update_layer (total_layers t ! iLayer)
           (\<lambda>l. SetdYdX iNeuron iInput (fmul rnd dy_dx (GetdYdX l iNeuron iInput)) l) t) s"

definition activate_neuron_fp ::
  "(real \<Rightarrow> real) \<Rightarrow> ENUM_ACTIVATION_FUNCTION \<Rightarrow> bool \<Rightarrow> nat \<Rightarrow> nat \<Rightarrow> CNeuralNetwork \<Rightarrow>
   CNeuralNetwork" where
  "activate_neuron_fp rnd kind compute_gradient iLayer iNeuron s =
     (let x = GetInput (heap s (total_layers s ! iLayer)) iNeuron;
          y = activation_y_fp rnd kind x;
          dy_dx = activation_dy_dx_fp rnd kind x;
          s1 = update_layer (total_layers s ! iLayer) (SetOutput iNeuron y) s
      in if compute_gradient then scale_gradient_fp rnd iLayer iNeuron dy_dx s1 else s1)"

definition evaluate_layer_fp :: "(real \<Rightarrow> real) \<Rightarrow> bool \<Rightarrow> nat \<Rightarrow> CNeuralNetwork \<Rightarrow> CNeuralNetwork" where
  "evaluate_layer_fp rnd compute_gradient iLayer s =
     (let nNeurons_current = GetNNeurons (heap s (total_layers s ! iLayer));
          s1 = for_loop 0 nNeurons_current (compute_neuron_input_fp rnd compute_gradient iLayer) s
      in for_loop 0 nNeurons_current
           (activate_neuron_fp rnd (activation_function_types s1 ! iLayer) compute_gradient iLayer) s1)"

definition denormalize_neuron_fp ::
  "(real \<Rightarrow> real) \<Rightarrow> bool \<Rightarrow> nat \<Rightarrow> CNeuralNetwork \<Rightarrow> CNeuralNetwork" where
  "denormalize_neuron_fp rnd compute_gradient iNeuron s =
     (let y_norm = GetOutput (heap s (outputLayer s)) iNeuron;
          y = fadd rnd
                (fmul rnd y_norm
                   (fsub rnd (snd (output_norm s ! iNeuron)) (fst (output_norm s ! iNeuron))))
                (fst (output_norm s ! iNeuron));
          dy_dx = fsub rnd (snd (output_norm s ! iNeuron)) (fst (output_norm s ! iNeuron));
          s1 = (if compute_gradient
                then for_loop 0 (GetNNeurons (heap s (inputLayer s)))
                       (\<lambda>iInput t.
                          let t1 = update_layer (outputLayer t)
                                     (\<lambda>l. SetdYdX iNeuron iInput
                                             (fmul rnd dy_dx (GetdYdX l iNeuron iInput)) l) t
                          in t1\<lparr>dOutputs_dInputs := (dOutputs_dInputs t1)[iNeuron :=
                                  (dOutputs_dInputs t1 ! iNeuron)[iInput :=
                                     GetdYdX (heap t1 (outputLayer t1)) iNeuron iInput]]\<rparr>) s
                else s)
      in s1\<lparr>ANN_outputs := (ANN_outputs s1)[iNeuron := y]\<rparr>)"

definition normalize_inputs_fp ::
  "(real \<Rightarrow> real) \<Rightarrow> mlpdouble list \<Rightarrow> bool \<Rightarrow> CNeuralNetwork \<Rightarrow> CNeuralNetwork \<times> bool" where
  "normalize_inputs_fp rnd inputs compute_gradient s =
     for_loop 0 (GetNNeurons (heap s (inputLayer s)))
       (normalize_neuron_fp rnd inputs compute_gradient) (s, True)"

definition forward_pass_fp :: "(real \<Rightarrow> real) \<Rightarrow> bool \<Rightarrow> CNeuralNetwork \<Rightarrow> CNeuralNetwork" where
  "forward_pass_fp rnd compute_gradient s =
     for_loop 1 (n_hidden_layers s + 2) (evaluate_layer_fp rnd compute_gradient) s"

definition denormalize_outputs_fp :: "(real \<Rightarrow> real) \<Rightarrow> bool \<Rightarrow> CNeuralNetwork \<Rightarrow> CNeuralNetwork" where
  "denormalize_outputs_fp rnd compute_gradient s =
     for_loop 0 (GetNNeurons (heap s (outputLayer s))) (denormalize_neuron_fp rnd compute_gradient) s"

definition Predict_fp ::
  "(real \<Rightarrow> real) \<Rightarrow> mlpdouble list \<Rightarrow> bool \<Rightarrow> CNeuralNetwork \<Rightarrow> CNeuralNetwork" where
  "Predict_fp rnd inputs compute_gradient s =
     (let st = normalize_inputs_fp rnd inputs compute_gradient s;
          s1 = fst st;
          same_point = snd st;
          s2 = (if \<not> same_point then forward_pass_fp rnd compute_gradient s1 else s1)
      in denormalize_outputs_fp rnd compute_gradient s2)"

text \<open>
  Rounding to the nearest double, ties to the even significand: a double other than 0
  is \<open>m * 2 ^ e\<close> with 53 binary digits in \<open>m\<close>. \<open>binade n x\<close> is the exponent \<open>e\<close> with
  \<open>2 ^ e \<le> x < 2 ^ (e + 1)\<close>, searched \<open>n\<close> steps from 0, which covers the exponents of
  the doubles. Overflow, the subnormal numbers, infinities and NaN are not modelled.
\<close>

primrec binade :: "nat \<Rightarrow> real \<Rightarrow> int" where
  "binade 0 x = 0"
| "binade (Suc n) x =
     (if 2 \<le> x then binade n (x / 2) + 1 else if x < 1 then binade n (2 * x) - 1 else 0)"

definition round_ties_even :: "real \<Rightarrow> int" where
  "round_ties_even t =
     (let n = \<lfloor>t\<rfloor>; r = t - of_int n
      in if r < 1 / 2 then n else if 1 / 2 < r then n + 1 else if even n then n else n + 1)"

definition binary64 :: "real \<Rightarrow> real" where
  "binary64 x =
     (if x = 0 then 0
      else let ulp = 2 powi (binade 1100 \<bar>x\<bar> - 52)
           in of_int (round_ties_even (x / ulp)) * ulp)"

subsection \<open>The build sequence\<close>

text \<open>
  A default-constructed network (the member initialisers of CNeuralNetwork.hpp): no
  hidden layer, both layer pointers null, every vector empty. No layer is allocated;
  the store holds an empty layer at every address.
\<close>

definition CNeuralNetwork_new :: CNeuralNetwork where
  "CNeuralNetwork_new =
     \<lparr>heap = (\<lambda>p. CLayer_new 0), next_addr = 1, input_names = [], output_names = [],
      n_hidden_layers = 0, inputLayer = nullptr, outputLayer = nullptr, hiddenLayers = [],
      total_layers = [], weights_mat = [], input_norm = [], output_norm = [],
      last_inputs = [], ANN_outputs = [], dOutputs_dInputs = [],
      activation_function_types = [], activation_function_names = []\<rparr>"

text \<open>\<^verbatim>\<open>new CLayer(n_neurons)\<close>: the new object's address and the store that holds it.\<close>

definition new_CLayer :: "nat \<Rightarrow> CNeuralNetwork \<Rightarrow> addr \<times> CNeuralNetwork" where
  "new_CLayer n_neurons s =
     (next_addr s, s\<lparr>heap := (heap s)(next_addr s := CLayer_new n_neurons),
                     next_addr := next_addr s + 1\<rparr>)"

definition DefineInputLayer :: "nat \<Rightarrow> CNeuralNetwork \<Rightarrow> CNeuralNetwork" where
  "DefineInputLayer n_neurons s =
     (let a = new_CLayer n_neurons s;
          s1 = (snd a)\<lparr>inputLayer := fst a\<rparr>;
          s2 = update_layer (inputLayer s1) (SetInput_flag True) s1
      in s2\<lparr>input_norm := resize n_neurons (0, 0) (input_norm s2),
             input_names := resize n_neurons [] (input_names s2)\<rparr>)"

definition DefineOutputLayer :: "nat \<Rightarrow> CNeuralNetwork \<Rightarrow> CNeuralNetwork" where
  "DefineOutputLayer n_neurons s =
     (let a = new_CLayer n_neurons s;
          s1 = (snd a)\<lparr>outputLayer := fst a\<rparr>
      in s1\<lparr>output_norm := resize n_neurons (0, 0) (output_norm s1),
             output_names := resize n_neurons [] (output_names s1)\<rparr>)"

definition PushHiddenLayer :: "nat \<Rightarrow> CNeuralNetwork \<Rightarrow> CNeuralNetwork" where
  "PushHiddenLayer n_neurons s =
     (let a = new_CLayer n_neurons s
      in (snd a)\<lparr>hiddenLayers := hiddenLayers (snd a) @ [fst a],
                  n_hidden_layers := n_hidden_layers (snd a) + 1\<rparr>)"

text \<open>
  \<open>SizeWeights\<close> indexes its vectors and follows its pointers without a check. The model
  writes the checks out: \<open>None\<close> stands for an access outside a vector or through a null
  pointer, which C++ leaves undefined.
\<close>

definition vec_at :: "'a list \<Rightarrow> nat \<Rightarrow> 'a option" where
  "vec_at v i = (if i < length v then Some (v ! i) else None)"

definition vec_set :: "nat \<Rightarrow> 'a \<Rightarrow> 'a list \<Rightarrow> 'a list option" where
  "vec_set i x v = (if i < length v then Some (v[i := x]) else None)"

definition load :: "CNeuralNetwork \<Rightarrow> addr \<Rightarrow> CLayer option" where
  "load s p = (if p = nullptr then None else Some (heap s p))"

definition for_loop_opt :: "nat \<Rightarrow> nat \<Rightarrow> (nat \<Rightarrow> 's \<Rightarrow> 's option) \<Rightarrow> 's \<Rightarrow> 's option" where
  "for_loop_opt lo hi body s = fold (\<lambda>i r. Option.bind r (body i)) [lo..<hi] (Some s)"

text \<open>
  \<^verbatim>\<open>CLayer::SizeGradients\<close> (CLayer.hpp), with the range check of \<^verbatim>\<open>neurons[iNeuron]\<close>
  written out.
\<close>

definition SizeGradients :: "nat \<Rightarrow> CLayer \<Rightarrow> CLayer option" where
  "SizeGradients nInputs l =
     for_loop_opt 0 (number_of_neurons l)
       (\<lambda>iNeuron l'. do {
          n \<leftarrow> vec_at (neurons l') iNeuron;
          Some (l'\<lparr>neurons := (neurons l')[iNeuron := SizeGradient nInputs n]\<rparr>)
        }) l"

text \<open>
  \<^verbatim>\<open>weights_mat[iLayer].resize(rows->GetNNeurons())\<close> followed by the loop
  \<^verbatim>\<open>weights_mat[iLayer][iNeuron].resize(cols->GetNNeurons())\<close> over the rows; \<open>rows\<close> and
  \<open>cols\<close> compute the two layer pointers, and fail where the source indexes
  \<^verbatim>\<open>hiddenLayers\<close> out of range.
\<close>

definition size_weight_matrix ::
  "nat \<Rightarrow> (CNeuralNetwork \<Rightarrow> addr option) \<Rightarrow> (CNeuralNetwork \<Rightarrow> addr option) \<Rightarrow>
   CNeuralNetwork \<Rightarrow> CNeuralNetwork option" where
  "size_weight_matrix iLayer rows cols s = do {
     w \<leftarrow> vec_at (weights_mat s) iLayer;
     pr \<leftarrow> rows s;
     lr \<leftarrow> load s pr;
     let s1 = s\<lparr>weights_mat := (weights_mat s)[iLayer := resize (GetNNeurons lr) [] w]\<rparr>;
     for_loop_opt 0 (GetNNeurons lr)
       (\<lambda>iNeuron t. do {
          w \<leftarrow> vec_at (weights_mat t) iLayer;
          r \<leftarrow> vec_at w iNeuron;
          pc \<leftarrow> cols t;
          lc \<leftarrow> load t pc;
          Some (t\<lparr>weights_mat := (weights_mat t)[iLayer := w[iNeuron := resize (GetNNeurons lc) 0 r]]\<rparr>)
        }) s1
   }"

text \<open>Lines 302 to 307: \<^verbatim>\<open>total_layers\<close> collects the layer pointers.\<close>

definition collect_layers :: "CNeuralNetwork \<Rightarrow> CNeuralNetwork option" where
  "collect_layers s0 = do {
     let s1 = s0\<lparr>total_layers := resize (n_hidden_layers s0 + 2) nullptr (total_layers s0)\<rparr>;
     tl \<leftarrow> vec_set 0 (inputLayer s1) (total_layers s1);
     let s2 = s1\<lparr>total_layers := tl\<rparr>;
     s3 \<leftarrow> for_loop_opt 0 (n_hidden_layers s2)
             (\<lambda>iLayer t. do {
                h \<leftarrow> vec_at (hiddenLayers t) iLayer;
                tl \<leftarrow> vec_set (iLayer + 1) h (total_layers t);
                Some (t\<lparr>total_layers := tl\<rparr>)
              }) s2;
     tl \<leftarrow> vec_set (length (total_layers s3) - 1) (outputLayer s3) (total_layers s3);
     Some (s3\<lparr>total_layers := tl\<rparr>)
   }"

text \<open>
  Lines 309 to 326: the weight matrices. The index \<^verbatim>\<open>n_hidden_layers - 1\<close> of line 325
  is computed in \<^verbatim>\<open>unsigned long\<close>; without a hidden layer it wraps around and lies
  outside \<^verbatim>\<open>hiddenLayers\<close>.
\<close>

definition size_weights :: "CNeuralNetwork \<Rightarrow> CNeuralNetwork option" where
  "size_weights s4 = do {
     let s5 = s4\<lparr>weights_mat := resize (n_hidden_layers s4 + 1) [] (weights_mat s4)\<rparr>;
     s6 \<leftarrow> size_weight_matrix 0 (\<lambda>t. vec_at (hiddenLayers t) 0) (\<lambda>t. Some (inputLayer t)) s5;
     s7 \<leftarrow> for_loop_opt 1 (n_hidden_layers s6)
             (\<lambda>iLayer. size_weight_matrix iLayer
                (\<lambda>t. vec_at (hiddenLayers t) iLayer) (\<lambda>t. vec_at (hiddenLayers t) (iLayer - 1))) s6;
     size_weight_matrix (n_hidden_layers s7) (\<lambda>t. Some (outputLayer t))
       (\<lambda>t. if n_hidden_layers t = 0 then None
            else vec_at (hiddenLayers t) (n_hidden_layers t - 1)) s7
   }"

text \<open>
  Lines 328 to 331: the output array and the jacobian. \<^verbatim>\<open>new mlpdouble[n]\<close> leaves the
  array's values indeterminate; the model fills it with zeros.
\<close>

definition size_outputs :: "CNeuralNetwork \<Rightarrow> CNeuralNetwork option" where
  "size_outputs s8 = do {
     lo \<leftarrow> load s8 (outputLayer s8);
     let s9 = s8\<lparr>ANN_outputs := replicate (GetNNeurons lo) 0\<rparr>;
     let s10 = s9\<lparr>dOutputs_dInputs := resize (GetNNeurons lo) [] (dOutputs_dInputs s9)\<rparr>;
     for_loop_opt 0 (GetNNeurons lo)
       (\<lambda>iOutput t. do {
          r \<leftarrow> vec_at (dOutputs_dInputs t) iOutput;
          li \<leftarrow> load t (inputLayer t);
          Some (t\<lparr>dOutputs_dInputs := (dOutputs_dInputs t)[iOutput := resize (GetNNeurons li) 0 r]\<rparr>)
        }) s10
   }"

text \<open>Lines 333 to 335: the gradient vectors of every layer.\<close>

definition size_gradients :: "CNeuralNetwork \<Rightarrow> CNeuralNetwork option" where
  "size_gradients s11 =
     for_loop_opt 0 (n_hidden_layers s11 + 2)
       (\<lambda>iLayer t. do {
          p \<leftarrow> vec_at (total_layers t) iLayer;
          l \<leftarrow> load t p;
          li \<leftarrow> load t (inputLayer t);
          l' \<leftarrow> SizeGradients (GetNNeurons li) l;
          Some (t\<lparr>heap := (heap t)(p := l')\<rparr>)
        }) s11"

definition SizeWeights :: "CNeuralNetwork \<Rightarrow> CNeuralNetwork option" where
  "SizeWeights s0 = do {
     s4 \<leftarrow> collect_layers s0;
     s8 \<leftarrow> size_weights s4;
     s11 \<leftarrow> size_outputs s8;
     size_gradients s11
   }"

text \<open>The setters of CNeuralNetwork.hpp that fill a sized network.\<close>

definition SetWeight :: "nat \<Rightarrow> nat \<Rightarrow> nat \<Rightarrow> mlpdouble \<Rightarrow> CNeuralNetwork \<Rightarrow> CNeuralNetwork" where
  "SetWeight i_layer i_neuron j_neuron v s =
     s\<lparr>weights_mat := (weights_mat s)[i_layer :=
          (weights_mat s ! i_layer)[j_neuron := (weights_mat s ! i_layer ! j_neuron)[i_neuron := v]]]\<rparr>"

definition SetBias_net :: "nat \<Rightarrow> nat \<Rightarrow> mlpdouble \<Rightarrow> CNeuralNetwork \<Rightarrow> CNeuralNetwork" where
  "SetBias_net i_layer i_neuron v s = update_layer (total_layers s ! i_layer) (SetBias i_neuron v) s"

definition SizeInputs :: "nat \<Rightarrow> CNeuralNetwork \<Rightarrow> CNeuralNetwork" where
  "SizeInputs n_inputs s =
     for_loop 0 n_inputs (\<lambda>iInput t. t\<lparr>last_inputs := (last_inputs t)[iInput := 0]\<rparr>)
       (s\<lparr>last_inputs := resize n_inputs 0 (last_inputs s)\<rparr>)"

definition SetInputNorm :: "nat \<Rightarrow> mlpdouble \<Rightarrow> mlpdouble \<Rightarrow> CNeuralNetwork \<Rightarrow> CNeuralNetwork" where
  "SetInputNorm iInput input_min input_max s =
     s\<lparr>input_norm := (input_norm s)[iInput := (input_min, input_max)]\<rparr>"

definition SetOutputNorm :: "nat \<Rightarrow> mlpdouble \<Rightarrow> mlpdouble \<Rightarrow> CNeuralNetwork \<Rightarrow> CNeuralNetwork" where
  "SetOutputNorm iOutput output_min output_max s =
     s\<lparr>output_norm := (output_norm s)[iOutput := (output_min, output_max)]\<rparr>"

definition SetOutputName :: "nat \<Rightarrow> string \<Rightarrow> CNeuralNetwork \<Rightarrow> CNeuralNetwork" where
  "SetOutputName iOutput nm s = s\<lparr>output_names := (output_names s)[iOutput := nm]\<rparr>"

definition SetInputName :: "nat \<Rightarrow> string \<Rightarrow> CNeuralNetwork \<Rightarrow> CNeuralNetwork" where
  "SetInputName iInput nm s = s\<lparr>input_names := (input_names s)[iInput := nm]\<rparr>"

definition GetInputName :: "CNeuralNetwork \<Rightarrow> nat \<Rightarrow> string" where
  "GetInputName s iInput = input_names s ! iInput"

definition GetOutputName :: "CNeuralNetwork \<Rightarrow> nat \<Rightarrow> string" where
  "GetOutputName s iOutput = output_names s ! iOutput"

definition GetnInputs :: "CNeuralNetwork \<Rightarrow> nat" where
  "GetnInputs s = length (input_names s)"

definition GetnOutputs :: "CNeuralNetwork \<Rightarrow> nat" where
  "GetnOutputs s = length (output_names s)"

definition SizeActivationFunctions :: "nat \<Rightarrow> CNeuralNetwork \<Rightarrow> CNeuralNetwork" where
  "SizeActivationFunctions n_layers s =
     s\<lparr>activation_function_types := resize n_layers NONE (activation_function_types s),
       activation_function_names := resize n_layers [] (activation_function_names s)\<rparr>"

text \<open>
  \<^verbatim>\<open>SetActivationFunction\<close> looks the name up in \<^verbatim>\<open>activation_function_map\<close>; a name
  that is not a key makes \<^verbatim>\<open>find\<close> return \<^verbatim>\<open>end()\<close>, whose dereference is undefined
  (\<open>None\<close> here).
\<close>

definition activation_function_map :: "string \<Rightarrow> ENUM_ACTIVATION_FUNCTION option" where
  "activation_function_map =
     map_of [(''none'', NONE), (''linear'', LINEAR), (''elu'', ELU), (''relu'', RELU),
             (''gelu'', GELU), (''selu'', SELU), (''sigmoid'', SIGMOID), (''swish'', SWISH),
             (''tanh'', TANH), (''exponential'', EXPONENTIAL)]"

definition SetActivationFunction :: "nat \<Rightarrow> string \<Rightarrow> CNeuralNetwork \<Rightarrow> CNeuralNetwork option" where
  "SetActivationFunction i_layer nm s =
     (case activation_function_map nm of
        None \<Rightarrow> None
      | Some k \<Rightarrow> Some (s\<lparr>activation_function_names := (activation_function_names s)[i_layer := nm],
                          activation_function_types := (activation_function_types s)[i_layer := k]\<rparr>))"

section \<open>The network collection selector\<close>

text \<open>
  Modelled from the spec: the collection class \<^verbatim>\<open>CLookUp_ANN\<close> is declared and defined in
  files that are not among the sources. By sections 2 and 6 of the specification it owns
  the networks and answers two queries of the selector, the network count and
  \<^verbatim>\<open>FindVariableIndices\<close>.
\<close>

record CLookUp_ANN =
  NeuralNetworks :: "CNeuralNetwork list"

definition GetNANNs :: "CLookUp_ANN \<Rightarrow> nat" where
  "GetNANNs c = length (NeuralNetworks c)"

text \<open>
  Modelled from the spec: \<^verbatim>\<open>CLookUp_ANN::FindVariableIndices\<close> is not among the sources.
  By sections 4.2 and 6 it returns the pairs (caller index, network variable index) at
  which the caller's name equals the network's declared input name (or output name, by
  the flag), in caller order, then network order.
\<close>

definition FindVariableIndices ::
  "CLookUp_ANN \<Rightarrow> nat \<Rightarrow> string list \<Rightarrow> bool \<Rightarrow> (nat \<times> nat) list" where
  "FindVariableIndices c i_ANN variable_names input_side =
     (let net = NeuralNetworks c ! i_ANN;
          nVar = (if input_side then GetnInputs net else GetnOutputs net)
      in [(jVar, iVar). jVar \<leftarrow> [0..<length variable_names], iVar \<leftarrow> [0..<nVar],
            variable_names ! jVar =
              (if input_side then GetInputName net iVar else GetOutputName net iVar)])"

text \<open>\<^verbatim>\<open>CIOMap\<close> (CIOMap.cpp): the members the constructor fills.\<close>

record CIOMap =
  MLP_indices :: "nat list"
  Input_Map :: "(nat \<times> nat) list list"
  Output_Map :: "(nat \<times> nat) list list"

text \<open>
  Modelled from the spec: \<^verbatim>\<open>CLookUp_ANN::CheckUseOfInputs\<close> and
  \<^verbatim>\<open>CheckUseOfOutputs\<close> are not among the sources. By section 4.2 every caller input
  must be an input of at least one selected network, and every caller output an output
  of at least one selected network; a violation is a reportable configuration error.
\<close>

definition CheckUseOfInputs :: "CLookUp_ANN \<Rightarrow> string list \<Rightarrow> CIOMap \<Rightarrow> bool" where
  "CheckUseOfInputs c inputs m \<longleftrightarrow>
     list_all (\<lambda>iInput. list_ex (list_ex (\<lambda>pr. fst pr = iInput)) (Input_Map m))
       [0..<length inputs]"

definition CheckUseOfOutputs :: "CLookUp_ANN \<Rightarrow> string list \<Rightarrow> CIOMap \<Rightarrow> bool" where
  "CheckUseOfOutputs c outputs m \<longleftrightarrow>
     list_all (\<lambda>iOutput. list_ex (list_ex (\<lambda>pr. fst pr = iOutput)) (Output_Map m))
       [0..<length outputs]"

text \<open>
  \<^verbatim>\<open>CIOMap::PairVariableswithMLPs\<close>, lines 36 to 69: \<open>pair_MLP\<close> is one turn of its loop
  over the networks.
\<close>

definition pair_MLP :: "CLookUp_ANN \<Rightarrow> string list \<Rightarrow> string list \<Rightarrow> nat \<Rightarrow> CIOMap \<Rightarrow> CIOMap" where
  "pair_MLP c inputs outputs iMLP m =
     (let Input_Indices = FindVariableIndices c iMLP inputs True;
          isInput = length Input_Indices > 0
      in if isInput
         then (let Output_Indices = FindVariableIndices c iMLP outputs False;
                   isOutput = length Output_Indices > 0
               in if isOutput
                  then m\<lparr>MLP_indices := MLP_indices m @ [iMLP],
                         Input_Map := Input_Map m @ [Input_Indices],
                         Output_Map := Output_Map m @ [Output_Indices]\<rparr>
                  else m)
         else m)"

definition PairVariableswithMLPs ::
  "CLookUp_ANN \<Rightarrow> string list \<Rightarrow> string list \<Rightarrow> CIOMap \<Rightarrow> CIOMap" where
  "PairVariableswithMLPs c inputs outputs m =
     for_loop 0 (GetNANNs c) (pair_MLP c inputs outputs) m"

text \<open>
  The constructor, lines 18 to 35. The two errors are the outcomes of the two checks, as
  modelled from the spec above.
\<close>

datatype mapping_error = InputNotUsed | OutputNotPresent

definition CIOMap_new :: "CLookUp_ANN \<Rightarrow> string list \<Rightarrow> string list \<Rightarrow> mapping_error + CIOMap" where
  "CIOMap_new c inputs outputs =
     (let m = PairVariableswithMLPs c inputs outputs
                \<lparr>MLP_indices = [], Input_Map = [], Output_Map = []\<rparr>
      in if length outputs > 0
         then (if \<not> CheckUseOfInputs c inputs m then Inl InputNotUsed
               else if \<not> CheckUseOfOutputs c outputs m then Inl OutputNotPresent
               else Inr m)
         else Inr m)"

text \<open>A network is selected when both of its index lists are non-empty.\<close>

definition selected :: "CLookUp_ANN \<Rightarrow> string list \<Rightarrow> string list \<Rightarrow> nat \<Rightarrow> bool" where
  "selected c inputs outputs iMLP \<longleftrightarrow>
     FindVariableIndices c iMLP inputs True \<noteq> [] \<and> FindVariableIndices c iMLP outputs False \<noteq> []"

section \<open>Sized networks\<close>

text \<open>
  The sizes of a layer's containers: one entry per neuron, the length of its gradient
  vector.
\<close>

definition layer_shape :: "CLayer \<Rightarrow> nat list" where
  "layer_shape l = map (\<lambda>n. length (gradient n)) (neurons l)"

text \<open>
  What \<open>SizeWeights\<close> establishes and \<open>Predict\<close> relies on: \<^verbatim>\<open>total_layers\<close> lists the
  input layer, the hidden layers and the output layer, all different objects; every layer
  holds as many neurons as it counts, each with one gradient entry per network input;
  \<^verbatim>\<open>ANN_outputs\<close> has one entry per output and \<^verbatim>\<open>dOutputs_dInputs\<close> one row per output and
  one column per input.
\<close>

definition sized :: "CNeuralNetwork \<Rightarrow> bool" where
  "sized s \<longleftrightarrow>
     length (total_layers s) = n_hidden_layers s + 2 \<and>
     total_layers s ! 0 = inputLayer s \<and>
     total_layers s ! (n_hidden_layers s + 1) = outputLayer s \<and>
     distinct (total_layers s) \<and>
     (\<forall>l < n_hidden_layers s + 2.
        layer_shape (heap s (total_layers s ! l)) =
          replicate (number_of_neurons (heap s (total_layers s ! l)))
            (number_of_neurons (heap s (inputLayer s)))) \<and>
     length (ANN_outputs s) = number_of_neurons (heap s (outputLayer s)) \<and>
     map length (dOutputs_dInputs s) =
       replicate (number_of_neurons (heap s (outputLayer s)))
         (number_of_neurons (heap s (inputLayer s)))"

text \<open>
  Two networks of the same structure differ at most in the values their neurons, their
  outputs and their jacobian hold.
\<close>

definition same_structure :: "CNeuralNetwork \<Rightarrow> CNeuralNetwork \<Rightarrow> bool" where
  "same_structure s t \<longleftrightarrow>
     total_layers t = total_layers s \<and> inputLayer t = inputLayer s \<and>
     outputLayer t = outputLayer s \<and> hiddenLayers t = hiddenLayers s \<and>
     n_hidden_layers t = n_hidden_layers s \<and> weights_mat t = weights_mat s \<and>
     input_norm t = input_norm s \<and> output_norm t = output_norm s \<and>
     last_inputs t = last_inputs s \<and>
     activation_function_types t = activation_function_types s \<and>
     activation_function_names t = activation_function_names s \<and>
     input_names t = input_names s \<and> output_names t = output_names s \<and>
     next_addr t = next_addr s \<and>
     length (ANN_outputs t) = length (ANN_outputs s) \<and>
     map length (dOutputs_dInputs t) = map length (dOutputs_dInputs s) \<and>
     (\<forall>p. number_of_neurons (heap t p) = number_of_neurons (heap s p) \<and>
          layer_shape (heap t p) = layer_shape (heap s p) \<and>
          map bias (neurons (heap t p)) = map bias (neurons (heap s p)) \<and>
          is_input (heap t p) = is_input (heap s p) \<and>
          activation_type (heap t p) = activation_type (heap s p))"

text \<open>\<open>frame p s t\<close>: \<open>t\<close> is \<open>s\<close> but for the values the neurons of the layer at \<open>p\<close> hold.\<close>

definition frame :: "addr \<Rightarrow> CNeuralNetwork \<Rightarrow> CNeuralNetwork \<Rightarrow> bool" where
  "frame p s t \<longleftrightarrow>
     same_structure s t \<and> ANN_outputs t = ANN_outputs s \<and>
     dOutputs_dInputs t = dOutputs_dInputs s \<and> (\<forall>q. q \<noteq> p \<longrightarrow> heap t q = heap s q)"

text \<open>
  Layer \<open>iLayer\<close> holds what steps 2 and 3 of the evaluation compute from the layer
  before it: every neuron's input is \<open>ComputeX\<close>, its output the activation of that
  input and, when gradients are computed, its gradient the activation's \<open>dy_dx\<close> times
  \<open>ComputedOutputdInput\<close>.
\<close>

definition layer_evaluated :: "bool \<Rightarrow> CNeuralNetwork \<Rightarrow> nat \<Rightarrow> bool" where
  "layer_evaluated compute_gradient s iLayer \<longleftrightarrow>
     (\<forall>i < number_of_neurons (heap s (total_layers s ! iLayer)).
        GetInput (heap s (total_layers s ! iLayer)) i = ComputeX s iLayer i \<and>
        GetOutput (heap s (total_layers s ! iLayer)) i =
          activation_y (activation_function_types s ! iLayer) (ComputeX s iLayer i) \<and>
        (compute_gradient \<longrightarrow>
           (\<forall>k < number_of_neurons (heap s (inputLayer s)).
              GetdYdX (heap s (total_layers s ! iLayer)) i k =
                activation_dy_dx (activation_function_types s ! iLayer) (ComputeX s iLayer i) *
                ComputedOutputdInput s iLayer i k)))"

section \<open>Example networks\<close>

text \<open>
  The build sequence of section 6 of the specification, up to \<open>SizeWeights\<close>: the input
  layer, one hidden layer for each entry of \<open>hidden\<close>, the output layer.
\<close>

definition build_layers :: "nat \<Rightarrow> nat list \<Rightarrow> nat \<Rightarrow> CNeuralNetwork" where
  "build_layers n_in hidden n_out =
     DefineOutputLayer n_out (fold PushHiddenLayer hidden (DefineInputLayer n_in CNeuralNetwork_new))"

text \<open>
  A network with one input, one hidden neuron and one output, built by the build
  sequence and filled by the setters: both weights are \<open>w\<close>, the hidden neuron has bias
  \<open>b\<close> and activation \<open>hidden\<close>, the output neuron is linear, the input bounds are
  \<open>(ilo, ihi)\<close> and the output bounds \<open>(lo, hi)\<close>.
\<close>

definition chain_net ::
  "mlpdouble \<Rightarrow> mlpdouble \<Rightarrow> string \<Rightarrow> mlpdouble \<Rightarrow> mlpdouble \<Rightarrow> mlpdouble \<Rightarrow> mlpdouble \<Rightarrow>
   CNeuralNetwork" where
  "chain_net w b hidden ilo ihi lo hi =
     SetOutputNorm 0 lo hi (SetInputNorm 0 ilo ihi
       (SetBias_net 1 0 b
         (the (SetActivationFunction 2 ''linear'' (the (SetActivationFunction 1 hidden
            (SizeActivationFunctions 3
              (SetWeight 1 0 0 w (SetWeight 0 0 0 w
                (SizeInputs 1
                  (the (SizeWeights (DefineOutputLayer 1 (PushHiddenLayer 1
                     (DefineInputLayer 1 CNeuralNetwork_new)))))))))))))))"

text \<open>
  A network with the given input and output names, and the collection of the two
  networks of the specification's scenario: inputs T, p and output rho; inputs T, p, Y
  and output mu.
\<close>

definition named_net :: "string list \<Rightarrow> string list \<Rightarrow> CNeuralNetwork" where
  "named_net ins outs =
     for_loop 0 (length outs) (\<lambda>i. SetOutputName i (outs ! i))
       (for_loop 0 (length ins) (\<lambda>i. SetInputName i (ins ! i))
          (DefineOutputLayer (length outs) (DefineInputLayer (length ins) CNeuralNetwork_new)))"

definition two_nets :: CLookUp_ANN where
  "two_nets = \<lparr>NeuralNetworks =
     [named_net [''T'', ''p''] [''rho''], named_net [''T'', ''p'', ''Y''] [''mu'']]\<rparr>"

section \<open>The network file reader\<close>

subsection \<open>Streams and conversions of the standard library\<close>

text \<open>
  An input file stream on a text file: the lines not yet read that end with a newline,
  the characters after the last newline, and the state of the stream. Reading lines
  brings an opened stream into three states only: good, \<^verbatim>\<open>eofbit\<close> alone (the last read
  took the characters after the last newline) and \<^verbatim>\<open>eofbit | failbit\<close> (a read found
  nothing to take).
\<close>

datatype iostate = goodbit | eofbit | eof_failbit

record ifstream =
  unread :: "string list"
  unterminated :: string
  rdstate :: iostate

definition eof :: "ifstream \<Rightarrow> bool" where
  "eof f \<longleftrightarrow> rdstate f \<noteq> goodbit"

definition fail :: "ifstream \<Rightarrow> bool" where
  "fail f \<longleftrightarrow> rdstate f = eof_failbit"

text \<open>
  \<^verbatim>\<open>std::getline(stream, str)\<close>: on a stream that is not good the string is left as it
  is; otherwise the string is erased and receives the next line. The stream it returns
  converts to \<open>\<not> fail\<close>.
\<close>

definition getline :: "ifstream \<Rightarrow> string \<Rightarrow> string \<times> ifstream" where
  "getline f str =
     (if rdstate f \<noteq> goodbit then (str, f\<lparr>rdstate := eof_failbit\<rparr>)
      else case unread f of
        l # ls \<Rightarrow> (l, f\<lparr>unread := ls\<rparr>)
      | [] \<Rightarrow> (unterminated f,
                f\<lparr>unterminated := [],
                  rdstate := (if unterminated f = [] then eof_failbit else eofbit)\<rparr>))"

definition isspace :: "char \<Rightarrow> bool" where
  "isspace c \<longleftrightarrow> c \<in> set [CHR '' '', CHR 0x09, CHR 0x0A, CHR 0x0B, CHR 0x0C, CHR 0x0D]"

definition isdigit :: "char \<Rightarrow> bool" where
  "isdigit c \<longleftrightarrow> c \<in> set ''0123456789''"

definition digits_value :: "string \<Rightarrow> nat" where
  "digits_value ds = foldl (\<lambda>a c. 10 * a + (of_char c - 48)) 0 ds"

text \<open>
  \<^verbatim>\<open>stream >> word\<close> on a string stream, given by the characters it has left: white
  space is skipped and the next run of other characters is stored; when nothing but
  white space is left the extraction fails and \<^verbatim>\<open>word\<close> keeps its value.
\<close>

definition extract_word :: "string \<Rightarrow> string \<Rightarrow> string \<times> string" where
  "extract_word ss word =
     (let s1 = dropWhile isspace ss
      in if s1 = [] then ([], word)
         else (dropWhile (\<lambda>c. \<not> isspace c) s1, takeWhile (\<lambda>c. \<not> isspace c) s1))"

text \<open>
  \<^verbatim>\<open>std::stoul\<close> and \<^verbatim>\<open>std::stold\<close> in decimal notation; \<open>Inl\<close> is the exception thrown when
  no conversion can be performed or the value is out of range. Hexadecimal, infinity
  and NaN notations are not modelled, and \<^verbatim>\<open>stold\<close> yields the exact value.
\<close>

definition unsigned_long_max :: nat where
  "unsigned_long_max = 2 ^ 64 - 1"

definition strip_sign :: "string \<Rightarrow> bool \<times> string" where
  "strip_sign s =
     (case s of
        [] \<Rightarrow> (False, [])
      | c # cs \<Rightarrow> if c = CHR ''-'' then (True, cs) else if c = CHR ''+'' then (False, cs)
                 else (False, s))"

definition stoul :: "string \<Rightarrow> string + nat" where
  "stoul str =
     (let sg = strip_sign (dropWhile isspace str);
          ds = takeWhile isdigit (snd sg);
          v = digits_value ds
      in if ds = [] then Inl ''stoul: invalid_argument''
         else if unsigned_long_max < v then Inl ''stoul: out_of_range''
         else Inr (if fst sg \<and> 0 < v then unsigned_long_max + 1 - v else v))"

definition exponent_part :: "string \<Rightarrow> int" where
  "exponent_part s =
     (case s of
        [] \<Rightarrow> 0
      | c # cs \<Rightarrow>
          if c = CHR ''e'' \<or> c = CHR ''E''
          then (let sg = strip_sign cs; ds = takeWhile isdigit (snd sg)
                in if fst sg then - int (digits_value ds) else int (digits_value ds))
          else 0)"

definition stold :: "string \<Rightarrow> string + mlpdouble" where
  "stold str =
     (let sg = strip_sign (dropWhile isspace str);
          ip = takeWhile isdigit (snd sg);
          r1 = dropWhile isdigit (snd sg);
          point = (r1 \<noteq> [] \<and> hd r1 = CHR ''.'');
          fp = (if point then takeWhile isdigit (tl r1) else []);
          r2 = (if point then dropWhile isdigit (tl r1) else r1);
          m = real (digits_value ip) + real (digits_value fp) / 10 ^ length fp;
          v = m * 10 powi exponent_part r2
      in if ip = [] \<and> fp = [] then Inl ''stold: invalid_argument''
         else Inr (if fst sg then - v else v))"

subsection \<open>The reader\<close>

text \<open>
  The members of \<^verbatim>\<open>CReadNeuralNetwork\<close>. The constructor stores the file name and leaves
  every vector empty; it does not initialise \<^verbatim>\<open>n_layers\<close>, which the model starts at 0:
  \<open>ReadMLPFile\<close> reads it before \<^verbatim>\<open>[number of layers]\<close> assigned it only after it has
  indexed the empty \<^verbatim>\<open>n_neurons\<close>.
\<close>

record CReadNeuralNetwork =
  input_names_rd :: "string list"
  output_names_rd :: "string list"
  filename :: string
  n_layers :: nat
  n_neurons :: "nat list"
  weights_mat_rd :: "mlpdouble list list list"
  biases_mat :: "mlpdouble list list"
  activation_functions :: "string list"
  input_norm_rd :: "(mlpdouble \<times> mlpdouble) list"
  output_norm_rd :: "(mlpdouble \<times> mlpdouble) list"

text \<open>
  How a call of \<open>ReadMLPFile\<close> ends: it returns, it throws (the value is the exception's
  message), or it indexes a vector outside its range, which C++ leaves undefined.
\<close>

datatype outcome = Normal | Thrown string | Undefined

text \<open>
  The state of a call of \<open>ReadMLPFile\<close>: the object, the local variables, the string
  stream of the line being split, and how the call has ended if it has.
\<close>

record ReadMLPFile_frame = CReadNeuralNetwork +
  file_stream :: ifstream
  line :: string
  word :: string
  line_stream :: string
  eoHeader :: bool
  found_layercount :: bool
  found_input_names :: bool
  found_output_names :: bool
  outcome :: outcome

type_synonym statement = "ReadMLPFile_frame \<Rightarrow> ReadMLPFile_frame"

text \<open>A sequence of statements; nothing runs after a throw or an undefined access.\<close>

definition block :: "statement list \<Rightarrow> statement" where
  "block stmts s = fold (\<lambda>stmt t. if outcome t = Normal then stmt t else t) stmts s"

definition throw :: "string \<Rightarrow> statement" where
  "throw what s = s\<lparr>outcome := Thrown what\<rparr>"

definition out_of_range :: statement where
  "out_of_range s = s\<lparr>outcome := Undefined\<rparr>"

text \<open>\<^verbatim>\<open>getline(file_stream, line)\<close>.\<close>

definition read_line :: statement where
  "read_line s =
     (let r = getline (file_stream s) (line s) in s\<lparr>file_stream := snd r, line := fst r\<rparr>)"

text \<open>\<^verbatim>\<open>istringstream line_stream(line)\<close> and \<^verbatim>\<open>line_stream >> word\<close>.\<close>

definition open_line_stream :: statement where
  "open_line_stream s = s\<lparr>line_stream := line s\<rparr>"

definition read_word :: statement where
  "read_word s =
     (let r = extract_word (line_stream s) (word s) in s\<lparr>line_stream := fst r, word := snd r\<rparr>)"

text \<open>\<^verbatim>\<open>n_layers - 1\<close> and \<^verbatim>\<open>n_neurons.size() - 1\<close> in \<^verbatim>\<open>unsigned long\<close>.\<close>

definition minus_one :: "nat \<Rightarrow> nat" where
  "minus_one n = (if n = 0 then unsigned_long_max else n - 1)"

text \<open>\<open>SkipToFlag\<close> (lines 191 to 206); the message it prints is not modelled.\<close>

function SkipToFlag_loop :: "string \<Rightarrow> string \<Rightarrow> ifstream \<Rightarrow> string \<times> ifstream" where
  "SkipToFlag_loop flag str f =
     (if str \<noteq> flag \<and> \<not> eof f
      then SkipToFlag_loop flag (fst (getline f str)) (snd (getline f str))
      else (str, f))"
  by pat_completeness auto
termination
  by (relation "measure (\<lambda>(flag, str, f). if rdstate f = goodbit then Suc (length (unread f)) else 0)")
    (auto simp add: getline_def eof_def split: list.splits)

definition SkipToFlag :: "ifstream \<Rightarrow> string \<Rightarrow> string \<times> ifstream" where
  "SkipToFlag f flag = SkipToFlag_loop flag (fst (getline f [])) (snd (getline f []))"

text \<open>\<^verbatim>\<open>line = SkipToFlag(&file_stream, flag)\<close>.\<close>

definition skip_to :: "string \<Rightarrow> statement" where
  "skip_to flag s =
     (let r = SkipToFlag (file_stream s) flag in s\<lparr>file_stream := snd r, line := fst r\<rparr>)"

text \<open>Lines 36 to 45: the section \<^verbatim>\<open>[number of layers]\<close>.\<close>

definition read_layer_count :: statement where
  "read_layer_count =
     block [
       read_line,
       (\<lambda>s. case stoul (line s) of Inl e \<Rightarrow> throw e s | Inr n \<Rightarrow> s\<lparr>n_layers := n\<rparr>),
       (\<lambda>s. s\<lparr>n_neurons := resize (n_layers s) 0 (n_neurons s)\<rparr>),
       (\<lambda>s. s\<lparr>biases_mat := resize (n_layers s) [] (biases_mat s)\<rparr>),
       (\<lambda>s. s\<lparr>weights_mat_rd := resize (minus_one (n_layers s)) [] (weights_mat_rd s)\<rparr>),
       (\<lambda>s. s\<lparr>activation_functions := resize (n_layers s) [] (activation_functions s)\<rparr>),
       (\<lambda>s. s\<lparr>found_layercount := True\<rparr>)]"

text \<open>Lines 48 to 77: the section \<^verbatim>\<open>[neurons per layer]\<close>.\<close>

definition read_neuron_count :: "nat \<Rightarrow> statement" where
  "read_neuron_count iLayer =
     block [
       read_line,
       (\<lambda>s. case stoul (line s) of
               Inl e \<Rightarrow> throw e s
             | Inr n \<Rightarrow> if iLayer < length (n_neurons s)
                        then s\<lparr>n_neurons := (n_neurons s)[iLayer := n]\<rparr> else out_of_range s),
       (\<lambda>s. if iLayer < length (biases_mat s) \<and> iLayer < length (n_neurons s)
             then s\<lparr>biases_mat := (biases_mat s)
                       [iLayer := resize (n_neurons s ! iLayer) 0 (biases_mat s ! iLayer)]\<rparr>
             else out_of_range s)]"

definition size_weight_row :: "nat \<Rightarrow> nat \<Rightarrow> statement" where
  "size_weight_row iLayer iNeuron s =
     (if iLayer < length (weights_mat_rd s) \<and> iNeuron < length (weights_mat_rd s ! iLayer) \<and>
         iLayer + 1 < length (n_neurons s)
      then s\<lparr>weights_mat_rd := (weights_mat_rd s)
                [iLayer := (weights_mat_rd s ! iLayer)
                   [iNeuron := resize (n_neurons s ! (iLayer + 1)) 0
                                 (weights_mat_rd s ! iLayer ! iNeuron)]]\<rparr>
      else out_of_range s)"

definition size_weights_between :: "nat \<Rightarrow> statement" where
  "size_weights_between iLayer =
     block [
       (\<lambda>s. if iLayer < length (weights_mat_rd s) \<and> iLayer < length (n_neurons s)
             then s\<lparr>weights_mat_rd := (weights_mat_rd s)
                       [iLayer := resize (n_neurons s ! iLayer) [] (weights_mat_rd s ! iLayer)]\<rparr>
             else out_of_range s),
       (\<lambda>s. if iLayer < length (n_neurons s)
             then for_loop 0 (n_neurons s ! iLayer) (\<lambda>iNeuron. block [size_weight_row iLayer iNeuron]) s
             else out_of_range s)]"

definition default_input_norm :: statement where
  "default_input_norm =
     block [
       (\<lambda>s. if 0 < length (n_neurons s)
             then s\<lparr>input_norm_rd := resize (n_neurons s ! 0) (0, 0) (input_norm_rd s)\<rparr>
             else out_of_range s),
       (\<lambda>s. for_loop 0 (n_neurons s ! 0)
               (\<lambda>iNeuron. block [\<lambda>s. if iNeuron < length (input_norm_rd s)
                    then s\<lparr>input_norm_rd := (input_norm_rd s)[iNeuron := (0, 1)]\<rparr>
                    else out_of_range s]) s)]"

definition default_output_norm :: statement where
  "default_output_norm =
     block [
       (\<lambda>s. if minus_one (length (n_neurons s)) < length (n_neurons s)
             then s\<lparr>output_norm_rd :=
                      resize (n_neurons s ! minus_one (length (n_neurons s))) (0, 0) (output_norm_rd s)\<rparr>
             else out_of_range s),
       (\<lambda>s. for_loop 0 (n_neurons s ! minus_one (length (n_neurons s)))
               (\<lambda>iNeuron. block [\<lambda>s. if iNeuron < length (output_norm_rd s)
                    then s\<lparr>output_norm_rd := (output_norm_rd s)[iNeuron := (0, 1)]\<rparr>
                    else out_of_range s]) s)]"

definition read_neuron_counts :: statement where
  "read_neuron_counts =
     block [
       (\<lambda>s. if \<not> found_layercount s
             then throw ''No layer count provided before defining neuron count per layer'' s
             else s),
       (\<lambda>s. for_loop 0 (n_layers s) read_neuron_count s),
       (\<lambda>s. for_loop 0 (minus_one (n_layers s)) size_weights_between s),
       default_input_norm,
       default_output_norm]"

text \<open>Lines 80 to 91: the section \<^verbatim>\<open>[activation function]\<close>.\<close>

definition read_activation_functions :: statement where
  "read_activation_functions =
     block [
       (\<lambda>s. if \<not> found_layercount s
             then throw ''No layer count provided before providing layer activation functions'' s
             else s),
       (\<lambda>s. for_loop 0 (n_layers s)
               (\<lambda>iLayer. block [
                  read_line, open_line_stream, read_word,
                  (\<lambda>s. if iLayer < length (activation_functions s)
                        then s\<lparr>activation_functions := (activation_functions s)[iLayer := word s]\<rparr>
                        else out_of_range s)]) s)]"

text \<open>Lines 94 to 101: the section \<^verbatim>\<open>[input names]\<close>.\<close>

definition read_input_names :: statement where
  "read_input_names =
     block [
       (\<lambda>s. s\<lparr>found_input_names := True\<rparr>),
       (\<lambda>s. if 0 < length (n_neurons s)
             then s\<lparr>input_names_rd := resize (n_neurons s ! 0) [] (input_names_rd s)\<rparr>
             else out_of_range s),
       (\<lambda>s. for_loop 0 (n_neurons s ! 0)
               (\<lambda>iInput. block [
                  read_line,
                  (\<lambda>s. if iInput < length (input_names_rd s)
                        then s\<lparr>input_names_rd := (input_names_rd s)[iInput := line s]\<rparr>
                        else out_of_range s)]) s)]"

text \<open>
  Lines 105 to 117 and 137 to 149: a line \<^verbatim>\<open>min max\<close> of the sections
  \<^verbatim>\<open>[input normalization]\<close> and \<^verbatim>\<open>[output normalization]\<close>. The two bounds are left in
  \<open>fst\<close> and \<open>snd\<close> of the pair the caller stores.
\<close>

definition read_bounds :: "(mlpdouble \<times> mlpdouble \<Rightarrow> statement) \<Rightarrow> statement" where
  "read_bounds store s =
     (let s1 = read_word (open_line_stream s)
      in case stold (word s1) of
           Inl e \<Rightarrow> throw e s1
         | Inr lo \<Rightarrow>
             (let s2 = read_word s1
              in case stold (word s2) of
                   Inl e \<Rightarrow> throw e s2
                 | Inr hi \<Rightarrow> store (lo, hi) s2))"

definition read_input_normalization :: statement where
  "read_input_normalization s =
     for_loop 0 (length (input_norm_rd s))
       (\<lambda>iInput. block [
          read_line,
          (\<lambda>s. if line s \<noteq> []
                then read_bounds (\<lambda>b s. if iInput < length (input_norm_rd s)
                       then s\<lparr>input_norm_rd := (input_norm_rd s)[iInput := b]\<rparr>
                       else out_of_range s) s
                else s)]) s"

text \<open>Lines 120 to 133: the section \<^verbatim>\<open>[output names]\<close>.\<close>

definition read_output_names :: statement where
  "read_output_names =
     block [
       (\<lambda>s. s\<lparr>found_output_names := True\<rparr>),
       (\<lambda>s. if minus_one (length (n_neurons s)) < length (n_neurons s)
             then block [
                (\<lambda>s. s\<lparr>output_names_rd :=
                        resize (n_neurons s ! minus_one (length (n_neurons s))) [] (output_names_rd s)\<rparr>),
                (\<lambda>s. for_loop 0 (n_neurons s ! minus_one (length (n_neurons s)))
                        (\<lambda>iOutput. block [
                           read_line,
                           (\<lambda>s. if iOutput < length (output_names_rd s)
                                 then s\<lparr>output_names_rd := (output_names_rd s)[iOutput := line s]\<rparr>
                                 else out_of_range s)]) s),
                (\<lambda>s. if length (output_names_rd s) \<noteq> n_neurons s ! minus_one (length (n_neurons s))
                      then throw ''No layer count provided before providing layer activation functions'' s
                      else s)] s
             else out_of_range s)]"

definition read_output_normalization :: statement where
  "read_output_normalization s =
     for_loop 0 (length (output_norm_rd s))
       (\<lambda>iOutput. block [
          read_line,
          (\<lambda>s. if line s \<noteq> []
                then read_bounds (\<lambda>b s. if iOutput < length (output_norm_rd s)
                       then s\<lparr>output_norm_rd := (output_norm_rd s)[iOutput := b]\<rparr>
                       else out_of_range s) s
                else s)]) s"

text \<open>
  The body of the header loop (lines 35 to 153): every test compares the line as the
  sections before it left it.
\<close>

definition on_line :: "string \<Rightarrow> statement \<Rightarrow> statement" where
  "on_line tag stmt s = (if line s = tag then stmt s else s)"

definition header_body :: statement where
  "header_body =
     block [
       on_line ''[number of layers]'' read_layer_count,
       on_line ''[neurons per layer]'' read_neuron_counts,
       on_line ''[activation function]'' read_activation_functions,
       on_line ''[input names]'' read_input_names,
       on_line ''[input normalization]'' read_input_normalization,
       on_line ''[output names]'' read_output_names,
       on_line ''[output normalization]'' read_output_normalization,
       on_line ''</header>'' (\<lambda>s. s\<lparr>eoHeader := True\<rparr>)]"

text \<open>
  \<^verbatim>\<open>while (getline(file_stream, line) && !eoHeader)\<close>: the line is read before the flag
  is tested, so the loop takes one more line after \<^verbatim>\<open></header>\<close>. The loop ends because
  every turn takes a line from the stream; \<open>unread_count\<close> bounds the lines a stream can
  still give.
\<close>

definition unread_count :: "ifstream \<Rightarrow> nat" where
  "unread_count f = (if rdstate f = goodbit then Suc (length (unread f)) else 0)"

function header_loop :: statement where
  "header_loop s =
     (let s1 = read_line s
      in if \<not> fail (file_stream s1) \<and> \<not> eoHeader s1
         then (let s2 = header_body s1 in if outcome s2 = Normal then header_loop s2 else s2)
         else s1)"
  by pat_completeness auto

text \<open>Lines 157 to 162: both name sections must have been met.\<close>

definition check_names :: statement where
  "check_names =
     block [
       (\<lambda>s. if \<not> found_input_names s
             then throw ''No MLP input variable names provided'' s else s),
       (\<lambda>s. if \<not> found_output_names s
             then throw ''No MLP input variable names provided'' s else s)]"

text \<open>
  Lines 166 to 177: the weights. A failed extraction leaves \<^verbatim>\<open>word\<close> as it was, and
  \<^verbatim>\<open>stold\<close> converts it again.
\<close>

definition store_weight :: "nat \<Rightarrow> nat \<Rightarrow> nat \<Rightarrow> statement" where
  "store_weight iLayer iNeuron jNeuron s =
     (case stold (word s) of
        Inl e \<Rightarrow> throw e s
      | Inr v \<Rightarrow>
          if iLayer < length (weights_mat_rd s) \<and> iNeuron < length (weights_mat_rd s ! iLayer) \<and>
             jNeuron < length (weights_mat_rd s ! iLayer ! iNeuron)
          then s\<lparr>weights_mat_rd := (weights_mat_rd s)
                    [iLayer := (weights_mat_rd s ! iLayer)
                       [iNeuron := (weights_mat_rd s ! iLayer ! iNeuron)[jNeuron := v]]]\<rparr>
          else out_of_range s)"

definition read_weight_row :: "nat \<Rightarrow> nat \<Rightarrow> statement" where
  "read_weight_row iLayer iNeuron =
     block [
       read_line, open_line_stream,
       (\<lambda>s. if iLayer + 1 < length (n_neurons s)
             then for_loop 0 (n_neurons s ! (iLayer + 1))
                    (\<lambda>jNeuron. block [read_word, store_weight iLayer iNeuron jNeuron]) s
             else out_of_range s)]"

definition read_weights :: statement where
  "read_weights s =
     for_loop 0 (minus_one (n_layers s))
       (\<lambda>iLayer. block [
          read_line,
          (\<lambda>s. if iLayer < length (n_neurons s)
                then for_loop 0 (n_neurons s ! iLayer) (read_weight_row iLayer) s
                else out_of_range s),
          read_line]) s"

text \<open>Lines 181 to 188: the biases.\<close>

definition store_bias :: "nat \<Rightarrow> nat \<Rightarrow> statement" where
  "store_bias iLayer iNeuron s =
     (case stold (word s) of
        Inl e \<Rightarrow> throw e s
      | Inr v \<Rightarrow>
          if iLayer < length (biases_mat s) \<and> iNeuron < length (biases_mat s ! iLayer)
          then s\<lparr>biases_mat := (biases_mat s)[iLayer := (biases_mat s ! iLayer)[iNeuron := v]]\<rparr>
          else out_of_range s)"

definition read_biases :: statement where
  "read_biases s =
     for_loop 0 (n_layers s)
       (\<lambda>iLayer. block [
          read_line, open_line_stream,
          (\<lambda>s. if iLayer < length (n_neurons s)
                then for_loop 0 (n_neurons s ! iLayer)
                       (\<lambda>iNeuron. block [read_word, store_bias iLayer iNeuron]) s
                else out_of_range s)]) s"

text \<open>The constructor, and the frame in which \<open>ReadMLPFile\<close> starts.\<close>

definition CReadNeuralNetwork_new :: "string \<Rightarrow> CReadNeuralNetwork" where
  "CReadNeuralNetwork_new filename_in =
     \<lparr>input_names_rd = [], output_names_rd = [], filename = filename_in, n_layers = 0,
      n_neurons = [], weights_mat_rd = [], biases_mat = [], activation_functions = [],
      input_norm_rd = [], output_norm_rd = []\<rparr>"

definition enter :: "CReadNeuralNetwork \<Rightarrow> ifstream \<Rightarrow> ReadMLPFile_frame" where
  "enter this f =
     \<lparr>input_names_rd = input_names_rd this, output_names_rd = output_names_rd this,
      filename = filename this, n_layers = n_layers this, n_neurons = n_neurons this,
      weights_mat_rd = weights_mat_rd this, biases_mat = biases_mat this,
      activation_functions = activation_functions this,
      input_norm_rd = input_norm_rd this, output_norm_rd = output_norm_rd this,
      file_stream = f, line = [], word = [], line_stream = [], eoHeader = False,
      found_layercount = False, found_input_names = False, found_output_names = False,
      outcome = Normal\<rparr>"

text \<open>
  \<open>ReadMLPFile\<close> (lines 19 to 189). The file is what opening \<^verbatim>\<open>filename\<close> gives: \<open>None\<close>
  when it cannot be opened, else the stream on its text.
\<close>

definition ReadMLPFile :: "ifstream option \<Rightarrow> CReadNeuralNetwork \<Rightarrow> ReadMLPFile_frame" where
  "ReadMLPFile file this =
     (case file of
        None \<Rightarrow>
          throw (''There is no MLP file called '' @ filename this)
            (enter this \<lparr>unread = [], unterminated = [], rdstate = eof_failbit\<rparr>)
      | Some f \<Rightarrow>
          block [
            skip_to ''<header>'',
            header_loop,
            check_names,
            skip_to ''[weights per layer]'',
            read_weights,
            skip_to ''[biases per layer]'',
            read_biases] (enter this f))"

text \<open>A text file whose lines all end with a newline, opened for reading.\<close>

definition text_file :: "string list \<Rightarrow> ifstream" where
  "text_file ls = \<lparr>unread = ls, unterminated = [], rdstate = goodbit\<rparr>"

text \<open>
  Two files. The first is complete up to the last line: the network has two layers of
  one neuron, and the section \<^verbatim>\<open>[biases per layer]\<close> holds one line where two are due. The
  second names its inputs before it gives the number of layers.
\<close>

definition truncated_file :: "string list" where
  "truncated_file =
     [''<header>'', ''[number of layers]'', ''2'', ''[neurons per layer]'', ''1'', ''1'',
      ''[activation function]'', ''none'', ''linear'', ''[input names]'', ''x'',
      ''[output names]'', ''y'', ''</header>'', '''',
      ''[weights per layer]'', ''<layer>'', ''3'', ''</layer>'',
      ''[biases per layer]'', ''5'']"

definition names_first_file :: "string list" where
  "names_first_file =
     [''<header>'', ''[input names]'', ''x'', ''[number of layers]'', ''2'',
      ''[neurons per layer]'', ''1'', ''1'', ''[activation function]'', ''none'', ''linear'',
      ''[output names]'', ''y'', ''</header>'', '''',
      ''[weights per layer]'', ''<layer>'', ''3'', ''</layer>'',
      ''[biases per layer]'', ''5'', ''7'']"

section \<open>Counted loops\<close>

lemma for_loop_empty: "hi \<le> lo \<Longrightarrow> for_loop lo hi body s = s"
  by (simp add: for_loop_def)

lemma for_loop_Suc: "lo \<le> hi \<Longrightarrow> for_loop lo (Suc hi) body s = body hi (for_loop lo hi body s)"
  by (simp add: for_loop_def)

lemma for_loop_invariant:
  assumes "P s" and "\<And>i t. lo \<le> i \<Longrightarrow> i < hi \<Longrightarrow> P t \<Longrightarrow> P (body i t)"
  shows "P (for_loop lo hi body s)"
proof (cases "lo \<le> hi")
  case True
  then show ?thesis using assms(2)
  proof (induction hi rule: dec_induct)
    case base
    then show ?case using assms(1) by (simp add: for_loop_empty)
  next
    case (step n)
    then show ?case by (simp add: for_loop_Suc)
  qed
next
  case False
  then show ?thesis using assms(1) by (simp add: for_loop_empty)
qed

lemma for_loop_counted:
  assumes "lo \<le> hi" and "P lo s"
    and "\<And>i t. lo \<le> i \<Longrightarrow> i < hi \<Longrightarrow> P i t \<Longrightarrow> P (Suc i) (body i t)"
  shows "P hi (for_loop lo hi body s)"
  using assms(1,3)
proof (induction hi rule: dec_induct)
  case base
  then show ?case using assms(2) by (simp add: for_loop_empty)
next
  case (step n)
  then show ?case by (simp add: for_loop_Suc)
qed

lemma for_loop_sum:
  "for_loop 0 n (\<lambda>j (acc::real). acc + f j) a = a + (\<Sum>j<n. f j)"
  by (induction n) (simp_all add: for_loop_empty for_loop_Suc)

section \<open>Layers and the store\<close>

lemma same_structure_refl: "same_structure s s"
  by (simp add: same_structure_def)

lemma same_structure_trans: "same_structure s t \<Longrightarrow> same_structure t u \<Longrightarrow> same_structure s u"
  by (simp add: same_structure_def)



lemma list_update_map_same:
  "f y = f (xs ! i) \<Longrightarrow> map f (xs[i := y]) = map f xs"
  by (cases "i < length xs") (simp_all add: map_update list_update_same_conv list_update_beyond)

lemma SetOutput_structure:
  "number_of_neurons (SetOutput i v l) = number_of_neurons l"
  "layer_shape (SetOutput i v l) = layer_shape l"
  "map bias (neurons (SetOutput i v l)) = map bias (neurons l)"
  "is_input (SetOutput i v l) = is_input l"
  "activation_type (SetOutput i v l) = activation_type l"
  by (simp_all add: SetOutput_def layer_shape_def list_update_map_same)

lemma SetInput_structure:
  "number_of_neurons (SetInput i v l) = number_of_neurons l"
  "layer_shape (SetInput i v l) = layer_shape l"
  "map bias (neurons (SetInput i v l)) = map bias (neurons l)"
  "is_input (SetInput i v l) = is_input l"
  "activation_type (SetInput i v l) = activation_type l"
  by (simp_all add: SetInput_def layer_shape_def list_update_map_same)

lemma SetdYdX_structure:
  "number_of_neurons (SetdYdX i k v l) = number_of_neurons l"
  "layer_shape (SetdYdX i k v l) = layer_shape l"
  "map bias (neurons (SetdYdX i k v l)) = map bias (neurons l)"
  "is_input (SetdYdX i k v l) = is_input l"
  "activation_type (SetdYdX i k v l) = activation_type l"
  by (simp_all add: SetdYdX_def layer_shape_def list_update_map_same)

lemmas layer_structure = SetOutput_structure SetInput_structure SetdYdX_structure

lemma GetBias_map:
  assumes "map bias (neurons l') = map bias (neurons l)" and "i < length (neurons l)"
  shows "GetBias l' i = GetBias l i"
proof -
  have "length (neurons l') = length (neurons l)"
    using assms(1) by (metis length_map)
  with assms show ?thesis
    unfolding GetBias_def by (metis nth_map)
qed

lemma GetOutput_SetOutput:
  "GetOutput (SetOutput i v l) j = (if j = i \<and> i < length (layer_shape l) then v else GetOutput l j)"
  by (auto simp add: GetOutput_def SetOutput_def layer_shape_def nth_list_update not_less list_update_beyond)

lemma GetOutput_SetInput: "GetOutput (SetInput i v l) j = GetOutput l j"
  by (cases "i < length (neurons l)") (simp_all add: GetOutput_def SetInput_def nth_list_update not_less list_update_beyond)

lemma GetOutput_SetdYdX: "GetOutput (SetdYdX i k v l) j = GetOutput l j"
  by (cases "i < length (neurons l)") (simp_all add: GetOutput_def SetdYdX_def nth_list_update not_less list_update_beyond)

lemma GetInput_SetInput:
  "GetInput (SetInput i v l) j = (if j = i \<and> i < length (layer_shape l) then v else GetInput l j)"
  by (auto simp add: GetInput_def SetInput_def layer_shape_def nth_list_update not_less list_update_beyond)

lemma GetInput_SetOutput: "GetInput (SetOutput i v l) j = GetInput l j"
  by (cases "i < length (neurons l)") (simp_all add: GetInput_def SetOutput_def nth_list_update not_less list_update_beyond)

lemma GetInput_SetdYdX: "GetInput (SetdYdX i k v l) j = GetInput l j"
  by (cases "i < length (neurons l)") (simp_all add: GetInput_def SetdYdX_def nth_list_update not_less list_update_beyond)

lemma GetdYdX_SetOutput: "GetdYdX (SetOutput i v l) j m = GetdYdX l j m"
  by (cases "i < length (neurons l)") (simp_all add: GetdYdX_def SetOutput_def nth_list_update not_less list_update_beyond)

lemma GetdYdX_SetInput: "GetdYdX (SetInput i v l) j m = GetdYdX l j m"
  by (cases "i < length (neurons l)") (simp_all add: GetdYdX_def SetInput_def nth_list_update not_less list_update_beyond)

lemma GetdYdX_SetdYdX:
  "GetdYdX (SetdYdX i k v l) j m =
     (if j = i \<and> m = k \<and> i < length (layer_shape l) \<and> k < layer_shape l ! i then v
      else GetdYdX l j m)"
  by (cases "i < length (neurons l)")
     (auto simp add: GetdYdX_def SetdYdX_def layer_shape_def nth_list_update not_less list_update_beyond)

lemmas layer_values = GetOutput_SetOutput GetOutput_SetInput GetOutput_SetdYdX
  GetInput_SetInput GetInput_SetOutput GetInput_SetdYdX
  GetdYdX_SetOutput GetdYdX_SetInput GetdYdX_SetdYdX



lemma heap_update_layer: "heap (update_layer p f s) q = (if q = p then f (heap s p) else heap s q)"
  by (simp add: update_layer_def)

lemma update_layer_fields:
  "total_layers (update_layer p f s) = total_layers s"
  "inputLayer (update_layer p f s) = inputLayer s"
  "outputLayer (update_layer p f s) = outputLayer s"
  "n_hidden_layers (update_layer p f s) = n_hidden_layers s"
  "weights_mat (update_layer p f s) = weights_mat s"
  "input_norm (update_layer p f s) = input_norm s"
  "output_norm (update_layer p f s) = output_norm s"
  "activation_function_types (update_layer p f s) = activation_function_types s"
  "ANN_outputs (update_layer p f s) = ANN_outputs s"
  "dOutputs_dInputs (update_layer p f s) = dOutputs_dInputs s"
  by (simp_all add: update_layer_def)

lemma same_structure_update_layer:
  assumes "number_of_neurons (f (heap s p)) = number_of_neurons (heap s p)"
    and "layer_shape (f (heap s p)) = layer_shape (heap s p)"
    and "map bias (neurons (f (heap s p))) = map bias (neurons (heap s p))"
    and "is_input (f (heap s p)) = is_input (heap s p)"
    and "activation_type (f (heap s p)) = activation_type (heap s p)"
  shows "same_structure s (update_layer p f s)"
  using assms by (simp add: same_structure_def update_layer_def)


lemma frame_refl: "frame p s s"
  by (simp add: frame_def same_structure_refl)

lemma frame_trans: "frame p s t \<Longrightarrow> frame p t u \<Longrightarrow> frame p s u"
  unfolding frame_def using same_structure_trans by auto

lemma frame_update_layer:
  assumes "number_of_neurons (f (heap s p)) = number_of_neurons (heap s p)"
    and "layer_shape (f (heap s p)) = layer_shape (heap s p)"
    and "map bias (neurons (f (heap s p))) = map bias (neurons (heap s p))"
    and "is_input (f (heap s p)) = is_input (heap s p)"
    and "activation_type (f (heap s p)) = activation_type (heap s p)"
  shows "frame p s (update_layer p f s)"
  unfolding frame_def
  using same_structure_update_layer [of f s p] assms
  by (simp add: update_layer_def)

lemma frame_fields:
  assumes "frame p s t"
  shows "total_layers t = total_layers s" "inputLayer t = inputLayer s"
    "outputLayer t = outputLayer s" "n_hidden_layers t = n_hidden_layers s"
    "weights_mat t = weights_mat s" "input_norm t = input_norm s"
    "output_norm t = output_norm s" "last_inputs t = last_inputs s"
    "activation_function_types t = activation_function_types s"
    "ANN_outputs t = ANN_outputs s" "dOutputs_dInputs t = dOutputs_dInputs s"
    "number_of_neurons (heap t q) = number_of_neurons (heap s q)"
    "layer_shape (heap t q) = layer_shape (heap s q)"
    "GetNNeurons (heap t q) = GetNNeurons (heap s q)"
  using assms by (simp_all add: frame_def same_structure_def GetNNeurons_def)

lemma frame_heap: "frame p s t \<Longrightarrow> q \<noteq> p \<Longrightarrow> heap t q = heap s q"
  by (simp add: frame_def)

lemma frame_GetBias:
  "frame p s t \<Longrightarrow> i < length (layer_shape (heap s q)) \<Longrightarrow> GetBias (heap t q) i = GetBias (heap s q) i"
  by (rule GetBias_map) (simp_all add: frame_def same_structure_def layer_shape_def)

lemma frame_x_norm: "frame p s t \<Longrightarrow> x_norm t inputs i = x_norm s inputs i"
  by (simp add: x_norm_def frame_fields)

lemma sized_same_structure: "sized s \<Longrightarrow> same_structure s t \<Longrightarrow> sized t"
  by (simp add: sized_def same_structure_def)

lemma sized_frame: "sized s \<Longrightarrow> frame p s t \<Longrightarrow> sized t"
  using sized_same_structure by (auto simp: frame_def)

lemma sized_layers_differ:
  "sized s \<Longrightarrow> l < n_hidden_layers s + 2 \<Longrightarrow> m < n_hidden_layers s + 2 \<Longrightarrow>
   total_layers s ! l = total_layers s ! m \<longleftrightarrow> l = m"
  by (simp add: sized_def nth_eq_iff_index_eq)

lemma sized_shape:
  "sized s \<Longrightarrow> l < n_hidden_layers s + 2 \<Longrightarrow>
   layer_shape (heap s (total_layers s ! l)) =
     replicate (number_of_neurons (heap s (total_layers s ! l))) (number_of_neurons (heap s (total_layers s ! 0)))"
  by (simp add: sized_def)

lemma sized_input: "sized s \<Longrightarrow> inputLayer s = total_layers s ! 0"
  by (simp add: sized_def)

lemma sized_output: "sized s \<Longrightarrow> outputLayer s = total_layers s ! (n_hidden_layers s + 1)"
  by (simp add: sized_def)

text \<open>ComputeX as a sum; congruence\<close>

lemma ComputeX_sum:
  "ComputeX s iLayer iNeuron =
     GetBias (heap s (total_layers s ! iLayer)) iNeuron +
     (\<Sum>jNeuron < number_of_neurons (heap s (total_layers s ! (iLayer - 1))).
        weights_mat s ! (iLayer - 1) ! iNeuron ! jNeuron *
        GetOutput (heap s (total_layers s ! (iLayer - 1))) jNeuron)"
  by (simp add: ComputeX_def for_loop_sum GetNNeurons_def)

lemma ComputedOutputdInput_sum:
  "ComputedOutputdInput s iLayer iNeuron iInput =
     (\<Sum>jNeuron < number_of_neurons (heap s (total_layers s ! (iLayer - 1))).
        weights_mat s ! (iLayer - 1) ! iNeuron ! jNeuron *
        GetdYdX (heap s (total_layers s ! (iLayer - 1))) jNeuron iInput)"
  by (simp add: ComputedOutputdInput_def for_loop_sum GetNNeurons_def)

lemma ComputeX_frame:
  assumes "frame p s t" and "total_layers s ! (iLayer - 1) \<noteq> p"
    and "iNeuron < length (layer_shape (heap s (total_layers s ! iLayer)))"
  shows "ComputeX t iLayer iNeuron = ComputeX s iLayer iNeuron"
  using assms
  by (simp add: ComputeX_sum frame_fields frame_heap frame_GetBias)

lemma ComputedOutputdInput_frame:
  assumes "frame p s t" and "total_layers s ! (iLayer - 1) \<noteq> p"
  shows "ComputedOutputdInput t iLayer iNeuron iInput = ComputedOutputdInput s iLayer iNeuron iInput"
  using assms
  by (simp add: ComputedOutputdInput_sum frame_fields frame_heap)


lemma frame_step:
  assumes "frame p s t"
    and "number_of_neurons (f (heap t p)) = number_of_neurons (heap t p)"
    and "layer_shape (f (heap t p)) = layer_shape (heap t p)"
    and "map bias (neurons (f (heap t p))) = map bias (neurons (heap t p))"
    and "is_input (f (heap t p)) = is_input (heap t p)"
    and "activation_type (f (heap t p)) = activation_type (heap t p)"
  shows "frame p s (update_layer p f t)"
  using assms(1) frame_update_layer [of f t p] assms(2-) by (blast intro: frame_trans)

lemma scale_gradient_effect:
  fixes s iLayer iNeuron dy_dx
  defines "p \<equiv> total_layers s ! iLayer"
  defines "t \<equiv> scale_gradient iLayer iNeuron dy_dx s"
  shows "frame p s t"
    and "GetOutput (heap t p) j = GetOutput (heap s p) j"
    and "GetInput (heap t p) j = GetInput (heap s p) j"
    and "GetdYdX (heap t p) j k =
          (if j = iNeuron \<and> k < number_of_neurons (heap s (inputLayer s)) \<and>
              iNeuron < length (layer_shape (heap s p)) \<and> k < layer_shape (heap s p) ! iNeuron
           then dy_dx * GetdYdX (heap s p) j k else GetdYdX (heap s p) j k)"
proof -
  let ?n = "number_of_neurons (heap s (inputLayer s))"
  let ?body = "\<lambda>iInput t. update_layer (total_layers t ! iLayer)
           (\<lambda>l. SetdYdX iNeuron iInput (dy_dx * GetdYdX l iNeuron iInput) l) t"
  let ?P = "\<lambda>m u. frame p s u \<and>
      (\<forall>j. GetOutput (heap u p) j = GetOutput (heap s p) j) \<and>
      (\<forall>j. GetInput (heap u p) j = GetInput (heap s p) j) \<and>
      (\<forall>j k. GetdYdX (heap u p) j k =
          (if j = iNeuron \<and> k < m \<and>
              iNeuron < length (layer_shape (heap s p)) \<and> k < layer_shape (heap s p) ! iNeuron
           then dy_dx * GetdYdX (heap s p) j k else GetdYdX (heap s p) j k))"
  have "?P ?n (for_loop 0 ?n ?body s)"
  proof (rule for_loop_counted [where P = ?P])
    show "?P 0 s" by (simp add: frame_refl)
  next
    fix m u
    assume m: "m < ?n" and inv: "?P m u"
    then have fr: "frame p s u" by simp
    have tl: "total_layers u ! iLayer = p"
      using fr by (simp add: p_def frame_fields)
    have fr': "frame p s (?body m u)"
      unfolding tl by (rule frame_step [OF fr]) (simp_all add: layer_structure)
    have sh: "layer_shape (heap u p) = layer_shape (heap s p)"
      using fr by (simp add: frame_fields)
    have o: "\<And>j. GetOutput (heap (?body m u) p) j = GetOutput (heap s p) j"
      using inv unfolding tl by (simp add: heap_update_layer layer_values)
    have i: "\<And>j. GetInput (heap (?body m u) p) j = GetInput (heap s p) j"
      using inv unfolding tl by (simp add: heap_update_layer layer_values)
    have g: "\<And>j k. GetdYdX (heap (?body m u) p) j k =
          (if j = iNeuron \<and> k < Suc m \<and>
              iNeuron < length (layer_shape (heap s p)) \<and> k < layer_shape (heap s p) ! iNeuron
           then dy_dx * GetdYdX (heap s p) j k else GetdYdX (heap s p) j k)"
      using inv unfolding tl by (auto simp add: heap_update_layer layer_values sh less_Suc_eq)
    show "?P (Suc m) (?body m u)"
      using fr' o i g by blast
  qed simp
  then show "frame p s t"
    and "GetOutput (heap t p) j = GetOutput (heap s p) j"
    and "GetInput (heap t p) j = GetInput (heap s p) j"
    and "GetdYdX (heap t p) j k =
          (if j = iNeuron \<and> k < number_of_neurons (heap s (inputLayer s)) \<and>
              iNeuron < length (layer_shape (heap s p)) \<and> k < layer_shape (heap s p) ! iNeuron
           then dy_dx * GetdYdX (heap s p) j k else GetdYdX (heap s p) j k)"
    unfolding t_def scale_gradient_def GetNNeurons_def by blast+
qed


lemma activate_neuron_effect:
  fixes s iLayer iNeuron kind compute_gradient
  defines "p \<equiv> total_layers s ! iLayer"
  defines "t \<equiv> activate_neuron kind compute_gradient iLayer iNeuron s"
  defines "x \<equiv> GetInput (heap s p) iNeuron"
  shows "frame p s t"
    and "GetInput (heap t p) j = GetInput (heap s p) j"
    and "GetOutput (heap t p) j =
          (if j = iNeuron \<and> iNeuron < length (layer_shape (heap s p))
           then activation_y kind x else GetOutput (heap s p) j)"
    and "GetdYdX (heap t p) j k =
          (if compute_gradient \<and> j = iNeuron \<and> k < number_of_neurons (heap s (inputLayer s)) \<and>
              iNeuron < length (layer_shape (heap s p)) \<and> k < layer_shape (heap s p) ! iNeuron
           then activation_dy_dx kind x * GetdYdX (heap s p) j k else GetdYdX (heap s p) j k)"
proof -
  define s1 where "s1 = update_layer p (SetOutput iNeuron (activation_y kind x)) s"
  have fr1: "frame p s s1"
    unfolding s1_def by (rule frame_update_layer) (simp_all add: layer_structure)
  have tl1: "total_layers s1 ! iLayer = p"
    using fr1 by (simp add: p_def frame_fields)
  have t: "t = (if compute_gradient then scale_gradient iLayer iNeuron (activation_dy_dx kind x) s1 else s1)"
    by (simp add: t_def activate_neuron_def Let_def s1_def p_def x_def)
  have v1: "\<And>j. GetInput (heap s1 p) j = GetInput (heap s p) j"
    "\<And>j. GetOutput (heap s1 p) j =
          (if j = iNeuron \<and> iNeuron < length (layer_shape (heap s p))
           then activation_y kind x else GetOutput (heap s p) j)"
    "\<And>j k. GetdYdX (heap s1 p) j k = GetdYdX (heap s p) j k"
    by (simp_all add: s1_def heap_update_layer layer_values)
  have sh: "layer_shape (heap s1 p) = layer_shape (heap s p)"
    "number_of_neurons (heap s1 (inputLayer s1)) = number_of_neurons (heap s (inputLayer s))"
    using fr1 by (simp_all add: frame_fields)
  note sg = scale_gradient_effect [where s = s1 and iLayer = iLayer and iNeuron = iNeuron and dy_dx = "activation_dy_dx kind x", unfolded tl1]
  show "frame p s t"
    unfolding t using fr1 sg(1) by (auto intro: frame_trans)
  show "GetInput (heap t p) j = GetInput (heap s p) j"
    unfolding t using v1 sg(3) by simp
  show "GetOutput (heap t p) j =
          (if j = iNeuron \<and> iNeuron < length (layer_shape (heap s p))
           then activation_y kind x else GetOutput (heap s p) j)"
    unfolding t using v1 sg(2) by simp
  show "GetdYdX (heap t p) j k =
          (if compute_gradient \<and> j = iNeuron \<and> k < number_of_neurons (heap s (inputLayer s)) \<and>
              iNeuron < length (layer_shape (heap s p)) \<and> k < layer_shape (heap s p) ! iNeuron
           then activation_dy_dx kind x * GetdYdX (heap s p) j k else GetdYdX (heap s p) j k)"
    unfolding t using v1(3) sg(4) sh by simp
qed

lemma compute_neuron_input_effect:
  fixes s iLayer iNeuron compute_gradient
  defines "p \<equiv> total_layers s ! iLayer"
  defines "t \<equiv> compute_neuron_input compute_gradient iLayer iNeuron s"
  assumes prev: "total_layers s ! (iLayer - 1) \<noteq> p"
  shows "frame p s t"
    and "GetOutput (heap t p) j = GetOutput (heap s p) j"
    and "GetInput (heap t p) j =
          (if j = iNeuron \<and> iNeuron < length (layer_shape (heap s p))
           then ComputeX s iLayer iNeuron else GetInput (heap s p) j)"
    and "GetdYdX (heap t p) j k =
          (if compute_gradient \<and> j = iNeuron \<and> k < number_of_neurons (heap s (inputLayer s)) \<and>
              iNeuron < length (layer_shape (heap s p)) \<and> k < layer_shape (heap s p) ! iNeuron
           then ComputedOutputdInput s iLayer iNeuron k else GetdYdX (heap s p) j k)"
proof -
  define s1 where "s1 = update_layer p (SetInput iNeuron (ComputeX s iLayer iNeuron)) s"
  let ?n = "number_of_neurons (heap s (inputLayer s))"
  let ?body = "\<lambda>iInput t. update_layer (total_layers t ! iLayer)
                    (SetdYdX iNeuron iInput (ComputedOutputdInput t iLayer iNeuron iInput)) t"
  have fr1: "frame p s s1"
    unfolding s1_def by (rule frame_update_layer) (simp_all add: layer_structure)
  have t: "t = (if compute_gradient then for_loop 0 ?n ?body s1 else s1)"
    using fr1
    by (simp add: t_def compute_neuron_input_def Let_def s1_def [symmetric] p_def [symmetric]
        GetNNeurons_def frame_fields)
  have v1: "\<And>j. GetOutput (heap s1 p) j = GetOutput (heap s p) j"
    "\<And>j. GetInput (heap s1 p) j =
          (if j = iNeuron \<and> iNeuron < length (layer_shape (heap s p))
           then ComputeX s iLayer iNeuron else GetInput (heap s p) j)"
    "\<And>j k. GetdYdX (heap s1 p) j k = GetdYdX (heap s p) j k"
    by (simp_all add: s1_def heap_update_layer layer_values)
  let ?P = "\<lambda>m u. frame p s u \<and>
      (\<forall>j. GetOutput (heap u p) j = GetOutput (heap s1 p) j) \<and>
      (\<forall>j. GetInput (heap u p) j = GetInput (heap s1 p) j) \<and>
      (\<forall>j k. GetdYdX (heap u p) j k =
          (if j = iNeuron \<and> k < m \<and>
              iNeuron < length (layer_shape (heap s p)) \<and> k < layer_shape (heap s p) ! iNeuron
           then ComputedOutputdInput s iLayer iNeuron k else GetdYdX (heap s p) j k))"
  have loop: "?P ?n (for_loop 0 ?n ?body s1)"
  proof (rule for_loop_counted [where P = ?P])
    show "?P 0 s1" using fr1 v1 by simp
  next
    fix m u
    assume m: "m < ?n" and inv: "?P m u"
    then have fr: "frame p s u" by simp
    have tl: "total_layers u ! iLayer = p"
      using fr by (simp add: p_def frame_fields)
    have c: "ComputedOutputdInput u iLayer iNeuron m = ComputedOutputdInput s iLayer iNeuron m"
      by (rule ComputedOutputdInput_frame [OF fr prev])
    have fr': "frame p s (?body m u)"
      unfolding tl by (rule frame_step [OF fr]) (simp_all add: layer_structure)
    have sh: "layer_shape (heap u p) = layer_shape (heap s p)"
      using fr by (simp add: frame_fields)
    have o: "\<And>j. GetOutput (heap (?body m u) p) j = GetOutput (heap s1 p) j"
      using inv unfolding tl by (simp add: heap_update_layer layer_values)
    have i: "\<And>j. GetInput (heap (?body m u) p) j = GetInput (heap s1 p) j"
      using inv unfolding tl by (simp add: heap_update_layer layer_values)
    have g: "\<And>j k. GetdYdX (heap (?body m u) p) j k =
          (if j = iNeuron \<and> k < Suc m \<and>
              iNeuron < length (layer_shape (heap s p)) \<and> k < layer_shape (heap s p) ! iNeuron
           then ComputedOutputdInput s iLayer iNeuron k else GetdYdX (heap s p) j k)"
      using inv unfolding tl c by (auto simp add: heap_update_layer layer_values sh less_Suc_eq)
    show "?P (Suc m) (?body m u)"
      using fr' o i g by blast
  qed simp
  show "frame p s t"
    unfolding t using fr1 loop by simp
  show "GetOutput (heap t p) j = GetOutput (heap s p) j"
    unfolding t using v1 loop by simp
  show "GetInput (heap t p) j =
          (if j = iNeuron \<and> iNeuron < length (layer_shape (heap s p))
           then ComputeX s iLayer iNeuron else GetInput (heap s p) j)"
    unfolding t using v1 loop by simp
  show "GetdYdX (heap t p) j k =
          (if compute_gradient \<and> j = iNeuron \<and> k < number_of_neurons (heap s (inputLayer s)) \<and>
              iNeuron < length (layer_shape (heap s p)) \<and> k < layer_shape (heap s p) ! iNeuron
           then ComputedOutputdInput s iLayer iNeuron k else GetdYdX (heap s p) j k)"
    unfolding t using v1(3) loop by simp
qed


lemma evaluate_layer_effect:
  fixes s iLayer compute_gradient
  defines "p \<equiv> total_layers s ! iLayer"
  defines "t \<equiv> evaluate_layer compute_gradient iLayer s"
  defines "kind \<equiv> activation_function_types s ! iLayer"
  assumes prev: "total_layers s ! (iLayer - 1) \<noteq> p"
    and shape: "layer_shape (heap s p) =
                 replicate (number_of_neurons (heap s p)) (number_of_neurons (heap s (inputLayer s)))"
  shows "frame p s t"
    and "GetInput (heap t p) j =
          (if j < number_of_neurons (heap s p) then ComputeX s iLayer j else GetInput (heap s p) j)"
    and "GetOutput (heap t p) j =
          (if j < number_of_neurons (heap s p) then activation_y kind (ComputeX s iLayer j)
           else GetOutput (heap s p) j)"
    and "GetdYdX (heap t p) j k =
          (if compute_gradient \<and> j < number_of_neurons (heap s p) \<and>
              k < number_of_neurons (heap s (inputLayer s))
           then activation_dy_dx kind (ComputeX s iLayer j) * ComputedOutputdInput s iLayer j k
           else GetdYdX (heap s p) j k)"
proof -
  let ?N = "number_of_neurons (heap s p)"
  let ?n = "number_of_neurons (heap s (inputLayer s))"
  define s1 where "s1 = for_loop 0 ?N (compute_neuron_input compute_gradient iLayer) s"
  let ?P1 = "\<lambda>m u. frame p s u \<and>
      (\<forall>j. GetOutput (heap u p) j = GetOutput (heap s p) j) \<and>
      (\<forall>j. GetInput (heap u p) j = (if j < m then ComputeX s iLayer j else GetInput (heap s p) j)) \<and>
      (\<forall>j k. GetdYdX (heap u p) j k =
          (if compute_gradient \<and> j < m \<and> k < ?n
           then ComputedOutputdInput s iLayer j k else GetdYdX (heap s p) j k))"
  have loop1: "?P1 ?N s1"
    unfolding s1_def
  proof (rule for_loop_counted [where P = ?P1])
    show "?P1 0 s" by (simp add: frame_refl)
  next
    fix m u
    assume m: "m < ?N" and inv: "?P1 m u"
    then have fr: "frame p s u" by simp
    have tl: "total_layers u ! iLayer = p" "total_layers u ! (iLayer - 1) = total_layers s ! (iLayer - 1)"
      using fr by (simp_all add: p_def frame_fields)
    have prev': "total_layers u ! (iLayer - 1) \<noteq> total_layers u ! iLayer"
      using prev tl by simp
    have sh: "layer_shape (heap u p) = replicate ?N ?n"
      "number_of_neurons (heap u (inputLayer u)) = ?n"
      using fr shape by (simp_all add: frame_fields)
    have cx: "ComputeX u iLayer m = ComputeX s iLayer m"
      by (rule ComputeX_frame [OF fr prev]) (use m shape in \<open>simp add: p_def [symmetric]\<close>)
    have cg: "\<And>k. ComputedOutputdInput u iLayer m k = ComputedOutputdInput s iLayer m k"
      by (rule ComputedOutputdInput_frame [OF fr prev])
    note e = compute_neuron_input_effect [where s = u and iLayer = iLayer and iNeuron = m
        and compute_gradient = compute_gradient, OF prev', unfolded tl(1) sh cx cg]
    have fr': "frame p s (compute_neuron_input compute_gradient iLayer m u)"
      using fr e(1) by (rule frame_trans)
    have o: "\<And>j. GetOutput (heap (compute_neuron_input compute_gradient iLayer m u) p) j =
               GetOutput (heap s p) j"
      using inv e(2) by simp
    have i: "\<And>j. GetInput (heap (compute_neuron_input compute_gradient iLayer m u) p) j =
               (if j < Suc m then ComputeX s iLayer j else GetInput (heap s p) j)"
      using inv e(3) m by (auto simp add: less_Suc_eq)
    have g: "\<And>j k. GetdYdX (heap (compute_neuron_input compute_gradient iLayer m u) p) j k =
          (if compute_gradient \<and> j < Suc m \<and> k < ?n
           then ComputedOutputdInput s iLayer j k else GetdYdX (heap s p) j k)"
      using inv e(4) m by (auto simp add: less_Suc_eq)
    show "?P1 (Suc m) (compute_neuron_input compute_gradient iLayer m u)"
      using fr' o i g by blast
  qed simp
  then have fr1: "frame p s s1" by simp
  have kind1: "activation_function_types s1 ! iLayer = kind"
    using fr1 by (simp add: kind_def frame_fields)
  have t: "t = for_loop 0 ?N (activate_neuron kind compute_gradient iLayer) s1"
    by (simp add: t_def evaluate_layer_def Let_def GetNNeurons_def p_def [symmetric]
        s1_def [symmetric] kind1)
  let ?P2 = "\<lambda>m u. frame p s u \<and>
      (\<forall>j. GetInput (heap u p) j = GetInput (heap s1 p) j) \<and>
      (\<forall>j. GetOutput (heap u p) j =
           (if j < m then activation_y kind (GetInput (heap s1 p) j) else GetOutput (heap s1 p) j)) \<and>
      (\<forall>j k. GetdYdX (heap u p) j k =
          (if compute_gradient \<and> j < m \<and> k < ?n
           then activation_dy_dx kind (GetInput (heap s1 p) j) * GetdYdX (heap s1 p) j k
           else GetdYdX (heap s1 p) j k))"
  have loop2: "?P2 ?N t"
    unfolding t
  proof (rule for_loop_counted [where P = ?P2])
    show "?P2 0 s1" using fr1 by simp
  next
    fix m u
    assume m: "m < ?N" and inv: "?P2 m u"
    then have fr: "frame p s u" by simp
    have tl: "total_layers u ! iLayer = p"
      using fr by (simp add: p_def frame_fields)
    have sh: "layer_shape (heap u p) = replicate ?N ?n"
      "number_of_neurons (heap u (inputLayer u)) = ?n"
      using fr shape by (simp_all add: frame_fields)
    note e = activate_neuron_effect [where s = u and iLayer = iLayer and iNeuron = m
        and compute_gradient = compute_gradient and kind = kind, unfolded tl sh]
    have fr': "frame p s (activate_neuron kind compute_gradient iLayer m u)"
      using fr e(1) by (rule frame_trans)
    have i: "\<And>j. GetInput (heap (activate_neuron kind compute_gradient iLayer m u) p) j =
               GetInput (heap s1 p) j"
      using inv e(2) by simp
    have o: "\<And>j. GetOutput (heap (activate_neuron kind compute_gradient iLayer m u) p) j =
           (if j < Suc m then activation_y kind (GetInput (heap s1 p) j) else GetOutput (heap s1 p) j)"
      using inv e(3) m by (auto simp add: less_Suc_eq)
    have g: "\<And>j k. GetdYdX (heap (activate_neuron kind compute_gradient iLayer m u) p) j k =
          (if compute_gradient \<and> j < Suc m \<and> k < ?n
           then activation_dy_dx kind (GetInput (heap s1 p) j) * GetdYdX (heap s1 p) j k
           else GetdYdX (heap s1 p) j k)"
      using inv e(4) m by (auto simp add: less_Suc_eq)
    show "?P2 (Suc m) (activate_neuron kind compute_gradient iLayer m u)"
      using fr' o i g by blast
  qed simp
  show "frame p s t" using loop2 by simp
  show "GetInput (heap t p) j =
          (if j < number_of_neurons (heap s p) then ComputeX s iLayer j else GetInput (heap s p) j)"
    using loop1 loop2 by simp
  show "GetOutput (heap t p) j =
          (if j < number_of_neurons (heap s p) then activation_y kind (ComputeX s iLayer j)
           else GetOutput (heap s p) j)"
    using loop1 loop2 by simp
  show "GetdYdX (heap t p) j k =
          (if compute_gradient \<and> j < number_of_neurons (heap s p) \<and>
              k < number_of_neurons (heap s (inputLayer s))
           then activation_dy_dx kind (ComputeX s iLayer j) * ComputedOutputdInput s iLayer j k
           else GetdYdX (heap s p) j k)"
    using loop1 loop2 by simp
qed


lemma abs_diff_pos_iff: "\<bar>a - b\<bar> > 0 \<longleftrightarrow> a \<noteq> (b::real)"
  by auto

lemma normalize_inputs_effect:
  fixes s inputs compute_gradient
  defines "p \<equiv> inputLayer s"
  defines "t \<equiv> fst (normalize_inputs inputs compute_gradient s)"
  defines "same_point \<equiv> snd (normalize_inputs inputs compute_gradient s)"
  assumes shape: "layer_shape (heap s p) =
                    replicate (number_of_neurons (heap s p)) (number_of_neurons (heap s p))"
  shows "frame p s t"
    and "GetInput (heap t p) j = GetInput (heap s p) j"
    and "GetOutput (heap t p) j =
          (if j < number_of_neurons (heap s p) then x_norm s inputs j else GetOutput (heap s p) j)"
    and "GetdYdX (heap t p) j k =
          (if compute_gradient \<and> j < number_of_neurons (heap s p) \<and> k = j
           then 1 / (snd (input_norm s ! j) - fst (input_norm s ! j))
           else GetdYdX (heap s p) j k)"
    and "same_point \<longleftrightarrow>
          (\<forall>j < number_of_neurons (heap s p). x_norm s inputs j = GetOutput (heap s p) j)"
proof -
  let ?N = "number_of_neurons (heap s p)"
  let ?P = "\<lambda>m st. frame p s (fst st) \<and>
      (\<forall>j. GetInput (heap (fst st) p) j = GetInput (heap s p) j) \<and>
      (\<forall>j. GetOutput (heap (fst st) p) j =
           (if j < m then x_norm s inputs j else GetOutput (heap s p) j)) \<and>
      (\<forall>j k. GetdYdX (heap (fst st) p) j k =
          (if compute_gradient \<and> j < m \<and> k = j
           then 1 / (snd (input_norm s ! j) - fst (input_norm s ! j))
           else GetdYdX (heap s p) j k)) \<and>
      (snd st \<longleftrightarrow> (\<forall>j < m. x_norm s inputs j = GetOutput (heap s p) j))"
  have loop: "?P ?N (normalize_inputs inputs compute_gradient s)"
    unfolding normalize_inputs_def GetNNeurons_def p_def [symmetric]
  proof (rule for_loop_counted [where P = ?P])
    show "?P 0 (s, True)" by (simp add: frame_refl)
  next
    fix m st
    assume m: "m < ?N" and inv: "?P m st"
    obtain u sp where st: "st = (u, sp)" by (cases st)
    have fr: "frame p s u" using inv st by simp
    have il: "inputLayer u = p" "input_norm u = input_norm s"
      using fr by (simp_all add: p_def frame_fields)
    have xn: "x_norm u inputs m = x_norm s inputs m"
      using fr by (rule frame_x_norm)
    have sh: "layer_shape (heap u p) = replicate ?N ?N"
      using fr shape by (simp add: frame_fields)
    define u1 where "u1 = update_layer p (SetOutput m (x_norm s inputs m)) u"
    define u2 where "u2 = (if compute_gradient
        then update_layer p (SetdYdX m m (1 / (snd (input_norm s ! m) - fst (input_norm s ! m)))) u1
        else u1)"
    have nn: "normalize_neuron inputs compute_gradient m st =
        (u2, if x_norm s inputs m \<noteq> GetOutput (heap u p) m then False else sp)"
      by (simp add: normalize_neuron_def st Let_def il xn u1_def u2_def update_layer_fields
          abs_diff_pos_iff)
    have fr1: "frame p s u1"
      unfolding u1_def by (rule frame_step [OF fr]) (simp_all add: layer_structure)
    have fr2: "frame p s u2"
      unfolding u2_def using fr1
      by (auto intro!: frame_step simp add: layer_structure)
    have sh1: "layer_shape (heap u1 p) = replicate ?N ?N"
      using fr1 shape by (simp add: frame_fields)
    have i: "\<And>j. GetInput (heap u2 p) j = GetInput (heap s p) j"
      using inv st by (simp add: u2_def u1_def heap_update_layer layer_values)
    have o: "\<And>j. GetOutput (heap u2 p) j =
           (if j < Suc m then x_norm s inputs j else GetOutput (heap s p) j)"
      using inv st m
      by (auto simp add: u2_def u1_def heap_update_layer layer_values sh less_Suc_eq)
    have g: "\<And>j k. GetdYdX (heap u2 p) j k =
          (if compute_gradient \<and> j < Suc m \<and> k = j
           then 1 / (snd (input_norm s ! j) - fst (input_norm s ! j))
           else GetdYdX (heap s p) j k)"
      using inv st m
      by (auto simp add: u2_def heap_update_layer layer_values sh1 less_Suc_eq)
         (auto simp add: u1_def heap_update_layer layer_values)
    have b: "(if x_norm s inputs m \<noteq> GetOutput (heap u p) m then False else sp) \<longleftrightarrow>
        (\<forall>j < Suc m. x_norm s inputs j = GetOutput (heap s p) j)"
      using inv st by (auto simp add: less_Suc_eq)
    show "?P (Suc m) (normalize_neuron inputs compute_gradient m st)"
      unfolding nn using fr2 i o g b by simp
  qed simp
  show "frame p s t" using loop by (simp add: t_def)
  show "GetInput (heap t p) j = GetInput (heap s p) j" using loop by (simp add: t_def)
  show "GetOutput (heap t p) j =
          (if j < number_of_neurons (heap s p) then x_norm s inputs j else GetOutput (heap s p) j)"
    using loop by (simp add: t_def)
  show "GetdYdX (heap t p) j k =
          (if compute_gradient \<and> j < number_of_neurons (heap s p) \<and> k = j
           then 1 / (snd (input_norm s ! j) - fst (input_norm s ! j))
           else GetdYdX (heap s p) j k)"
    using loop by (simp add: t_def)
  show "same_point \<longleftrightarrow>
          (\<forall>j < number_of_neurons (heap s p). x_norm s inputs j = GetOutput (heap s p) j)"
    using loop by (simp add: same_point_def)
qed


lemma nth_nth_list_update:
  "(J[i := (J ! i)[k := v]]) ! a ! b =
     (if a = i \<and> b = k \<and> i < length J \<and> k < length (J ! i) then v else J ! a ! b)"
  by (cases "i < length J"; cases "k < length (J ! i)")
     (auto simp add: nth_list_update not_less list_update_beyond)

lemma map_length_list_update:
  "map length (J[i := (J ! i)[k := v]]) = map length J"
  by (rule list_update_map_same) simp

lemma same_structure_step:
  assumes "same_structure s t"
    and "number_of_neurons (f (heap t p)) = number_of_neurons (heap t p)"
    and "layer_shape (f (heap t p)) = layer_shape (heap t p)"
    and "map bias (neurons (f (heap t p))) = map bias (neurons (heap t p))"
    and "is_input (f (heap t p)) = is_input (heap t p)"
    and "activation_type (f (heap t p)) = activation_type (heap t p)"
  shows "same_structure s (update_layer p f t)"
  using assms(1) same_structure_update_layer [of f t p] assms(2-)
  by (blast intro: same_structure_trans)

lemma same_structure_jacobian:
  "same_structure s t \<Longrightarrow>
   same_structure s (t\<lparr>dOutputs_dInputs := (dOutputs_dInputs t)[i := (dOutputs_dInputs t ! i)[k := v]]\<rparr>)"
  by (simp add: same_structure_def map_length_list_update)

lemma same_structure_outputs:
  "same_structure s t \<Longrightarrow> same_structure s (t\<lparr>ANN_outputs := (ANN_outputs t)[i := v]\<rparr>)"
  by (simp add: same_structure_def)

lemma same_structure_fields:
  assumes "same_structure s t"
  shows "total_layers t = total_layers s" "inputLayer t = inputLayer s"
    "outputLayer t = outputLayer s" "n_hidden_layers t = n_hidden_layers s"
    "weights_mat t = weights_mat s" "input_norm t = input_norm s"
    "output_norm t = output_norm s" "last_inputs t = last_inputs s"
    "activation_function_types t = activation_function_types s"
    "length (ANN_outputs t) = length (ANN_outputs s)"
    "map length (dOutputs_dInputs t) = map length (dOutputs_dInputs s)"
    "number_of_neurons (heap t q) = number_of_neurons (heap s q)"
    "layer_shape (heap t q) = layer_shape (heap s q)"
  using assms by (simp_all add: same_structure_def)

lemma denormalize_neuron_effect:
  fixes s iNeuron compute_gradient
  defines "p \<equiv> outputLayer s"
  defines "t \<equiv> denormalize_neuron compute_gradient iNeuron s"
  defines "dy_dx \<equiv> snd (output_norm s ! iNeuron) - fst (output_norm s ! iNeuron)"
  assumes shape: "iNeuron < length (layer_shape (heap s p))"
      "layer_shape (heap s p) ! iNeuron = number_of_neurons (heap s (inputLayer s))"
    and jac: "iNeuron < length (dOutputs_dInputs s)"
      "length (dOutputs_dInputs s ! iNeuron) = number_of_neurons (heap s (inputLayer s))"
    and out: "iNeuron < length (ANN_outputs s)"
  shows "same_structure s t"
    and "q \<noteq> p \<Longrightarrow> heap t q = heap s q"
    and "GetInput (heap t p) j = GetInput (heap s p) j"
    and "GetOutput (heap t p) j = GetOutput (heap s p) j"
    and "GetdYdX (heap t p) j k =
          (if compute_gradient \<and> j = iNeuron \<and> k < number_of_neurons (heap s (inputLayer s))
           then dy_dx * GetdYdX (heap s p) j k else GetdYdX (heap s p) j k)"
    and "dOutputs_dInputs t ! j ! k =
          (if compute_gradient \<and> j = iNeuron \<and> k < number_of_neurons (heap s (inputLayer s))
           then dy_dx * GetdYdX (heap s p) j k else dOutputs_dInputs s ! j ! k)"
    and "ANN_outputs t ! j =
          (if j = iNeuron then GetOutput (heap s p) iNeuron * dy_dx + fst (output_norm s ! iNeuron)
           else ANN_outputs s ! j)"
proof -
  let ?n = "number_of_neurons (heap s (inputLayer s))"
  let ?body = "\<lambda>iInput t.
       let t1 = update_layer (outputLayer t)
                  (\<lambda>l. SetdYdX iNeuron iInput (dy_dx * GetdYdX l iNeuron iInput) l) t
       in t1\<lparr>dOutputs_dInputs := (dOutputs_dInputs t1)[iNeuron :=
               (dOutputs_dInputs t1 ! iNeuron)[iInput :=
                  GetdYdX (heap t1 (outputLayer t1)) iNeuron iInput]]\<rparr>"
  define s1 where "s1 = (if compute_gradient then for_loop 0 ?n ?body s else s)"
  have t: "t = s1\<lparr>ANN_outputs := (ANN_outputs s1)[iNeuron :=
               GetOutput (heap s p) iNeuron * dy_dx + fst (output_norm s ! iNeuron)]\<rparr>"
    by (simp add: t_def denormalize_neuron_def Let_def s1_def p_def dy_dx_def GetNNeurons_def)
  let ?P = "\<lambda>m u. same_structure s u \<and> ANN_outputs u = ANN_outputs s \<and>
      (\<forall>q. q \<noteq> p \<longrightarrow> heap u q = heap s q) \<and>
      (\<forall>j. GetInput (heap u p) j = GetInput (heap s p) j) \<and>
      (\<forall>j. GetOutput (heap u p) j = GetOutput (heap s p) j) \<and>
      (\<forall>j k. GetdYdX (heap u p) j k =
          (if j = iNeuron \<and> k < m then dy_dx * GetdYdX (heap s p) j k else GetdYdX (heap s p) j k)) \<and>
      (\<forall>j k. dOutputs_dInputs u ! j ! k =
          (if j = iNeuron \<and> k < m then dy_dx * GetdYdX (heap s p) j k
           else dOutputs_dInputs s ! j ! k))"
  have loop: "?P ?n (for_loop 0 ?n ?body s)"
  proof (rule for_loop_counted [where P = ?P])
    show "?P 0 s" by (simp add: same_structure_refl)
  next
    fix m u
    assume m: "m < ?n" and inv: "?P m u"
    then have ss: "same_structure s u" by simp
    have ol: "outputLayer u = p"
      using ss by (simp add: p_def same_structure_fields)
    have sh: "layer_shape (heap u p) = layer_shape (heap s p)"
      using ss by (simp add: same_structure_fields)
    have jl: "length (dOutputs_dInputs u) = length (dOutputs_dInputs s)"
      "length (dOutputs_dInputs u ! iNeuron) = ?n"
      using same_structure_fields(11) [OF ss] jac
      by (metis length_map, metis length_map nth_map)
    define u1 where "u1 = update_layer p
        (\<lambda>l. SetdYdX iNeuron m (dy_dx * GetdYdX l iNeuron m) l) u"
    have b: "?body m u = u1\<lparr>dOutputs_dInputs := (dOutputs_dInputs u)[iNeuron :=
               (dOutputs_dInputs u ! iNeuron)[m := dy_dx * GetdYdX (heap s p) iNeuron m]]\<rparr>"
      using inv m shape
      by (simp add: Let_def ol u1_def heap_update_layer layer_values sh update_layer_fields)
    have ss1: "same_structure s u1"
      unfolding u1_def by (rule same_structure_step [OF ss]) (simp_all add: layer_structure)
    have ju1: "dOutputs_dInputs u1 = dOutputs_dInputs u" "ANN_outputs u1 = ANN_outputs u"
      by (simp_all add: u1_def update_layer_fields)
    have ss': "same_structure s (?body m u)"
      unfolding b using same_structure_jacobian [OF ss1, of iNeuron m] by (simp add: ju1)
    have a: "ANN_outputs (?body m u) = ANN_outputs s"
      unfolding b using inv by (simp add: ju1)
    have h: "\<And>q. q \<noteq> p \<Longrightarrow> heap (?body m u) q = heap s q"
      unfolding b using inv by (simp add: u1_def heap_update_layer)
    have i: "\<And>j. GetInput (heap (?body m u) p) j = GetInput (heap s p) j"
      unfolding b using inv by (simp add: u1_def heap_update_layer layer_values)
    have o: "\<And>j. GetOutput (heap (?body m u) p) j = GetOutput (heap s p) j"
      unfolding b using inv by (simp add: u1_def heap_update_layer layer_values)
    have g: "\<And>j k. GetdYdX (heap (?body m u) p) j k =
          (if j = iNeuron \<and> k < Suc m then dy_dx * GetdYdX (heap s p) j k
           else GetdYdX (heap s p) j k)"
      unfolding b using inv m shape
      by (auto simp add: u1_def heap_update_layer layer_values sh less_Suc_eq)
    have j: "\<And>j k. dOutputs_dInputs (?body m u) ! j ! k =
          (if j = iNeuron \<and> k < Suc m then dy_dx * GetdYdX (heap s p) j k
           else dOutputs_dInputs s ! j ! k)"
      unfolding b using inv m jac jl
      by (auto simp add: nth_nth_list_update less_Suc_eq)
    show "?P (Suc m) (?body m u)"
      using ss' a h i o g j by blast
  qed simp
  have s1: "same_structure s s1 \<and> ANN_outputs s1 = ANN_outputs s \<and>
      (\<forall>q. q \<noteq> p \<longrightarrow> heap s1 q = heap s q) \<and>
      (\<forall>j. GetInput (heap s1 p) j = GetInput (heap s p) j) \<and>
      (\<forall>j. GetOutput (heap s1 p) j = GetOutput (heap s p) j) \<and>
      (\<forall>j k. GetdYdX (heap s1 p) j k =
          (if compute_gradient \<and> j = iNeuron \<and> k < ?n then dy_dx * GetdYdX (heap s p) j k
           else GetdYdX (heap s p) j k)) \<and>
      (\<forall>j k. dOutputs_dInputs s1 ! j ! k =
          (if compute_gradient \<and> j = iNeuron \<and> k < ?n then dy_dx * GetdYdX (heap s p) j k
           else dOutputs_dInputs s ! j ! k))"
    unfolding s1_def using loop by (simp add: same_structure_refl)
  show "same_structure s t"
    unfolding t using s1 same_structure_outputs by blast
  show "q \<noteq> p \<Longrightarrow> heap t q = heap s q"
    unfolding t using s1 by simp
  show "GetInput (heap t p) j = GetInput (heap s p) j"
    unfolding t using s1 by simp
  show "GetOutput (heap t p) j = GetOutput (heap s p) j"
    unfolding t using s1 by simp
  show "GetdYdX (heap t p) j k =
          (if compute_gradient \<and> j = iNeuron \<and> k < number_of_neurons (heap s (inputLayer s))
           then dy_dx * GetdYdX (heap s p) j k else GetdYdX (heap s p) j k)"
    unfolding t using s1 by simp
  show "dOutputs_dInputs t ! j ! k =
          (if compute_gradient \<and> j = iNeuron \<and> k < number_of_neurons (heap s (inputLayer s))
           then dy_dx * GetdYdX (heap s p) j k else dOutputs_dInputs s ! j ! k)"
    unfolding t using s1 by simp
  show "ANN_outputs t ! j =
          (if j = iNeuron then GetOutput (heap s p) iNeuron * dy_dx + fst (output_norm s ! iNeuron)
           else ANN_outputs s ! j)"
    unfolding t using s1 out by (simp add: nth_list_update)
qed


lemma denormalize_outputs_effect:
  fixes s compute_gradient
  defines "p \<equiv> outputLayer s"
  defines "t \<equiv> denormalize_outputs compute_gradient s"
  defines "n \<equiv> number_of_neurons (heap s (inputLayer s))"
  defines "scale \<equiv> \<lambda>j. snd (output_norm s ! j) - fst (output_norm s ! j)"
  assumes shape: "layer_shape (heap s p) = replicate (number_of_neurons (heap s p)) n"
    and jac: "map length (dOutputs_dInputs s) = replicate (number_of_neurons (heap s p)) n"
    and out: "length (ANN_outputs s) = number_of_neurons (heap s p)"
  shows "same_structure s t"
    and "q \<noteq> p \<Longrightarrow> heap t q = heap s q"
    and "GetInput (heap t p) j = GetInput (heap s p) j"
    and "GetOutput (heap t p) j = GetOutput (heap s p) j"
    and "GetdYdX (heap t p) j k =
          (if compute_gradient \<and> j < number_of_neurons (heap s p) \<and> k < n
           then scale j * GetdYdX (heap s p) j k else GetdYdX (heap s p) j k)"
    and "dOutputs_dInputs t ! j ! k =
          (if compute_gradient \<and> j < number_of_neurons (heap s p) \<and> k < n
           then scale j * GetdYdX (heap s p) j k else dOutputs_dInputs s ! j ! k)"
    and "ANN_outputs t ! j =
          (if j < number_of_neurons (heap s p)
           then GetOutput (heap s p) j * scale j + fst (output_norm s ! j)
           else ANN_outputs s ! j)"
proof -
  let ?N = "number_of_neurons (heap s p)"
  let ?P = "\<lambda>m u. same_structure s u \<and>
      (\<forall>q. q \<noteq> p \<longrightarrow> heap u q = heap s q) \<and>
      (\<forall>j. GetInput (heap u p) j = GetInput (heap s p) j) \<and>
      (\<forall>j. GetOutput (heap u p) j = GetOutput (heap s p) j) \<and>
      (\<forall>j k. GetdYdX (heap u p) j k =
          (if compute_gradient \<and> j < m \<and> k < n
           then scale j * GetdYdX (heap s p) j k else GetdYdX (heap s p) j k)) \<and>
      (\<forall>j k. dOutputs_dInputs u ! j ! k =
          (if compute_gradient \<and> j < m \<and> k < n
           then scale j * GetdYdX (heap s p) j k else dOutputs_dInputs s ! j ! k)) \<and>
      (\<forall>j. ANN_outputs u ! j =
          (if j < m then GetOutput (heap s p) j * scale j + fst (output_norm s ! j)
           else ANN_outputs s ! j))"
  have loop: "?P ?N t"
    unfolding t_def denormalize_outputs_def GetNNeurons_def p_def [symmetric]
  proof (rule for_loop_counted [where P = ?P])
    show "?P 0 s" by (simp add: same_structure_refl)
  next
    fix m u
    assume m: "m < ?N" and inv: "?P m u"
    then have ss: "same_structure s u" by simp
    have f: "outputLayer u = p" "number_of_neurons (heap u (inputLayer u)) = n"
      "output_norm u = output_norm s" "layer_shape (heap u p) = replicate ?N n"
      "length (ANN_outputs u) = ?N"
      using ss shape out by (simp_all add: p_def n_def same_structure_fields)
    have jl: "length (dOutputs_dInputs u) = ?N" "length (dOutputs_dInputs u ! m) = n"
      using same_structure_fields(11) [OF ss] jac m
      by (metis length_map length_replicate, metis length_map length_replicate nth_map nth_replicate)
    note e = denormalize_neuron_effect [where s = u and iNeuron = m
        and compute_gradient = compute_gradient, unfolded f]
    let ?u' = "denormalize_neuron compute_gradient m u"
    have pre: "m < length (replicate ?N n)" "replicate ?N n ! m = n"
      "m < length (dOutputs_dInputs u)" "length (dOutputs_dInputs u ! m) = n" "m < ?N"
      using m jl by simp_all
    have ss': "same_structure s ?u'"
      using ss e(1) [OF pre] by (rule same_structure_trans)
    have h: "\<And>q. q \<noteq> p \<Longrightarrow> heap ?u' q = heap s q"
      using inv e(2) [OF pre] by simp
    have i: "\<And>j. GetInput (heap ?u' p) j = GetInput (heap s p) j"
      using inv e(3) [OF pre] by simp
    have o: "\<And>j. GetOutput (heap ?u' p) j = GetOutput (heap s p) j"
      using inv e(4) [OF pre] by simp
    have g: "\<And>j k. GetdYdX (heap ?u' p) j k =
          (if compute_gradient \<and> j < Suc m \<and> k < n
           then scale j * GetdYdX (heap s p) j k else GetdYdX (heap s p) j k)"
      using inv e(5) [OF pre] by (auto simp add: less_Suc_eq scale_def)
    have j: "\<And>j k. dOutputs_dInputs ?u' ! j ! k =
          (if compute_gradient \<and> j < Suc m \<and> k < n
           then scale j * GetdYdX (heap s p) j k else dOutputs_dInputs s ! j ! k)"
      using inv e(6) [OF pre] by (auto simp add: less_Suc_eq scale_def)
    have a: "\<And>j. ANN_outputs ?u' ! j =
          (if j < Suc m then GetOutput (heap s p) j * scale j + fst (output_norm s ! j)
           else ANN_outputs s ! j)"
      using inv e(7) [OF pre] by (auto simp add: less_Suc_eq scale_def)
    show "?P (Suc m) ?u'"
      using ss' h i o g j a by blast
  qed simp
  show "same_structure s t" using loop by simp
  show "q \<noteq> p \<Longrightarrow> heap t q = heap s q" using loop by simp
  show "GetInput (heap t p) j = GetInput (heap s p) j" using loop by simp
  show "GetOutput (heap t p) j = GetOutput (heap s p) j" using loop by simp
  show "GetdYdX (heap t p) j k =
          (if compute_gradient \<and> j < number_of_neurons (heap s p) \<and> k < n
           then scale j * GetdYdX (heap s p) j k else GetdYdX (heap s p) j k)"
    using loop by simp
  show "dOutputs_dInputs t ! j ! k =
          (if compute_gradient \<and> j < number_of_neurons (heap s p) \<and> k < n
           then scale j * GetdYdX (heap s p) j k else dOutputs_dInputs s ! j ! k)"
    using loop by simp
  show "ANN_outputs t ! j =
          (if j < number_of_neurons (heap s p)
           then GetOutput (heap s p) j * scale j + fst (output_norm s ! j)
           else ANN_outputs s ! j)"
    using loop by simp
qed

section \<open>The phases of Predict\<close>

lemma layer_evaluated_frame:
  assumes fr: "frame p s t"
    and l: "total_layers s ! iLayer \<noteq> p" "total_layers s ! (iLayer - 1) \<noteq> p"
    and sh: "number_of_neurons (heap s (total_layers s ! iLayer)) \<le>
               length (layer_shape (heap s (total_layers s ! iLayer)))"
    and ev: "layer_evaluated compute_gradient s iLayer"
  shows "layer_evaluated compute_gradient t iLayer"
proof -
  have h: "heap t (total_layers s ! iLayer) = heap s (total_layers s ! iLayer)"
    using fr l(1) by (rule frame_heap)
  have cx: "\<And>i. i < number_of_neurons (heap s (total_layers s ! iLayer)) \<Longrightarrow>
      ComputeX t iLayer i = ComputeX s iLayer i"
    using sh by (intro ComputeX_frame [OF fr l(2)]) simp
  have cg: "\<And>i k. ComputedOutputdInput t iLayer i k = ComputedOutputdInput s iLayer i k"
    by (rule ComputedOutputdInput_frame [OF fr l(2)])
  show ?thesis
    using ev unfolding layer_evaluated_def
    by (simp add: frame_fields(1,2,9,12) [OF fr] h cx cg)
qed

lemma evaluate_layer_evaluated:
  fixes s iLayer compute_gradient
  defines "p \<equiv> total_layers s ! iLayer"
  assumes prev: "total_layers s ! (iLayer - 1) \<noteq> p"
    and shape: "layer_shape (heap s p) =
                 replicate (number_of_neurons (heap s p)) (number_of_neurons (heap s (inputLayer s)))"
  shows "layer_evaluated compute_gradient (evaluate_layer compute_gradient iLayer s) iLayer"
proof -
  define t where "t = evaluate_layer compute_gradient iLayer s"
  note e = evaluate_layer_effect [where s = s and iLayer = iLayer
      and compute_gradient = compute_gradient, OF prev [unfolded p_def] shape [unfolded p_def],
      folded p_def t_def]
  have cx: "\<And>i. i < number_of_neurons (heap s p) \<Longrightarrow> ComputeX t iLayer i = ComputeX s iLayer i"
    using shape by (intro ComputeX_frame [OF e(1) prev]) (simp add: p_def)
  have cg: "\<And>i k. ComputedOutputdInput t iLayer i k = ComputedOutputdInput s iLayer i k"
    by (rule ComputedOutputdInput_frame [OF e(1) prev])
  have "layer_evaluated compute_gradient t iLayer"
    unfolding layer_evaluated_def
    by (simp add: frame_fields(1,2,9,12) [OF e(1)] p_def [symmetric] e(2,3,4) cx cg)
  then show ?thesis by (simp add: t_def)
qed


lemma forward_pass_effect:
  fixes s compute_gradient
  defines "t \<equiv> forward_pass compute_gradient s"
  assumes sz: "sized s"
  shows "same_structure s t"
    and "ANN_outputs t = ANN_outputs s"
    and "dOutputs_dInputs t = dOutputs_dInputs s"
    and "heap t (inputLayer s) = heap s (inputLayer s)"
    and "1 \<le> l \<Longrightarrow> l \<le> n_hidden_layers s + 1 \<Longrightarrow> layer_evaluated compute_gradient t l"
proof -
  let ?h = "n_hidden_layers s"
  let ?Q = "\<lambda>m u. same_structure s u \<and> ANN_outputs u = ANN_outputs s \<and>
      dOutputs_dInputs u = dOutputs_dInputs s \<and>
      (\<forall>q. (\<forall>l. 1 \<le> l \<and> l < m \<longrightarrow> q \<noteq> total_layers s ! l) \<longrightarrow> heap u q = heap s q) \<and>
      (\<forall>l. 1 \<le> l \<and> l < m \<longrightarrow> layer_evaluated compute_gradient u l)"
  have loop: "?Q (?h + 2) t"
    unfolding t_def forward_pass_def
  proof (rule for_loop_counted [where P = ?Q])
    show "?Q 1 s" by (simp add: same_structure_refl)
  next
    fix m u
    assume m: "1 \<le> m" "m < ?h + 2" and inv: "?Q m u"
    then have ss: "same_structure s u" by simp
    have szu: "sized u" using sz ss by (rule sized_same_structure)
    have f: "total_layers u = total_layers s" "n_hidden_layers u = ?h"
      using ss by (simp_all add: same_structure_fields)
    define p where "p = total_layers u ! m"
    have mu: "m < n_hidden_layers u + 2" "m - 1 < n_hidden_layers u + 2"
      using m f by simp_all
    have prev: "total_layers u ! (m - 1) \<noteq> total_layers u ! m"
      using sized_layers_differ [OF szu mu(2) mu(1)] m by simp
    have shape: "layer_shape (heap u (total_layers u ! m)) =
        replicate (number_of_neurons (heap u (total_layers u ! m)))
          (number_of_neurons (heap u (inputLayer u)))"
      using sized_shape [OF szu mu(1)] sized_input [OF szu] by simp
    let ?u' = "evaluate_layer compute_gradient m u"
    note e = evaluate_layer_effect [where s = u and iLayer = m
        and compute_gradient = compute_gradient, OF prev shape]
    have fr: "frame (total_layers s ! m) u ?u'" using e(1) f by simp
    have ss': "same_structure s ?u'"
      using ss fr by (auto simp add: frame_def intro: same_structure_trans)
    have a: "ANN_outputs ?u' = ANN_outputs s" "dOutputs_dInputs ?u' = dOutputs_dInputs s"
      using inv fr by (simp_all add: frame_fields)
    have h: "\<And>q. (\<forall>l. 1 \<le> l \<and> l < Suc m \<longrightarrow> q \<noteq> total_layers s ! l) \<Longrightarrow> heap ?u' q = heap s q"
    proof -
      fix q assume q: "\<forall>l. 1 \<le> l \<and> l < Suc m \<longrightarrow> q \<noteq> total_layers s ! l"
      then have "q \<noteq> total_layers s ! m" using m by simp
      then have "heap ?u' q = heap u q" using fr by (simp add: frame_heap)
      moreover have "heap u q = heap s q" using inv q by simp
      ultimately show "heap ?u' q = heap s q" by simp
    qed
    have ev: "\<And>l. 1 \<le> l \<and> l < Suc m \<Longrightarrow> layer_evaluated compute_gradient ?u' l"
    proof -
      fix l assume l: "1 \<le> l \<and> l < Suc m"
      show "layer_evaluated compute_gradient ?u' l"
      proof (cases "l = m")
        case True
        then show ?thesis
          using evaluate_layer_evaluated [OF prev shape] by simp
      next
        case False
        then have lm: "l < m" using l by simp
        have lu: "l < n_hidden_layers u + 2" "l - 1 < n_hidden_layers u + 2"
          using lm mu by simp_all
        have d: "total_layers u ! l \<noteq> total_layers s ! m" "total_layers u ! (l - 1) \<noteq> total_layers s ! m"
          using sized_layers_differ [OF szu lu(1) mu(1)] sized_layers_differ [OF szu lu(2) mu(1)]
            lm l f by simp_all
        have sh: "number_of_neurons (heap u (total_layers u ! l)) \<le>
               length (layer_shape (heap u (total_layers u ! l)))"
          using sized_shape [OF szu lu(1)] by simp
        have "layer_evaluated compute_gradient u l" using inv l lm by simp
        then show ?thesis
          by (rule layer_evaluated_frame [OF fr d sh])
      qed
    qed
    show "?Q (Suc m) ?u'"
      using ss' a h ev by blast
  qed simp_all
  show "same_structure s t" using loop by simp
  show "ANN_outputs t = ANN_outputs s" using loop by simp
  show "dOutputs_dInputs t = dOutputs_dInputs s" using loop by simp
  show "heap t (inputLayer s) = heap s (inputLayer s)"
  proof -
    have "\<forall>l. 1 \<le> l \<and> l < ?h + 2 \<longrightarrow> inputLayer s \<noteq> total_layers s ! l"
      using sized_layers_differ [OF sz, of 0] sized_input [OF sz] by auto
    then show ?thesis using loop by simp
  qed
  show "1 \<le> l \<Longrightarrow> l \<le> n_hidden_layers s + 1 \<Longrightarrow> layer_evaluated compute_gradient t l"
    using loop by simp
qed


lemma Predict_unfold:
  "Predict inputs compute_gradient s =
     denormalize_outputs compute_gradient
       (if \<not> snd (normalize_inputs inputs compute_gradient s)
        then forward_pass compute_gradient (fst (normalize_inputs inputs compute_gradient s))
        else fst (normalize_inputs inputs compute_gradient s))"
  by (simp add: Predict_def Let_def)

lemma sized_in_out_differ: "sized s \<Longrightarrow> inputLayer s \<noteq> outputLayer s"
  using sized_layers_differ [of s 0 "n_hidden_layers s + 1"]
  by (simp add: sized_input sized_output)

lemma sized_input_shape:
  "sized s \<Longrightarrow> layer_shape (heap s (inputLayer s)) =
     replicate (number_of_neurons (heap s (inputLayer s))) (number_of_neurons (heap s (inputLayer s)))"
  using sized_shape [of s 0] by (simp add: sized_input)

lemma sized_output_shape:
  "sized s \<Longrightarrow> layer_shape (heap s (outputLayer s)) =
     replicate (number_of_neurons (heap s (outputLayer s))) (number_of_neurons (heap s (inputLayer s)))"
  using sized_shape [of s "n_hidden_layers s + 1"] by (simp add: sized_input sized_output)

lemma sized_jacobian:
  "sized s \<Longrightarrow> map length (dOutputs_dInputs s) =
     replicate (number_of_neurons (heap s (outputLayer s))) (number_of_neurons (heap s (inputLayer s)))"
  "sized s \<Longrightarrow> length (ANN_outputs s) = number_of_neurons (heap s (outputLayer s))"
  by (simp_all add: sized_def)

lemma Predict_phases:
  fixes s inputs compute_gradient
  defines "s1 \<equiv> fst (normalize_inputs inputs compute_gradient s)"
  defines "same_point \<equiv> snd (normalize_inputs inputs compute_gradient s)"
  defines "s2 \<equiv> (if \<not> same_point then forward_pass compute_gradient s1 else s1)"
  defines "s3 \<equiv> Predict inputs compute_gradient s"
  assumes sz: "sized s"
  shows "frame (inputLayer s) s s1" and "sized s1"
    and "same_structure s s2" and "sized s2"
    and "heap s2 (inputLayer s) = heap s1 (inputLayer s)"
    and "ANN_outputs s2 = ANN_outputs s" and "dOutputs_dInputs s2 = dOutputs_dInputs s"
    and "s3 = denormalize_outputs compute_gradient s2"
    and "same_structure s s3" and "sized s3"
proof -
  note n = normalize_inputs_effect [where s = s and inputs = inputs
      and compute_gradient = compute_gradient, OF sized_input_shape [OF sz], folded s1_def same_point_def]
  show fr1: "frame (inputLayer s) s s1" by (rule n(1))
  show sz1: "sized s1" using sz fr1 by (rule sized_frame)
  have il1: "inputLayer s1 = inputLayer s" using fr1 by (simp add: frame_fields)
  note f = forward_pass_effect [where s = s1 and compute_gradient = compute_gradient, OF sz1]
  have ss1: "same_structure s s1" using fr1 by (simp add: frame_def)
  show ss2: "same_structure s s2"
    unfolding s2_def using ss1 f(1) by (auto intro: same_structure_trans)
  show sz2: "sized s2" using sz ss2 by (rule sized_same_structure)
  show "heap s2 (inputLayer s) = heap s1 (inputLayer s)"
    unfolding s2_def using f(4) il1 by simp
  show "ANN_outputs s2 = ANN_outputs s" "dOutputs_dInputs s2 = dOutputs_dInputs s"
    unfolding s2_def using f(2,3) fr1 by (simp_all add: frame_fields)
  show s3: "s3 = denormalize_outputs compute_gradient s2"
    by (simp add: s3_def Predict_unfold s2_def s1_def same_point_def)
  note d = denormalize_outputs_effect [where s = s2 and compute_gradient = compute_gradient,
      OF sized_output_shape [OF sz2] sized_jacobian [OF sz2]]
  show ss3: "same_structure s s3"
    unfolding s3 using ss2 d(1) by (rule same_structure_trans)
  show "sized s3" using sz ss3 by (rule sized_same_structure)
qed

lemma Predict_outputs:
  fixes s inputs compute_gradient
  defines "s1 \<equiv> fst (normalize_inputs inputs compute_gradient s)"
  defines "same_point \<equiv> snd (normalize_inputs inputs compute_gradient s)"
  defines "s2 \<equiv> (if \<not> same_point then forward_pass compute_gradient s1 else s1)"
  defines "s3 \<equiv> Predict inputs compute_gradient s"
  defines "scale \<equiv> \<lambda>j. snd (output_norm s ! j) - fst (output_norm s ! j)"
  assumes sz: "sized s"
  shows "q \<noteq> outputLayer s \<Longrightarrow> heap s3 q = heap s2 q"
    and "GetInput (heap s3 (outputLayer s)) j = GetInput (heap s2 (outputLayer s)) j"
    and "GetOutput (heap s3 (outputLayer s)) j = GetOutput (heap s2 (outputLayer s)) j"
    and "GetdYdX (heap s3 (outputLayer s)) j k =
          (if compute_gradient \<and> j < number_of_neurons (heap s (outputLayer s)) \<and>
              k < number_of_neurons (heap s (inputLayer s))
           then scale j * GetdYdX (heap s2 (outputLayer s)) j k
           else GetdYdX (heap s2 (outputLayer s)) j k)"
    and "dOutputs_dInputs s3 ! j ! k =
          (if compute_gradient \<and> j < number_of_neurons (heap s (outputLayer s)) \<and>
              k < number_of_neurons (heap s (inputLayer s))
           then scale j * GetdYdX (heap s2 (outputLayer s)) j k
           else dOutputs_dInputs s ! j ! k)"
    and "ANN_outputs s3 ! j =
          (if j < number_of_neurons (heap s (outputLayer s))
           then GetOutput (heap s2 (outputLayer s)) j * scale j + fst (output_norm s ! j)
           else ANN_outputs s ! j)"
proof -
  note p = Predict_phases [where s = s and inputs = inputs and compute_gradient = compute_gradient,
      OF sz, folded s1_def same_point_def, folded s2_def, folded s3_def]
  have f: "outputLayer s2 = outputLayer s" "inputLayer s2 = inputLayer s"
    "output_norm s2 = output_norm s"
    "number_of_neurons (heap s2 (outputLayer s)) = number_of_neurons (heap s (outputLayer s))"
    "number_of_neurons (heap s2 (inputLayer s)) = number_of_neurons (heap s (inputLayer s))"
    using p(3) by (simp_all add: same_structure_fields)
  note d = denormalize_outputs_effect [where s = s2 and compute_gradient = compute_gradient,
      OF sized_output_shape [OF p(4)] sized_jacobian [OF p(4)], folded p(8)]
  show "q \<noteq> outputLayer s \<Longrightarrow> heap s3 q = heap s2 q"
    using d(2) by (simp add: f p(6,7) scale_def)
  show "GetInput (heap s3 (outputLayer s)) j = GetInput (heap s2 (outputLayer s)) j"
    using d(3) by (simp add: f p(6,7) scale_def)
  show "GetOutput (heap s3 (outputLayer s)) j = GetOutput (heap s2 (outputLayer s)) j"
    using d(4) by (simp add: f p(6,7) scale_def)
  show "GetdYdX (heap s3 (outputLayer s)) j k =
          (if compute_gradient \<and> j < number_of_neurons (heap s (outputLayer s)) \<and>
              k < number_of_neurons (heap s (inputLayer s))
           then scale j * GetdYdX (heap s2 (outputLayer s)) j k
           else GetdYdX (heap s2 (outputLayer s)) j k)"
    using d(5) by (simp add: f p(6,7) scale_def)
  show "dOutputs_dInputs s3 ! j ! k =
          (if compute_gradient \<and> j < number_of_neurons (heap s (outputLayer s)) \<and>
              k < number_of_neurons (heap s (inputLayer s))
           then scale j * GetdYdX (heap s2 (outputLayer s)) j k
           else dOutputs_dInputs s ! j ! k)"
    using d(6) by (simp add: f p(6,7) scale_def)
  show "ANN_outputs s3 ! j =
          (if j < number_of_neurons (heap s (outputLayer s))
           then GetOutput (heap s2 (outputLayer s)) j * scale j + fst (output_norm s ! j)
           else ANN_outputs s ! j)"
    using d(7) by (simp add: f p(6,7) scale_def)
qed

lemma Predict_input_layer:
  assumes sz: "sized s"
  shows "GetOutput (heap (Predict inputs compute_gradient s) (inputLayer s)) j =
          (if j < number_of_neurons (heap s (inputLayer s)) then x_norm s inputs j
           else GetOutput (heap s (inputLayer s)) j)"
    and "GetdYdX (heap (Predict inputs compute_gradient s) (inputLayer s)) j k =
          (if compute_gradient \<and> j < number_of_neurons (heap s (inputLayer s)) \<and> k = j
           then 1 / (snd (input_norm s ! j) - fst (input_norm s ! j))
           else GetdYdX (heap s (inputLayer s)) j k)"
    and "snd (normalize_inputs inputs compute_gradient s) \<longleftrightarrow>
          (\<forall>j < number_of_neurons (heap s (inputLayer s)).
             x_norm s inputs j = GetOutput (heap s (inputLayer s)) j)"
proof -
  note p = Predict_phases [where s = s and inputs = inputs and compute_gradient = compute_gradient, OF sz]
  note n = normalize_inputs_effect [where s = s and inputs = inputs
      and compute_gradient = compute_gradient, OF sized_input_shape [OF sz]]
  note o = Predict_outputs [where s = s and inputs = inputs and compute_gradient = compute_gradient, OF sz]
  have h: "heap (Predict inputs compute_gradient s) (inputLayer s) =
      heap (fst (normalize_inputs inputs compute_gradient s)) (inputLayer s)"
    using o(1) [OF sized_in_out_differ [OF sz]] p(5) by simp
  show "GetOutput (heap (Predict inputs compute_gradient s) (inputLayer s)) j =
          (if j < number_of_neurons (heap s (inputLayer s)) then x_norm s inputs j
           else GetOutput (heap s (inputLayer s)) j)"
    unfolding h by (rule n(3))
  show "GetdYdX (heap (Predict inputs compute_gradient s) (inputLayer s)) j k =
          (if compute_gradient \<and> j < number_of_neurons (heap s (inputLayer s)) \<and> k = j
           then 1 / (snd (input_norm s ! j) - fst (input_norm s ! j))
           else GetdYdX (heap s (inputLayer s)) j k)"
    unfolding h by (rule n(4))
  show "snd (normalize_inputs inputs compute_gradient s) \<longleftrightarrow>
          (\<forall>j < number_of_neurons (heap s (inputLayer s)).
             x_norm s inputs j = GetOutput (heap s (inputLayer s)) j)"
    by (rule n(5))
qed

lemma same_structure_GetBias:
  "same_structure s t \<Longrightarrow> i < length (layer_shape (heap s q)) \<Longrightarrow>
   GetBias (heap t q) i = GetBias (heap s q) i"
  by (rule GetBias_map) (simp_all add: same_structure_def layer_shape_def)

lemma ComputeX_cong:
  assumes "same_structure s t"
    and "heap t (total_layers s ! (iLayer - 1)) = heap s (total_layers s ! (iLayer - 1))"
    and "iNeuron < length (layer_shape (heap s (total_layers s ! iLayer)))"
  shows "ComputeX t iLayer iNeuron = ComputeX s iLayer iNeuron"
  using assms
  by (simp add: ComputeX_sum same_structure_fields same_structure_GetBias)

lemma ComputedOutputdInput_cong:
  assumes "same_structure s t"
    and "heap t (total_layers s ! (iLayer - 1)) = heap s (total_layers s ! (iLayer - 1))"
  shows "ComputedOutputdInput t iLayer iNeuron iInput = ComputedOutputdInput s iLayer iNeuron iInput"
  using assms
  by (simp add: ComputedOutputdInput_sum same_structure_fields)

lemma layer_evaluated_cong:
  assumes ss: "same_structure s t"
    and h: "heap t (total_layers s ! iLayer) = heap s (total_layers s ! iLayer)"
      "heap t (total_layers s ! (iLayer - 1)) = heap s (total_layers s ! (iLayer - 1))"
    and sh: "number_of_neurons (heap s (total_layers s ! iLayer)) \<le>
               length (layer_shape (heap s (total_layers s ! iLayer)))"
    and ev: "layer_evaluated compute_gradient s iLayer"
  shows "layer_evaluated compute_gradient t iLayer"
proof -
  have cx: "\<And>i. i < number_of_neurons (heap s (total_layers s ! iLayer)) \<Longrightarrow>
      ComputeX t iLayer i = ComputeX s iLayer i"
    using sh by (intro ComputeX_cong [OF ss h(2)]) simp
  have cg: "\<And>i k. ComputedOutputdInput t iLayer i k = ComputedOutputdInput s iLayer i k"
    by (rule ComputedOutputdInput_cong [OF ss h(2)])
  show ?thesis
    using ev unfolding layer_evaluated_def
    by (simp add: same_structure_fields(1,2,9,12) [OF ss] h cx cg)
qed

lemma Predict_forward:
  fixes s inputs compute_gradient
  defines "s3 \<equiv> Predict inputs compute_gradient s"
  defines "L \<equiv> n_hidden_layers s + 1"
  defines "kind \<equiv> activation_function_types s ! L"
  assumes sz: "sized s" and miss: "\<not> snd (normalize_inputs inputs compute_gradient s)"
  shows "1 \<le> l \<Longrightarrow> l \<le> n_hidden_layers s \<Longrightarrow> layer_evaluated compute_gradient s3 l"
    and "i < number_of_neurons (heap s (outputLayer s)) \<Longrightarrow>
          GetInput (heap s3 (outputLayer s)) i = ComputeX s3 L i \<and>
          GetOutput (heap s3 (outputLayer s)) i = activation_y kind (ComputeX s3 L i)"
    and "compute_gradient \<Longrightarrow> i < number_of_neurons (heap s (outputLayer s)) \<Longrightarrow>
          k < number_of_neurons (heap s (inputLayer s)) \<Longrightarrow>
          dOutputs_dInputs s3 ! i ! k =
            (snd (output_norm s ! i) - fst (output_norm s ! i)) *
            (activation_dy_dx kind (ComputeX s3 L i) * ComputedOutputdInput s3 L i k) \<and>
          GetdYdX (heap s3 (outputLayer s)) i k = dOutputs_dInputs s3 ! i ! k"
proof -
  define s1 where "s1 = fst (normalize_inputs inputs compute_gradient s)"
  define s2 where "s2 = forward_pass compute_gradient s1"
  have s2': "(if \<not> snd (normalize_inputs inputs compute_gradient s)
              then forward_pass compute_gradient s1 else s1) = s2"
    using miss by (simp add: s2_def)
  note p = Predict_phases [where s = s and inputs = inputs and compute_gradient = compute_gradient,
      OF sz, folded s1_def, unfolded s2', folded s3_def]
  note out = Predict_outputs [where s = s and inputs = inputs and compute_gradient = compute_gradient,
      OF sz, folded s1_def, unfolded s2', folded s3_def]
  have f1: "n_hidden_layers s1 = n_hidden_layers s" "total_layers s1 = total_layers s"
    using p(1) by (simp_all add: frame_fields)
  have f2: "n_hidden_layers s2 = n_hidden_layers s" "total_layers s2 = total_layers s"
    "activation_function_types s2 = activation_function_types s"
    "outputLayer s2 = outputLayer s" "inputLayer s2 = inputLayer s"
    "\<And>q. number_of_neurons (heap s2 q) = number_of_neurons (heap s q)"
    using p(3) by (simp_all add: same_structure_fields)
  have ss23: "same_structure s2 s3"
    using denormalize_outputs_effect(1) [where s = s2 and compute_gradient = compute_gradient,
        OF sized_output_shape [OF p(4)] sized_jacobian [OF p(4)]] p(8) by simp
  have ev2: "\<And>l. 1 \<le> l \<Longrightarrow> l \<le> L \<Longrightarrow> layer_evaluated compute_gradient s2 l"
    unfolding s2_def L_def
    using forward_pass_effect(5) [where s = s1 and compute_gradient = compute_gradient, OF p(2)] f1
    by simp
  have pL: "outputLayer s = total_layers s ! L"
    unfolding L_def using sized_output [OF sz] .
  have hid: "\<And>l. l \<le> n_hidden_layers s \<Longrightarrow> heap s3 (total_layers s ! l) = heap s2 (total_layers s ! l)"
  proof -
    fix l assume "l \<le> n_hidden_layers s"
    then have "total_layers s ! l \<noteq> outputLayer s"
      using sized_layers_differ [OF sz, of l L] by (simp add: pL L_def)
    then show "heap s3 (total_layers s ! l) = heap s2 (total_layers s ! l)"
      by (rule out(1))
  qed
  have shp: "\<And>l. l \<le> L \<Longrightarrow> number_of_neurons (heap s2 (total_layers s2 ! l)) \<le>
               length (layer_shape (heap s2 (total_layers s2 ! l)))"
    using sized_shape [OF p(4)] f2 by (simp add: L_def)
  show "1 \<le> l \<Longrightarrow> l \<le> n_hidden_layers s \<Longrightarrow> layer_evaluated compute_gradient s3 l"
  proof -
    assume l: "1 \<le> l" "l \<le> n_hidden_layers s"
    have "layer_evaluated compute_gradient s2 l" using ev2 l by (simp add: L_def)
    then show ?thesis
      using l by (intro layer_evaluated_cong [OF ss23 _ _ shp]) (simp_all add: f2 hid L_def)
  qed
  have evL: "layer_evaluated compute_gradient s2 L" using ev2 by (simp add: L_def)
  have cx: "\<And>i. i < number_of_neurons (heap s (outputLayer s)) \<Longrightarrow>
      ComputeX s3 L i = ComputeX s2 L i"
    using shp [of L] by (intro ComputeX_cong [OF ss23]) (simp_all add: f2 hid L_def pL)
  have cg: "\<And>i k. ComputedOutputdInput s3 L i k = ComputedOutputdInput s2 L i k"
    by (intro ComputedOutputdInput_cong [OF ss23]) (simp add: f2 hid L_def)
  show "i < number_of_neurons (heap s (outputLayer s)) \<Longrightarrow>
          GetInput (heap s3 (outputLayer s)) i = ComputeX s3 L i \<and>
          GetOutput (heap s3 (outputLayer s)) i = activation_y kind (ComputeX s3 L i)"
    using evL unfolding layer_evaluated_def
    by (simp add: out(2,3) cx f2 pL [symmetric] kind_def)
  show "compute_gradient \<Longrightarrow> i < number_of_neurons (heap s (outputLayer s)) \<Longrightarrow>
          k < number_of_neurons (heap s (inputLayer s)) \<Longrightarrow>
          dOutputs_dInputs s3 ! i ! k =
            (snd (output_norm s ! i) - fst (output_norm s ! i)) *
            (activation_dy_dx kind (ComputeX s3 L i) * ComputedOutputdInput s3 L i k) \<and>
          GetdYdX (heap s3 (outputLayer s)) i k = dOutputs_dInputs s3 ! i ! k"
    using evL unfolding layer_evaluated_def
    by (simp add: out(4,5) cx cg f2 pL [symmetric] kind_def)
qed

section \<open>Evaluating the example networks\<close>

lemmas build_defs = SizeWeights_def collect_layers_def size_weights_def size_outputs_def
  size_gradients_def DefineOutputLayer_def PushHiddenLayer_def
  DefineInputLayer_def CNeuralNetwork_new_def new_CLayer_def update_layer_def SetInput_flag_def
  resize_def nullptr_def vec_at_def vec_set_def load_def for_loop_opt_def size_weight_matrix_def
  SizeGradients_def SizeGradient_def GetNNeurons_def CLayer_new_def CNeuron_new_def
  SetOutputNorm_def SetInputNorm_def SetActivationFunction_def activation_function_map_def
  SizeActivationFunctions_def SetWeight_def SetBias_net_def SetBias_def SizeInputs_def

lemmas predict_defs = Predict_def normalize_inputs_def forward_pass_def denormalize_outputs_def
  normalize_neuron_def evaluate_layer_def compute_neuron_input_def activate_neuron_def
  scale_gradient_def denormalize_neuron_def ComputeX_def ComputedOutputdInput_def x_norm_def
  GetOutput_def SetOutput_def GetInput_def SetInput_def GetBias_def GetdYdX_def SetdYdX_def

lemma chain_net_linear:
  "chain_net w b ''linear'' ilo ihi lo hi =
     \<lparr>heap = (\<lambda>p. CLayer_new 0)
        (1 := \<lparr>number_of_neurons = 1,
                neurons = [\<lparr>output_value = 0, input_value = 0, bias = 0, gradient = [0]\<rparr>],
                is_input = True, activation_type = []\<rparr>,
         2 := \<lparr>number_of_neurons = 1,
                neurons = [\<lparr>output_value = 0, input_value = 0, bias = b, gradient = [0]\<rparr>],
                is_input = False, activation_type = []\<rparr>,
         3 := \<lparr>number_of_neurons = 1,
                neurons = [\<lparr>output_value = 0, input_value = 0, bias = 0, gradient = [0]\<rparr>],
                is_input = False, activation_type = []\<rparr>),
      next_addr = 4, input_names = [[]], output_names = [[]], n_hidden_layers = 1,
      inputLayer = 1, outputLayer = 3, hiddenLayers = [2], total_layers = [1, 2, 3],
      weights_mat = [[[w]], [[w]]], input_norm = [(ilo, ihi)], output_norm = [(lo, hi)],
      last_inputs = [0], ANN_outputs = [0], dOutputs_dInputs = [[0]],
      activation_function_types = [NONE, LINEAR, LINEAR],
      activation_function_names = [[], ''linear'', ''linear'']\<rparr>"
  by (simp add: chain_net_def build_defs for_loop_def eval_nat_numeral fun_upd_twist)

lemma chain_net_gelu:
  "chain_net w b ''gelu'' ilo ihi lo hi =
     (chain_net w b ''linear'' ilo ihi lo hi)
       \<lparr>activation_function_types := [NONE, GELU, LINEAR],
        activation_function_names := [[], ''gelu'', ''linear'']\<rparr>"
  by (simp add: chain_net_def build_defs for_loop_def eval_nat_numeral fun_upd_twist)

lemmas eval_defs = predict_defs for_loop_def CLayer_new_def GetNNeurons_def update_layer_def

lemma Predict_chain_net_first:
  "Predict [1] True (chain_net 1 0 ''linear'' 0 1 0 2) =
     (chain_net 1 0 ''linear'' 0 1 0 2)
       \<lparr>heap := (\<lambda>p. CLayer_new 0)
          (1 := \<lparr>number_of_neurons = 1,
                  neurons = [\<lparr>output_value = 1, input_value = 0, bias = 0, gradient = [1]\<rparr>],
                  is_input = True, activation_type = []\<rparr>,
           2 := \<lparr>number_of_neurons = 1,
                  neurons = [\<lparr>output_value = 1, input_value = 1, bias = 0, gradient = [1]\<rparr>],
                  is_input = False, activation_type = []\<rparr>,
           3 := \<lparr>number_of_neurons = 1,
                  neurons = [\<lparr>output_value = 1, input_value = 1, bias = 0, gradient = [2]\<rparr>],
                  is_input = False, activation_type = []\<rparr>),
        ANN_outputs := [2], dOutputs_dInputs := [[2]]\<rparr>"
  by (simp add: chain_net_linear eval_defs)

lemma Predict_chain_net_second:
  "Predict [1] True (Predict [1] True (chain_net 1 0 ''linear'' 0 1 0 2)) =
     (chain_net 1 0 ''linear'' 0 1 0 2)
       \<lparr>heap := (\<lambda>p. CLayer_new 0)
          (1 := \<lparr>number_of_neurons = 1,
                  neurons = [\<lparr>output_value = 1, input_value = 0, bias = 0, gradient = [1]\<rparr>],
                  is_input = True, activation_type = []\<rparr>,
           2 := \<lparr>number_of_neurons = 1,
                  neurons = [\<lparr>output_value = 1, input_value = 1, bias = 0, gradient = [1]\<rparr>],
                  is_input = False, activation_type = []\<rparr>,
           3 := \<lparr>number_of_neurons = 1,
                  neurons = [\<lparr>output_value = 1, input_value = 1, bias = 0, gradient = [4]\<rparr>],
                  is_input = False, activation_type = []\<rparr>),
        ANN_outputs := [2], dOutputs_dInputs := [[4]]\<rparr>"
  by (simp add: Predict_chain_net_first) (simp add: chain_net_linear eval_defs fun_upd_twist)

lemma sized_chain_net: "sized (chain_net w b ''linear'' ilo ihi lo hi)"
  by (simp add: sized_def chain_net_linear layer_shape_def less_Suc_eq eval_nat_numeral all_conj_distrib)

section \<open>The single-point cache and the jacobian\<close>

text \<open>
  Claim C1. Two calls of \<open>Predict\<close> with the same raw input and \<open>compute_gradient\<close> set
  should leave \<open>ANN_outputs\<close> and \<open>dOutputs_dInputs\<close> as the first call left them. On
  the network with one linear hidden neuron, weights 1, biases 0 and output bounds
  \<open>(0, 2)\<close>, the first call with input 1 runs the forward pass and returns the jacobian
  \<open>[[2]]\<close>; the second call skips the forward pass, but the de-normalisation loop
  multiplies the stored gradient of the output layer by \<open>outMax - outMin\<close> once more, and
  the jacobian becomes \<open>[[4]]\<close>. The outputs are \<open>[2]\<close> after both calls.
\<close>

theorem Predict_repeated_call_rescales_jacobian:
  "dOutputs_dInputs (Predict [1] True (chain_net 1 0 ''linear'' 0 1 0 2)) = [[2]] \<and>
   dOutputs_dInputs (Predict [1] True (Predict [1] True (chain_net 1 0 ''linear'' 0 1 0 2))) = [[4]] \<and>
   ANN_outputs (Predict [1] True (chain_net 1 0 ''linear'' 0 1 0 2)) = [2] \<and>
   ANN_outputs (Predict [1] True (Predict [1] True (chain_net 1 0 ''linear'' 0 1 0 2))) = [2]"
  by (simp only: Predict_chain_net_second) (simp add: Predict_chain_net_first)

section \<open>The gelu activation\<close>

lemma gelu_derivative_at_0: "(activation_y GELU has_real_derivative 1 / 2) (at 0)"
proof -
  have "((\<lambda>x::real. 0.5 * x * (1 + tanh (0.7978845608028654 * (x + 0.044715 * x ^ 3))))
          has_real_derivative 1 / 2) (at 0)"
    by (auto intro!: derivative_eq_intros)
  moreover have "activation_y GELU =
      (\<lambda>x::real. 0.5 * x * (1 + tanh (0.7978845608028654 * (x + 0.044715 * x ^ 3))))"
    by (rule ext) simp
  ultimately show ?thesis by simp
qed

text \<open>
  Claim C5. For gelu, \<open>Predict\<close> computes \<open>y = 0.5 x (1 + tanh (0.7978845608 (x + 0.044715 x^3)))\<close>,
  and the factor \<open>dy_dx\<close> it multiplies into the gradient should be the derivative of
  that \<open>y\<close>. At the neuron input \<open>x = 0\<close> the derivative of \<open>y\<close> is \<open>1/2\<close>, and the factor
  the code computes is \<open>0\<close>: its formula lacks the summand 1, takes \<open>cosh\<close> of \<open>x\<close> instead
  of the argument of \<open>tanh\<close>, and has one factor too many. On the network with one gelu
  hidden neuron of bias \<open>-1\<close> and weights 1, the raw input 1 gives the hidden neuron the
  input 0, and the jacobian \<open>Predict\<close> returns is \<open>[[0]]\<close>.
\<close>

theorem gelu_dy_dx_is_not_the_derivative:
  "activation_dy_dx GELU 0 = 0 \<and>
   (activation_y GELU has_real_derivative 1 / 2) (at 0) \<and>
   \<not> (activation_y GELU has_real_derivative activation_dy_dx GELU 0) (at 0) \<and>
   dOutputs_dInputs (Predict [1] True (chain_net 1 (- 1) ''gelu'' 0 1 0 1)) = [[0]]"
proof -
  have code: "activation_dy_dx GELU 0 = 0"
    by simp
  have "\<not> (activation_y GELU has_real_derivative 0) (at 0)"
  proof
    assume "(activation_y GELU has_real_derivative 0) (at 0)"
    from DERIV_unique [OF this gelu_derivative_at_0] show False by simp
  qed
  moreover have "dOutputs_dInputs (Predict [1] True (chain_net 1 (- 1) ''gelu'' 0 1 0 1)) = [[0]]"
    by (simp add: chain_net_gelu chain_net_linear eval_defs)
  ultimately show ?thesis
    using code gelu_derivative_at_0 by simp
qed

section \<open>The cache test\<close>

text \<open>
  Claim C9. The cache test of \<open>Predict\<close> compares the normalized inputs with the outputs
  the input layer holds when the call starts, whatever put them there: \<^verbatim>\<open>same_point\<close>
  stays true exactly when every normalized input equals the stored output of its input
  neuron. Then the forward pass is skipped, the input and output fields of the hidden
  and output neurons keep their values, and every returned output is the stored output
  of its output neuron, de-normalized. This holds for every sized network, so also for
  one on which \<open>Predict\<close> has not run before: on the freshly built example network,
  whose neurons hold 0, the raw input 0 is returned as the output 0, though the hidden
  bias is 5.
\<close>

theorem Predict_cache_hit:
  assumes sz: "sized s"
  shows "(snd (normalize_inputs inputs compute_gradient s) \<longleftrightarrow>
            (\<forall>i < number_of_neurons (heap s (inputLayer s)).
               x_norm s inputs i = GetOutput (heap s (inputLayer s)) i)) \<and>
         ((\<forall>i < number_of_neurons (heap s (inputLayer s)).
               x_norm s inputs i = GetOutput (heap s (inputLayer s)) i) \<longrightarrow>
          Predict inputs compute_gradient s =
            denormalize_outputs compute_gradient (fst (normalize_inputs inputs compute_gradient s)) \<and>
          (\<forall>l i. 1 \<le> l \<and> l \<le> n_hidden_layers s + 1 \<longrightarrow>
             GetInput (heap (Predict inputs compute_gradient s) (total_layers s ! l)) i =
               GetInput (heap s (total_layers s ! l)) i \<and>
             GetOutput (heap (Predict inputs compute_gradient s) (total_layers s ! l)) i =
               GetOutput (heap s (total_layers s ! l)) i) \<and>
          (\<forall>iOutput < number_of_neurons (heap s (outputLayer s)).
             ANN_outputs (Predict inputs compute_gradient s) ! iOutput =
               GetOutput (heap s (outputLayer s)) iOutput *
                 (snd (output_norm s ! iOutput) - fst (output_norm s ! iOutput)) + fst (output_norm s ! iOutput)))"
proof (intro conjI impI)
  note il = Predict_input_layer [where s = s and inputs = inputs
      and compute_gradient = compute_gradient, OF sz]
  show "snd (normalize_inputs inputs compute_gradient s) \<longleftrightarrow>
            (\<forall>i < number_of_neurons (heap s (inputLayer s)).
               x_norm s inputs i = GetOutput (heap s (inputLayer s)) i)"
    by (rule il(3))
  assume hit: "\<forall>i < number_of_neurons (heap s (inputLayer s)).
               x_norm s inputs i = GetOutput (heap s (inputLayer s)) i"
  then have sp: "snd (normalize_inputs inputs compute_gradient s)"
    using il(3) by simp
  define s1 where "s1 = fst (normalize_inputs inputs compute_gradient s)"
  note p = Predict_phases [where s = s and inputs = inputs and compute_gradient = compute_gradient,
      OF sz, folded s1_def]
  note out = Predict_outputs [where s = s and inputs = inputs and compute_gradient = compute_gradient,
      OF sz, folded s1_def]
  show eq: "Predict inputs compute_gradient s = denormalize_outputs compute_gradient s1"
    using sp by (simp add: Predict_unfold s1_def)
  have s2: "(if \<not> snd (normalize_inputs inputs compute_gradient s)
             then forward_pass compute_gradient s1 else s1) = s1"
    using sp by simp
  have rest: "\<And>q. q \<noteq> inputLayer s \<Longrightarrow> heap s1 q = heap s q"
    using p(1) by (simp add: frame_heap)
  have ol: "heap s1 (outputLayer s) = heap s (outputLayer s)"
    using rest sized_in_out_differ [OF sz] by simp
  show "\<forall>l i. 1 \<le> l \<and> l \<le> n_hidden_layers s + 1 \<longrightarrow>
             GetInput (heap (Predict inputs compute_gradient s) (total_layers s ! l)) i =
               GetInput (heap s (total_layers s ! l)) i \<and>
             GetOutput (heap (Predict inputs compute_gradient s) (total_layers s ! l)) i =
               GetOutput (heap s (total_layers s ! l)) i"
  proof (intro allI impI)
    fix l i
    assume l: "1 \<le> l \<and> l \<le> n_hidden_layers s + 1"
    then have ne: "total_layers s ! l \<noteq> inputLayer s"
      using sized_layers_differ [OF sz, of l 0] sized_input [OF sz] by simp
    show "GetInput (heap (Predict inputs compute_gradient s) (total_layers s ! l)) i =
               GetInput (heap s (total_layers s ! l)) i \<and>
             GetOutput (heap (Predict inputs compute_gradient s) (total_layers s ! l)) i =
               GetOutput (heap s (total_layers s ! l)) i"
    proof (cases "total_layers s ! l = outputLayer s")
      case True
      then show ?thesis
        using out(2,3) [unfolded s2] ol by simp
    next
      case False
      then show ?thesis
        using out(1) [unfolded s2, OF False] rest [OF ne] by simp
    qed
  qed
  show "\<forall>iOutput < number_of_neurons (heap s (outputLayer s)).
             ANN_outputs (Predict inputs compute_gradient s) ! iOutput =
               GetOutput (heap s (outputLayer s)) iOutput *
                 (snd (output_norm s ! iOutput) - fst (output_norm s ! iOutput)) + fst (output_norm s ! iOutput)"
    using out(6) [unfolded s2] ol by simp
qed

theorem Predict_cache_hit_witness:
  "sized (chain_net 1 5 ''linear'' 0 1 0 2) \<and>
   x_norm (chain_net 1 5 ''linear'' 0 1 0 2) [0] 0 =
     GetOutput (heap (chain_net 1 5 ''linear'' 0 1 0 2) (inputLayer (chain_net 1 5 ''linear'' 0 1 0 2))) 0 \<and>
   snd (normalize_inputs [0] False (chain_net 1 5 ''linear'' 0 1 0 2)) \<and>
   ANN_outputs (Predict [0] False (chain_net 1 5 ''linear'' 0 1 0 2)) ! 0 = 0"
proof -
  let ?N = "chain_net 1 5 ''linear'' 0 1 0 2"
  have sz: "sized ?N" by (rule sized_chain_net)
  have n: "number_of_neurons (heap ?N (inputLayer ?N)) = 1"
    "number_of_neurons (heap ?N (outputLayer ?N)) = 1"
    by (simp_all add: chain_net_linear)
  have hit: "x_norm ?N [0] 0 = GetOutput (heap ?N (inputLayer ?N)) 0"
    by (simp add: chain_net_linear x_norm_def GetOutput_def)
  have out: "GetOutput (heap ?N (outputLayer ?N)) 0 *
      (snd (output_norm ?N ! 0) - fst (output_norm ?N ! 0)) + fst (output_norm ?N ! 0) = 0"
    by (simp add: chain_net_linear GetOutput_def)
  note t = Predict_cache_hit [where s = ?N and inputs = "[0]" and compute_gradient = False,
      OF sz, unfolded n]
  have all: "\<forall>i<1. x_norm ?N [0] i = GetOutput (heap ?N (inputLayer ?N)) i"
    using hit by simp
  have sp: "snd (normalize_inputs [0] False ?N)"
    using t all by blast
  have "ANN_outputs (Predict [0] False ?N) ! 0 =
      GetOutput (heap ?N (outputLayer ?N)) 0 *
      (snd (output_norm ?N ! 0) - fst (output_norm ?N ! 0)) + fst (output_norm ?N ! 0)"
    using t all by blast
  then show ?thesis using sz hit sp out by simp
qed

section \<open>What Predict writes\<close>

lemma last_inputs_chain_net:
  "last_inputs (chain_net w b ''linear'' ilo ihi lo hi) = [0]"
  by (simp add: chain_net_linear)

text \<open>
  What a call of \<open>Predict\<close> writes on a sized network. The member \<^verbatim>\<open>last_inputs\<close> holds
  after the call what it held before, whatever the inputs: \<open>Predict\<close> has no assignment to
  it, and the cache test reads the input layer's stored outputs instead. The input
  layer's outputs receive the normalized inputs, \<^verbatim>\<open>ANN_outputs\<close> the de-normalized outputs
  of the output layer and, when \<open>compute_gradient\<close> is set, the jacobian the gradient the
  output layer then stores. The input and output fields of the hidden and output neurons
  are recomputed from the layer before them when the forward pass runs.
\<close>

lemma Predict_keeps_last_inputs:
  assumes sz: "sized s"
  shows "last_inputs (Predict inputs compute_gradient s) = last_inputs s \<and>
    (\<forall>i < number_of_neurons (heap s (inputLayer s)).
       GetOutput (heap (Predict inputs compute_gradient s) (inputLayer s)) i = x_norm s inputs i) \<and>
    (\<forall>iOutput < number_of_neurons (heap s (outputLayer s)).
       ANN_outputs (Predict inputs compute_gradient s) ! iOutput =
         GetOutput (heap (Predict inputs compute_gradient s) (outputLayer s)) iOutput *
           (snd (output_norm s ! iOutput) - fst (output_norm s ! iOutput)) +
         fst (output_norm s ! iOutput)) \<and>
    (compute_gradient \<longrightarrow>
       (\<forall>iOutput < number_of_neurons (heap s (outputLayer s)).
        \<forall>iInput < number_of_neurons (heap s (inputLayer s)).
          dOutputs_dInputs (Predict inputs compute_gradient s) ! iOutput ! iInput =
            GetdYdX (heap (Predict inputs compute_gradient s) (outputLayer s)) iOutput iInput)) \<and>
    (\<not> snd (normalize_inputs inputs compute_gradient s) \<longrightarrow>
       (\<forall>l. 1 \<le> l \<and> l \<le> n_hidden_layers s + 1 \<longrightarrow>
          (\<forall>i < number_of_neurons (heap s (total_layers s ! l)).
             GetInput (heap (Predict inputs compute_gradient s) (total_layers s ! l)) i =
               ComputeX (Predict inputs compute_gradient s) l i \<and>
             GetOutput (heap (Predict inputs compute_gradient s) (total_layers s ! l)) i =
               activation_y (activation_function_types s ! l)
                 (ComputeX (Predict inputs compute_gradient s) l i))))"
proof -
  define s3 where "s3 = Predict inputs compute_gradient s"
  note p = Predict_phases [where s = s and inputs = inputs and compute_gradient = compute_gradient,
      OF sz, folded s3_def]
  note out = Predict_outputs [where s = s and inputs = inputs and compute_gradient = compute_gradient,
      OF sz, folded s3_def]
  note il = Predict_input_layer [where s = s and inputs = inputs
      and compute_gradient = compute_gradient, OF sz, folded s3_def]
  have f: "total_layers s3 = total_layers s" "activation_function_types s3 = activation_function_types s"
    "\<And>q. number_of_neurons (heap s3 q) = number_of_neurons (heap s q)"
    "inputLayer s3 = inputLayer s"
    using p(9) by (simp_all add: same_structure_fields)
  have a: "last_inputs s3 = last_inputs s"
    using p(9) by (simp add: same_structure_fields)
  have b: "\<forall>i < number_of_neurons (heap s (inputLayer s)).
       GetOutput (heap s3 (inputLayer s)) i = x_norm s inputs i"
    using il(1) by simp
  have c: "\<forall>iOutput < number_of_neurons (heap s (outputLayer s)).
       ANN_outputs s3 ! iOutput =
         GetOutput (heap s3 (outputLayer s)) iOutput *
           (snd (output_norm s ! iOutput) - fst (output_norm s ! iOutput)) +
         fst (output_norm s ! iOutput)"
    using out(3,6) by simp
  have d: "compute_gradient \<longrightarrow>
       (\<forall>iOutput < number_of_neurons (heap s (outputLayer s)).
        \<forall>iInput < number_of_neurons (heap s (inputLayer s)).
          dOutputs_dInputs s3 ! iOutput ! iInput = GetdYdX (heap s3 (outputLayer s)) iOutput iInput)"
    using out(4,5) by simp
  have e: "\<not> snd (normalize_inputs inputs compute_gradient s) \<longrightarrow>
       (\<forall>l. 1 \<le> l \<and> l \<le> n_hidden_layers s + 1 \<longrightarrow>
          (\<forall>i < number_of_neurons (heap s (total_layers s ! l)).
             GetInput (heap s3 (total_layers s ! l)) i = ComputeX s3 l i \<and>
             GetOutput (heap s3 (total_layers s ! l)) i =
               activation_y (activation_function_types s ! l) (ComputeX s3 l i)))"
  proof (intro impI allI)
    fix l i
    assume miss: "\<not> snd (normalize_inputs inputs compute_gradient s)"
      and l: "1 \<le> l \<and> l \<le> n_hidden_layers s + 1"
      and i: "i < number_of_neurons (heap s (total_layers s ! l))"
    note fw = Predict_forward [where s = s and inputs = inputs and compute_gradient = compute_gradient,
        OF sz miss, folded s3_def]
    show "GetInput (heap s3 (total_layers s ! l)) i = ComputeX s3 l i \<and>
          GetOutput (heap s3 (total_layers s ! l)) i =
            activation_y (activation_function_types s ! l) (ComputeX s3 l i)"
    proof (cases "l \<le> n_hidden_layers s")
      case True
      then have "layer_evaluated compute_gradient s3 l" using fw(1) l by simp
      then show ?thesis
        using i unfolding layer_evaluated_def by (simp add: f)
    next
      case False
      then have "l = n_hidden_layers s + 1" using l by simp
      then show ?thesis
        using fw(2) [of i] i sized_output [OF sz] by simp
    qed
  qed
  show ?thesis
    unfolding s3_def [symmetric] using a b c d e by blast
qed

text \<open>
  Claim C7. Every call of \<open>Predict\<close> is to overwrite \<^verbatim>\<open>last_inputs\<close> with the raw input
  vector of the call; the header declares the member as the inputs of the previous
  lookup, and \<open>SizeInputs\<close> sizes it. \<open>Predict\<close> never assigns it: on the example network,
  whose \<^verbatim>\<open>last_inputs\<close> \<open>SizeInputs\<close> set to \<open>[0]\<close>, a call with the raw input \<open>[1]\<close> leaves
  \<open>[0]\<close> there and not \<open>[1]\<close>.
\<close>

theorem Predict_does_not_store_last_inputs:
  "last_inputs (Predict [1] True (chain_net 1 0 ''linear'' 0 1 0 2)) = [0] \<and>
   last_inputs (Predict [1] True (chain_net 1 0 ''linear'' 0 1 0 2)) \<noteq> [1]"
  by (simp add: Predict_chain_net_first last_inputs_chain_net)

section \<open>The chain rule\<close>

text \<open>
  The chain rule in the forward pass. Let \<open>Predict\<close> be called with \<open>compute_gradient\<close>
  set on a sized network, and let some normalized input differ from the stored output of
  its input neuron, so that the forward pass runs. In the state \<open>s2\<close> the forward pass
  leaves, the input layer's gradient holds the seed \<open>1 / (inMax - inMin)\<close> on the diagonal
  and, off the diagonal, what it held before the call; for every other layer \<open>l\<close>, neuron
  \<open>i\<close> and input \<open>k\<close>, the stored gradient is the factor \<open>activation_dy_dx\<close> at the neuron's
  input times the sum over \<open>j\<close> of \<open>weights_mat[l-1][i][j]\<close> times the stored gradient of
  neuron \<open>j\<close> of layer \<open>l-1\<close>; and the jacobian entry \<open>Predict\<close> returns is the output
  layer's stored gradient times \<open>outMax - outMin\<close>.
\<close>

lemma Predict_gradient_chain_rule:
  fixes s inputs
  defines "s2 \<equiv> forward_pass True (fst (normalize_inputs inputs True s))"
  defines "s3 \<equiv> Predict inputs True s"
  assumes sz: "sized s" and miss: "\<not> snd (normalize_inputs inputs True s)"
  shows
   "(\<forall>j < number_of_neurons (heap s (inputLayer s)).
     \<forall>k < number_of_neurons (heap s (inputLayer s)).
       GetdYdX (heap s2 (inputLayer s)) j k =
         (if k = j then 1 / (snd (input_norm s ! j) - fst (input_norm s ! j))
          else GetdYdX (heap s (inputLayer s)) j k)) \<and>
    (\<forall>l. 1 \<le> l \<and> l \<le> n_hidden_layers s + 1 \<longrightarrow>
       (\<forall>i < number_of_neurons (heap s (total_layers s ! l)).
        \<forall>k < number_of_neurons (heap s (inputLayer s)).
          GetdYdX (heap s2 (total_layers s ! l)) i k =
            activation_dy_dx (activation_function_types s ! l)
              (GetInput (heap s2 (total_layers s ! l)) i) *
            (\<Sum>j < number_of_neurons (heap s (total_layers s ! (l - 1))).
               weights_mat s ! (l - 1) ! i ! j * GetdYdX (heap s2 (total_layers s ! (l - 1))) j k))) \<and>
    (\<forall>iOutput < number_of_neurons (heap s (outputLayer s)).
     \<forall>k < number_of_neurons (heap s (inputLayer s)).
       dOutputs_dInputs s3 ! iOutput ! k =
         (snd (output_norm s ! iOutput) - fst (output_norm s ! iOutput)) *
         GetdYdX (heap s2 (outputLayer s)) iOutput k)"
proof -
  define s1 where "s1 = fst (normalize_inputs inputs True s)"
  have s2: "s2 = forward_pass True s1" by (simp add: s2_def s1_def)
  have s2': "(if \<not> snd (normalize_inputs inputs True s) then forward_pass True s1 else s1) = s2"
    using miss by (simp add: s2)
  note p = Predict_phases [where s = s and inputs = inputs and compute_gradient = True,
      OF sz, folded s1_def, unfolded s2', folded s3_def]
  note out = Predict_outputs [where s = s and inputs = inputs and compute_gradient = True,
      OF sz, folded s1_def, unfolded s2', folded s3_def]
  note n = normalize_inputs_effect [where s = s and inputs = inputs
      and compute_gradient = True, OF sized_input_shape [OF sz], folded s1_def]
  have f1: "n_hidden_layers s1 = n_hidden_layers s"
    using p(1) by (simp add: frame_fields)
  have f2: "total_layers s2 = total_layers s"
    "activation_function_types s2 = activation_function_types s"
    "inputLayer s2 = inputLayer s" "weights_mat s2 = weights_mat s"
    "\<And>q. number_of_neurons (heap s2 q) = number_of_neurons (heap s q)"
    using p(3) by (simp_all add: same_structure_fields)
  have a: "\<forall>j < number_of_neurons (heap s (inputLayer s)).
     \<forall>k < number_of_neurons (heap s (inputLayer s)).
       GetdYdX (heap s2 (inputLayer s)) j k =
         (if k = j then 1 / (snd (input_norm s ! j) - fst (input_norm s ! j))
          else GetdYdX (heap s (inputLayer s)) j k)"
    using n(4) p(5) by simp
  have b: "\<forall>l. 1 \<le> l \<and> l \<le> n_hidden_layers s + 1 \<longrightarrow>
       (\<forall>i < number_of_neurons (heap s (total_layers s ! l)).
        \<forall>k < number_of_neurons (heap s (inputLayer s)).
          GetdYdX (heap s2 (total_layers s ! l)) i k =
            activation_dy_dx (activation_function_types s ! l)
              (GetInput (heap s2 (total_layers s ! l)) i) *
            (\<Sum>j < number_of_neurons (heap s (total_layers s ! (l - 1))).
               weights_mat s ! (l - 1) ! i ! j * GetdYdX (heap s2 (total_layers s ! (l - 1))) j k))"
  proof (intro allI impI)
    fix l i k
    assume l: "1 \<le> l \<and> l \<le> n_hidden_layers s + 1"
      and i: "i < number_of_neurons (heap s (total_layers s ! l))"
      and k: "k < number_of_neurons (heap s (inputLayer s))"
    have "layer_evaluated True s2 l"
      unfolding s2
      using forward_pass_effect(5) [where s = s1 and compute_gradient = True, OF p(2)] l f1
      by simp
    then show "GetdYdX (heap s2 (total_layers s ! l)) i k =
            activation_dy_dx (activation_function_types s ! l)
              (GetInput (heap s2 (total_layers s ! l)) i) *
            (\<Sum>j < number_of_neurons (heap s (total_layers s ! (l - 1))).
               weights_mat s ! (l - 1) ! i ! j * GetdYdX (heap s2 (total_layers s ! (l - 1))) j k)"
      using i k unfolding layer_evaluated_def
      by (simp add: f2 ComputedOutputdInput_sum)
  qed
  have c: "\<forall>iOutput < number_of_neurons (heap s (outputLayer s)).
     \<forall>k < number_of_neurons (heap s (inputLayer s)).
       dOutputs_dInputs s3 ! iOutput ! k =
         (snd (output_norm s ! iOutput) - fst (output_norm s ! iOutput)) *
         GetdYdX (heap s2 (outputLayer s)) iOutput k"
    using out(5) by simp
  show ?thesis using a b c by blast
qed

text \<open>
  Claim C2. With \<open>compute_gradient\<close> set, the jacobian entry \<open>Predict\<close> returns is to be the
  chain-rule quantity at the output layer, \<open>dy_dx\<close> at the neuron's input times the sum
  over \<open>j\<close> of the weight times the stored gradient of neuron \<open>j\<close> of the layer before,
  scaled by \<open>outMax - outMin\<close>. On the example network, with one linear hidden neuron,
  weights 1, biases 0 and output bounds \<open>(0, 2)\<close>, this quantity is 2. The first call with
  the raw input \<open>[1]\<close> returns it. The second call with the same input skips the forward
  pass, its de-normalisation loop scales the gradient the output layer stores once
  more, and the entry it returns is 4.
\<close>

theorem Predict_cached_jacobian_is_not_the_chain_rule:
  "dOutputs_dInputs (Predict [1] True (chain_net 1 0 ''linear'' 0 1 0 2)) ! 0 ! 0 =
     (snd (output_norm (Predict [1] True (chain_net 1 0 ''linear'' 0 1 0 2)) ! 0) -
      fst (output_norm (Predict [1] True (chain_net 1 0 ''linear'' 0 1 0 2)) ! 0)) *
     (activation_dy_dx
        (activation_function_types (Predict [1] True (chain_net 1 0 ''linear'' 0 1 0 2)) ! 2)
        (GetInput (heap (Predict [1] True (chain_net 1 0 ''linear'' 0 1 0 2)) 3) 0) *
      ComputedOutputdInput (Predict [1] True (chain_net 1 0 ''linear'' 0 1 0 2)) 2 0 0) \<and>
   dOutputs_dInputs (Predict [1] True (Predict [1] True (chain_net 1 0 ''linear'' 0 1 0 2))) ! 0 ! 0 \<noteq>
     (snd (output_norm (Predict [1] True (Predict [1] True (chain_net 1 0 ''linear'' 0 1 0 2))) ! 0) -
      fst (output_norm (Predict [1] True (Predict [1] True (chain_net 1 0 ''linear'' 0 1 0 2))) ! 0)) *
     (activation_dy_dx
        (activation_function_types (Predict [1] True (Predict [1] True (chain_net 1 0 ''linear'' 0 1 0 2))) ! 2)
        (GetInput (heap (Predict [1] True (Predict [1] True (chain_net 1 0 ''linear'' 0 1 0 2))) 3) 0) *
      ComputedOutputdInput (Predict [1] True (Predict [1] True (chain_net 1 0 ''linear'' 0 1 0 2))) 2 0 0) \<and>
   dOutputs_dInputs (Predict [1] True (Predict [1] True (chain_net 1 0 ''linear'' 0 1 0 2))) ! 0 ! 0 = 4"
  unfolding Predict_chain_net_second
  unfolding Predict_chain_net_first
  by (simp add: chain_net_linear ComputedOutputdInput_sum GetInput_def GetdYdX_def)

section \<open>The normalisation round trip\<close>

text \<open>With the identity for \<open>rnd\<close> the rounded evaluation is the exact one.\<close>

lemmas fp_ops = fadd_def fsub_def fmul_def fdiv_def

lemma activation_fp_exact:
  "activation_y_fp (\<lambda>x. x) kind x = activation_y kind x"
  "activation_dy_dx_fp (\<lambda>x. x) kind x = activation_dy_dx kind x"
  by (cases kind; simp add: fp_ops)+

lemma Predict_fp_exact: "Predict_fp (\<lambda>x. x) inputs compute_gradient s = Predict inputs compute_gradient s"
proof -
  have cx: "ComputeX_fp (\<lambda>x. x) = ComputeX"
    by (simp add: fun_eq_iff Let_def ComputeX_fp_def ComputeX_def fp_ops)
  have cd: "ComputedOutputdInput_fp (\<lambda>x. x) = ComputedOutputdInput"
    by (simp add: fun_eq_iff Let_def ComputedOutputdInput_fp_def ComputedOutputdInput_def fp_ops)
  have xn: "x_norm_fp (\<lambda>x. x) = x_norm"
    by (simp add: fun_eq_iff Let_def x_norm_fp_def x_norm_def fp_ops)
  have nn: "normalize_neuron_fp (\<lambda>x. x) = normalize_neuron"
    by (simp add: fun_eq_iff Let_def normalize_neuron_fp_def normalize_neuron_def xn fp_ops)
  have ci: "compute_neuron_input_fp (\<lambda>x. x) = compute_neuron_input"
    by (simp add: fun_eq_iff Let_def compute_neuron_input_fp_def compute_neuron_input_def cx cd)
  have sg: "scale_gradient_fp (\<lambda>x. x) = scale_gradient"
    by (simp add: fun_eq_iff Let_def scale_gradient_fp_def scale_gradient_def fp_ops)
  have an: "activate_neuron_fp (\<lambda>x. x) = activate_neuron"
    by (simp add: fun_eq_iff Let_def activate_neuron_fp_def activate_neuron_def sg activation_fp_exact)
  have el: "evaluate_layer_fp (\<lambda>x. x) = evaluate_layer"
    by (simp add: fun_eq_iff Let_def evaluate_layer_fp_def evaluate_layer_def ci an)
  have dn: "denormalize_neuron_fp (\<lambda>x. x) = denormalize_neuron"
    by (simp add: fun_eq_iff Let_def denormalize_neuron_fp_def denormalize_neuron_def fp_ops)
  have ni: "normalize_inputs_fp (\<lambda>x. x) = normalize_inputs"
    by (simp add: fun_eq_iff Let_def normalize_inputs_fp_def normalize_inputs_def nn)
  have fw: "forward_pass_fp (\<lambda>x. x) = forward_pass"
    by (simp add: fun_eq_iff Let_def forward_pass_fp_def forward_pass_def el)
  have dno: "denormalize_outputs_fp (\<lambda>x. x) = denormalize_outputs"
    by (simp add: fun_eq_iff Let_def denormalize_outputs_fp_def denormalize_outputs_def dn)
  show ?thesis
    by (simp add: Predict_fp_def Predict_def ni fw dno Let_def)
qed

text \<open>The rounding function at the values the example below meets.\<close>

lemma binade_numeral:
  "binade (numeral k) x =
     (if 2 \<le> x then binade (pred_numeral k) (x / 2) + 1
      else if x < 1 then binade (pred_numeral k) (2 * x) - 1 else 0)"
  by (simp add: numeral_eq_Suc)

lemmas binary64_defs = binary64_def round_ties_even_def binade_numeral Let_def

lemma binary64_values:
  "binary64 0 = 0" "binary64 1 = 1" "binary64 (- 1) = - 1" "binary64 (- 2) = - 2"
  "binary64 (binary64 (binary64 0.3 - (- 2))) = binary64 (binary64 0.3 - (- 2))"
  "binary64 (binary64 0.3 - (- 2)) \<noteq> 0"
  "binary64 0.3 = 5404319552844595 / 18014398509481984"
  "binary64 (binary64 (binary64 0.3 - (- 2)) + (- 2)) = 675539944105574 / 2251799813685248"
  by (simp_all add: binary64_defs)

text \<open>
  The identity network with one hidden neuron and the bounds \<open>(a, b)\<close> on both sides,
  freshly built or after a call on the other bound, for a rounding function that stores
  0, 1, -1, \<open>a\<close> and the rounded \<open>b - a\<close> as they are.
\<close>

lemmas predict_fp_defs = Predict_fp_def normalize_inputs_fp_def forward_pass_fp_def
  denormalize_outputs_fp_def normalize_neuron_fp_def evaluate_layer_fp_def
  compute_neuron_input_fp_def activate_neuron_fp_def scale_gradient_fp_def
  denormalize_neuron_fp_def ComputeX_fp_def ComputedOutputdInput_fp_def x_norm_fp_def fp_ops
  GetOutput_def SetOutput_def GetInput_def SetInput_def GetBias_def GetdYdX_def SetdYdX_def
  for_loop_def CLayer_new_def GetNNeurons_def update_layer_def Let_def

lemma Predict_fp_identity_chain_net:
  assumes r: "rnd 0 = 0" "rnd 1 = 1" "rnd (- 1) = - 1" "rnd a = a"
    and d: "rnd (rnd (b - a)) = rnd (b - a)" "rnd (b - a) \<noteq> 0"
  shows "ANN_outputs (Predict_fp rnd [a] g (chain_net 1 0 ''linear'' a b a b)) = [a]"
    and "ANN_outputs (Predict_fp rnd [b] g (chain_net 1 0 ''linear'' a b a b)) =
           [rnd (rnd (b - a) + a)]"
    and "ANN_outputs (Predict_fp rnd [a] g
           (Predict_fp rnd [b] g (chain_net 1 0 ''linear'' a b a b))) = [a]"
    and "ANN_outputs (Predict_fp rnd [b] g
           (Predict_fp rnd [a] g (chain_net 1 0 ''linear'' a b a b))) = [rnd (rnd (b - a) + a)]"
proof -
  show "ANN_outputs (Predict_fp rnd [a] g (chain_net 1 0 ''linear'' a b a b)) = [a]"
    using r d by (cases g) (simp_all add: chain_net_linear predict_fp_defs)
  show "ANN_outputs (Predict_fp rnd [b] g (chain_net 1 0 ''linear'' a b a b)) =
           [rnd (rnd (b - a) + a)]"
    using r d by (cases g) (simp_all add: chain_net_linear predict_fp_defs)
  show "ANN_outputs (Predict_fp rnd [a] g
           (Predict_fp rnd [b] g (chain_net 1 0 ''linear'' a b a b))) = [a]"
    using r d by (cases g) (simp_all add: chain_net_linear predict_fp_defs)
  show "ANN_outputs (Predict_fp rnd [b] g
           (Predict_fp rnd [a] g (chain_net 1 0 ''linear'' a b a b))) = [rnd (rnd (b - a) + a)]"
    using r d by (cases g) (simp_all add: chain_net_linear predict_fp_defs)
qed

text \<open>In exact arithmetic both bounds are returned as they are.\<close>

lemma Predict_identity_chain_net_exact:
  assumes "a \<noteq> b"
  shows "ANN_outputs (Predict [a] g (chain_net 1 0 ''linear'' a b a b)) = [a]"
    and "ANN_outputs (Predict [b] g (chain_net 1 0 ''linear'' a b a b)) = [b]"
  using Predict_fp_identity_chain_net(1,2) [of "\<lambda>x. x" a b g] assms
  by (simp_all add: Predict_fp_exact)

text \<open>
  Claim C6, as amended. On the identity network with one hidden neuron, linear
  activations, weights 1, biases 0 and the bounds \<open>(a, b)\<close> for the input and for the
  output, \<open>a \<noteq> b\<close>, \<open>Predict\<close> returns \<open>[a]\<close> for the raw input \<open>[a]\<close>. For the raw input
  \<open>[b]\<close> it returns the rounded sum of \<open>a\<close> and the rounded difference \<open>b - a\<close>: the
  normalized input is 1, and the de-normalisation computes \<^verbatim>\<open>1 * (b - a) + a\<close>. This is
  \<open>b\<close> where the two operations are exact, as they are in exact arithmetic, and need not
  be \<open>b\<close> in double precision. Both hold on the freshly built network and after a call on
  the other bound, with or without the gradient. The rounding function is any that
  stores 0, 1, -1, \<open>a\<close> and the rounded \<open>b - a\<close> as they are and does not round \<open>b - a\<close> to 0,
  as rounding to double does for doubles \<open>a \<noteq> b\<close> whose difference does not overflow.
\<close>

theorem Predict_identity_net_bounds:
  assumes "rnd 0 = 0" and "rnd 1 = 1" and "rnd (- 1) = - 1" and "rnd a = a"
    and "rnd (rnd (b - a)) = rnd (b - a)" and "rnd (b - a) \<noteq> 0"
  shows "ANN_outputs (Predict_fp rnd [a] g (chain_net 1 0 ''linear'' a b a b)) = [a] \<and>
    ANN_outputs (Predict_fp rnd [b] g (chain_net 1 0 ''linear'' a b a b)) =
      [rnd (rnd (b - a) + a)] \<and>
    ANN_outputs (Predict_fp rnd [a] g
      (Predict_fp rnd [b] g (chain_net 1 0 ''linear'' a b a b))) = [a] \<and>
    ANN_outputs (Predict_fp rnd [b] g
      (Predict_fp rnd [a] g (chain_net 1 0 ''linear'' a b a b))) = [rnd (rnd (b - a) + a)]"
  using Predict_fp_identity_chain_net [OF assms] by blast

theorem Predict_identity_net_bounds_witness:
  "binary64 0 = 0 \<and> binary64 1 = 1 \<and> binary64 (- 1) = - 1 \<and> binary64 (- 2) = - 2 \<and>
   binary64 (binary64 (binary64 0.3 - (- 2))) = binary64 (binary64 0.3 - (- 2)) \<and>
   binary64 (binary64 0.3 - (- 2)) \<noteq> 0 \<and>
   ANN_outputs (Predict_fp binary64 [- 2] False
     (chain_net 1 0 ''linear'' (- 2) (binary64 0.3) (- 2) (binary64 0.3))) = [- 2] \<and>
   ANN_outputs (Predict_fp binary64 [binary64 0.3] False
     (chain_net 1 0 ''linear'' (- 2) (binary64 0.3) (- 2) (binary64 0.3))) =
     [binary64 (binary64 (binary64 0.3 - (- 2)) + (- 2))]"
proof -
  note h = binary64_values(1-6)
  from Predict_identity_net_bounds [of binary64 "- 2" "binary64 0.3" False, OF h]
  show ?thesis using h by blast
qed

text \<open>
  The claim as stated, with \<open>[b]\<close> returned for \<open>[b]\<close>, fails in double precision: with
  the bounds \<open>(-2, 0.3)\<close> the call on the double 0.3 returns 0.2999999999999998, the
  double \<open>675539944105574 / 2 ^ 51\<close>, because the sum \<open>0.3 + 2\<close> loses the last three binary
  digits of 0.3.
\<close>

theorem Predict_identity_net_upper_bound_rounded:
  "ANN_outputs (Predict_fp binary64 [binary64 0.3] False
     (chain_net 1 0 ''linear'' (- 2) (binary64 0.3) (- 2) (binary64 0.3))) =
     [675539944105574 / 2251799813685248] \<and>
   ANN_outputs (Predict_fp binary64 [binary64 0.3] False
     (chain_net 1 0 ''linear'' (- 2) (binary64 0.3) (- 2) (binary64 0.3))) \<noteq> [binary64 0.3]"
proof -
  note h = binary64_values(1-6)
  have "ANN_outputs (Predict_fp binary64 [binary64 0.3] False
     (chain_net 1 0 ''linear'' (- 2) (binary64 0.3) (- 2) (binary64 0.3))) =
     [binary64 (binary64 (binary64 0.3 - (- 2)) + (- 2))]"
    by (rule Predict_fp_identity_chain_net(2) [OF h])
  then have v: "ANN_outputs (Predict_fp binary64 [binary64 0.3] False
     (chain_net 1 0 ''linear'' (- 2) (binary64 0.3) (- 2) (binary64 0.3))) =
     [675539944105574 / 2251799813685248]"
    by (simp only: binary64_values(8))
  have "(675539944105574 / 2251799813685248 :: real) \<noteq> binary64 0.3"
    by (simp add: binary64_values(7))
  then show ?thesis using v by simp
qed

section \<open>Selecting networks\<close>

lemma set_matching_pairs:
  "set [(j, i). j \<leftarrow> [0..<length xs], i \<leftarrow> [0..<length ys], xs ! j = ys ! i] =
     {(j, i). j < length xs \<and> i < length ys \<and> xs ! j = ys ! i}"
  by auto

lemma matching_pairs_empty_iff:
  "[(j, i). j \<leftarrow> [0..<length xs], i \<leftarrow> [0..<length ys], xs ! j = ys ! i] = [] \<longleftrightarrow>
     set xs \<inter> set ys = {}"
proof -
  have "[(j, i). j \<leftarrow> [0..<length xs], i \<leftarrow> [0..<length ys], xs ! j = ys ! i] = [] \<longleftrightarrow>
      {(j, i). j < length xs \<and> i < length ys \<and> xs ! j = ys ! i} = {}"
    unfolding set_matching_pairs [symmetric] by (simp only: set_empty)
  also have "\<dots> \<longleftrightarrow> set xs \<inter> set ys = {}"
    by (auto simp add: in_set_conv_nth disjoint_iff) metis
  finally show ?thesis .
qed

lemma FindVariableIndices_empty_iff:
  "FindVariableIndices c i names input_side = [] \<longleftrightarrow>
     set names \<inter> set (if input_side then input_names (NeuralNetworks c ! i)
                         else output_names (NeuralNetworks c ! i)) = {}"
  unfolding FindVariableIndices_def Let_def GetnInputs_def GetnOutputs_def GetInputName_def
    GetOutputName_def
  by (cases input_side) (simp_all only: if_True if_False matching_pairs_empty_iff)

lemma pair_MLP_selected:
  "pair_MLP c inputs outputs iMLP m =
     (if selected c inputs outputs iMLP
      then m\<lparr>MLP_indices := MLP_indices m @ [iMLP],
             Input_Map := Input_Map m @ [FindVariableIndices c iMLP inputs True],
             Output_Map := Output_Map m @ [FindVariableIndices c iMLP outputs False]\<rparr>
      else m)"
  by (simp add: pair_MLP_def selected_def Let_def)

lemma PairVariableswithMLPs_filter:
  fixes c inputs outputs m
  defines "sel \<equiv> filter (selected c inputs outputs) [0..<GetNANNs c]"
  shows "PairVariableswithMLPs c inputs outputs m =
     m\<lparr>MLP_indices := MLP_indices m @ sel,
       Input_Map := Input_Map m @ map (\<lambda>i. FindVariableIndices c i inputs True) sel,
       Output_Map := Output_Map m @ map (\<lambda>i. FindVariableIndices c i outputs False) sel\<rparr>"
proof -
  let ?sel = "\<lambda>n. filter (selected c inputs outputs) [0..<n]"
  let ?P = "\<lambda>n t. t =
     m\<lparr>MLP_indices := MLP_indices m @ ?sel n,
       Input_Map := Input_Map m @ map (\<lambda>i. FindVariableIndices c i inputs True) (?sel n),
       Output_Map := Output_Map m @ map (\<lambda>i. FindVariableIndices c i outputs False) (?sel n)\<rparr>"
  have "?P (GetNANNs c) (for_loop 0 (GetNANNs c) (pair_MLP c inputs outputs) m)"
  proof (rule for_loop_counted [where P = ?P])
    show "?P 0 m" by simp
  next
    fix n t assume "?P n t"
    then show "?P (Suc n) (pair_MLP c inputs outputs n t)"
      by (simp add: pair_MLP_selected)
  qed simp
  then show ?thesis by (simp add: PairVariableswithMLPs_def sel_def)
qed

lemma selected_iff:
  "selected c inputs outputs iMLP \<longleftrightarrow>
     set (input_names (NeuralNetworks c ! iMLP)) \<inter> set inputs \<noteq> {} \<and>
     set (output_names (NeuralNetworks c ! iMLP)) \<inter> set outputs \<noteq> {}"
  by (auto simp add: selected_def FindVariableIndices_empty_iff)

lemma named_net_names:
  "input_names (named_net [a, b] [x]) = [a, b]"
  "output_names (named_net [a, b] [x]) = [x]"
  "input_names (named_net [a, b, d] [x]) = [a, b, d]"
  "output_names (named_net [a, b, d] [x]) = [x]"
  by (simp_all add: named_net_def for_loop_def DefineOutputLayer_def DefineInputLayer_def
      CNeuralNetwork_new_def new_CLayer_def update_layer_def resize_def SetInputName_def
      SetOutputName_def Let_def eval_nat_numeral)

lemmas find_defs = FindVariableIndices_def two_nets_def named_net_names GetnInputs_def
  GetnOutputs_def GetInputName_def GetOutputName_def Let_def

lemma two_nets_find:
  "FindVariableIndices two_nets 0 [''T'', ''p''] True = [(0, 0), (1, 1)]"
  "FindVariableIndices two_nets (Suc 0) [''T'', ''p''] True = [(0, 0), (1, 1)]"
  "FindVariableIndices two_nets 0 [''rho'', ''mu''] False = [(0, 0)]"
  "FindVariableIndices two_nets (Suc 0) [''rho'', ''mu''] False = [(1, 0)]"
  "FindVariableIndices two_nets 0 [''T''] True = [(0, 0)]"
  "GetNANNs two_nets = 2"
  by (simp_all add: find_defs GetNANNs_def eval_nat_numeral upt_rec)

text \<open>
  Claim C4. A network is among the selected indices exactly when one of its input names
  is among the caller's inputs and one of its output names among the caller's outputs;
  a selector the constructor returns is the map \<open>PairVariableswithMLPs\<close> computed; and for
  the two networks of the scenario, the inputs T, p and the outputs rho, mu, both are
  selected, each with two input pairs and one output pair, and no check fails.
\<close>

theorem selector_selects_matching_networks:
  "(iMLP \<in> set (MLP_indices (PairVariableswithMLPs c inputs outputs
        \<lparr>MLP_indices = [], Input_Map = [], Output_Map = []\<rparr>)) \<longleftrightarrow>
      iMLP < GetNANNs c \<and>
      set (input_names (NeuralNetworks c ! iMLP)) \<inter> set inputs \<noteq> {} \<and>
      set (output_names (NeuralNetworks c ! iMLP)) \<inter> set outputs \<noteq> {}) \<and>
   (\<forall>m. CIOMap_new c inputs outputs = Inr m \<longrightarrow>
      m = PairVariableswithMLPs c inputs outputs
            \<lparr>MLP_indices = [], Input_Map = [], Output_Map = []\<rparr>) \<and>
   CIOMap_new two_nets [''T'', ''p''] [''rho'', ''mu''] =
     Inr \<lparr>MLP_indices = [0, 1],
          Input_Map = [[(0, 0), (1, 1)], [(0, 0), (1, 1)]],
          Output_Map = [[(0, 0)], [(1, 0)]]\<rparr>"
proof (intro conjI)
  show "iMLP \<in> set (MLP_indices (PairVariableswithMLPs c inputs outputs
        \<lparr>MLP_indices = [], Input_Map = [], Output_Map = []\<rparr>)) \<longleftrightarrow>
      iMLP < GetNANNs c \<and>
      set (input_names (NeuralNetworks c ! iMLP)) \<inter> set inputs \<noteq> {} \<and>
      set (output_names (NeuralNetworks c ! iMLP)) \<inter> set outputs \<noteq> {}"
    by (auto simp add: PairVariableswithMLPs_filter selected_iff)
  show "\<forall>m. CIOMap_new c inputs outputs = Inr m \<longrightarrow>
      m = PairVariableswithMLPs c inputs outputs
            \<lparr>MLP_indices = [], Input_Map = [], Output_Map = []\<rparr>"
    by (auto simp add: CIOMap_new_def Let_def split: if_splits)
  show "CIOMap_new two_nets [''T'', ''p''] [''rho'', ''mu''] =
     Inr \<lparr>MLP_indices = [0, 1],
          Input_Map = [[(0, 0), (1, 1)], [(0, 0), (1, 1)]],
          Output_Map = [[(0, 0)], [(1, 0)]]\<rparr>"
    by (simp add: CIOMap_new_def PairVariableswithMLPs_filter selected_def two_nets_find
        CheckUseOfInputs_def CheckUseOfOutputs_def eval_nat_numeral upt_rec)
qed

theorem selector_selects_matching_networks_witness:
  "CIOMap_new two_nets [''T'', ''p''] [''rho'', ''mu''] =
     Inr \<lparr>MLP_indices = [0, 1],
          Input_Map = [[(0, 0), (1, 1)], [(0, 0), (1, 1)]],
          Output_Map = [[(0, 0)], [(1, 0)]]\<rparr> \<and>
   PairVariableswithMLPs two_nets [''T'', ''p''] [''rho'', ''mu'']
     \<lparr>MLP_indices = [], Input_Map = [], Output_Map = []\<rparr> =
     \<lparr>MLP_indices = [0, 1],
          Input_Map = [[(0, 0), (1, 1)], [(0, 0), (1, 1)]],
          Output_Map = [[(0, 0)], [(1, 0)]]\<rparr>"
  using selector_selects_matching_networks [of 0 two_nets "[''T'', ''p'']" "[''rho'', ''mu'']"]
  by simp

text \<open>
  Claim C3, as amended. With an empty list of caller outputs the constructor runs
  neither check and returns a selector, and the selector is empty: no network has an
  output among no outputs, and \<open>PairVariableswithMLPs\<close> selects a network only when both
  index lists are non-empty.
\<close>

theorem selector_with_no_outputs_is_empty:
  "CIOMap_new c inputs [] = Inr \<lparr>MLP_indices = [], Input_Map = [], Output_Map = []\<rparr>"
proof -
  have "filter (selected c inputs []) [0..<GetNANNs c] = []"
    by (simp add: selected_def FindVariableIndices_empty_iff)
  then show ?thesis
    by (simp add: CIOMap_new_def PairVariableswithMLPs_filter)
qed

text \<open>
  The claim as stated, that every network with a matching input is selected, fails: the
  first network of the scenario has the input T, and with the inputs T and no outputs it
  is not selected.
\<close>

theorem selector_with_no_outputs_selects_nothing:
  "FindVariableIndices two_nets 0 [''T''] True \<noteq> [] \<and>
   0 \<notin> set (MLP_indices (PairVariableswithMLPs two_nets [''T''] []
        \<lparr>MLP_indices = [], Input_Map = [], Output_Map = []\<rparr>)) \<and>
   CIOMap_new two_nets [''T''] [] = Inr \<lparr>MLP_indices = [], Input_Map = [], Output_Map = []\<rparr>"
proof -
  have "filter (selected two_nets [''T''] []) [0..<GetNANNs two_nets] = []"
    by (simp add: selected_def FindVariableIndices_empty_iff)
  then show ?thesis
    by (simp add: CIOMap_new_def PairVariableswithMLPs_filter two_nets_find)
qed

section \<open>Sizing the network\<close>

lemma for_loop_opt_empty: "hi \<le> lo \<Longrightarrow> for_loop_opt lo hi body s = Some s"
  by (simp add: for_loop_opt_def)

lemma for_loop_opt_Suc:
  "lo \<le> hi \<Longrightarrow> for_loop_opt lo (Suc hi) body s = Option.bind (for_loop_opt lo hi body s) (body hi)"
  by (simp add: for_loop_opt_def)

lemma for_loop_opt_counted:
  assumes "lo \<le> hi" and "P lo s"
    and "\<And>i t. lo \<le> i \<Longrightarrow> i < hi \<Longrightarrow> P i t \<Longrightarrow> \<exists>t'. body i t = Some t' \<and> P (Suc i) t'"
  shows "\<exists>t'. for_loop_opt lo hi body s = Some t' \<and> P hi t'"
  using assms(1,3)
proof (induction hi rule: dec_induct)
  case base
  then show ?case using assms(2) by (simp add: for_loop_opt_empty)
next
  case (step n)
  then obtain t where t: "for_loop_opt lo n body s = Some t" "P n t"
    by (metis less_Suc_eq)
  with step obtain t' where "body n t = Some t'" "P (Suc n) t'"
    by (metis lessI)
  with t step.hyps show ?case by (simp add: for_loop_opt_Suc)
qed

lemma SizeGradients_Some:
  assumes "number_of_neurons l \<le> length (neurons l)"
  shows "\<exists>l'. SizeGradients nInputs l = Some l' \<and>
           number_of_neurons l' = number_of_neurons l \<and>
           length (neurons l') = length (neurons l) \<and>
           (\<forall>i < number_of_neurons l. length (gradient (neurons l' ! i)) = nInputs)"
proof -
  let ?N = "number_of_neurons l"
  let ?P = "\<lambda>m l'. number_of_neurons l' = ?N \<and> length (neurons l') = length (neurons l) \<and>
     (\<forall>i < m. length (gradient (neurons l' ! i)) = nInputs)"
  have "\<exists>l'. for_loop_opt 0 ?N
       (\<lambda>iNeuron l'. do {
          n \<leftarrow> vec_at (neurons l') iNeuron;
          Some (l'\<lparr>neurons := (neurons l')[iNeuron := SizeGradient nInputs n]\<rparr>)
        }) l = Some l' \<and> ?P ?N l'"
  proof (rule for_loop_opt_counted [where P = ?P])
    show "?P 0 l" by simp
  next
    fix m l'
    assume m: "m < ?N" and inv: "?P m l'"
    then have "m < length (neurons l')" using assms by simp
    then show "\<exists>t'. (do {
          n \<leftarrow> vec_at (neurons l') m;
          Some (l'\<lparr>neurons := (neurons l')[m := SizeGradient nInputs n]\<rparr>)
        }) = Some t' \<and> ?P (Suc m) t'"
      using inv
      by (auto simp add: vec_at_def SizeGradient_def resize_def nth_list_update less_Suc_eq)
  qed simp
  then show ?thesis by (simp add: SizeGradients_def)
qed

lemma collect_layers_Some:
  assumes len: "length (hiddenLayers s) = n_hidden_layers s"
  shows "collect_layers s =
           Some (s\<lparr>total_layers := inputLayer s # hiddenLayers s @ [outputLayer s]\<rparr>)"
proof -
  let ?n = "n_hidden_layers s"
  let ?X = "resize (?n + 2) nullptr (total_layers s)"
  have lx: "length ?X = ?n + 2" by (simp add: resize_def)
  define s2 where "s2 = s\<lparr>total_layers := ?X[0 := inputLayer s]\<rparr>"
  let ?body = "\<lambda>iLayer t. do {
                h \<leftarrow> vec_at (hiddenLayers t) iLayer;
                tl \<leftarrow> vec_set (iLayer + 1) h (total_layers t);
                Some (t\<lparr>total_layers := tl\<rparr>)
              }"
  let ?P = "\<lambda>k t. (\<exists>x. t = s\<lparr>total_layers := x\<rparr>) \<and> length (total_layers t) = ?n + 2 \<and>
      total_layers t ! 0 = inputLayer s \<and> (\<forall>j < k. total_layers t ! (j + 1) = hiddenLayers s ! j)"
  have "\<exists>t'. for_loop_opt 0 ?n ?body s2 = Some t' \<and> ?P ?n t'"
  proof (rule for_loop_opt_counted [where P = ?P])
    show "?P 0 s2" using lx by (auto simp add: s2_def)
  next
    fix k t
    assume k: "k < ?n" and inv: "?P k t"
    then obtain x where t: "t = s\<lparr>total_layers := x\<rparr>" by blast
    have lt: "length x = ?n + 2" "x ! 0 = inputLayer s" "\<forall>j < k. x ! (j + 1) = hiddenLayers s ! j"
      using inv t by simp_all
    have "?body k t = Some (s\<lparr>total_layers := x[k + 1 := hiddenLayers s ! k]\<rparr>)"
      using k len lt by (simp add: t vec_at_def vec_set_def)
    moreover have "?P (Suc k) (s\<lparr>total_layers := x[k + 1 := hiddenLayers s ! k]\<rparr>)"
    proof -
      have kl: "k + 1 < length x" using lt(1) k by arith
      have "\<forall>j < Suc k. x[k + 1 := hiddenLayers s ! k] ! (j + 1) = hiddenLayers s ! j"
      proof (intro allI impI)
        fix j assume "j < Suc k"
        then consider "j = k" | "j < k" by arith
        then show "x[k + 1 := hiddenLayers s ! k] ! (j + 1) = hiddenLayers s ! j"
        proof cases
          case 1
          then show ?thesis using kl by (simp only: nth_list_update_eq)
        next
          case 2
          then have "x[k + 1 := hiddenLayers s ! k] ! (j + 1) = x ! (j + 1)"
            by simp
          then show ?thesis using lt(3) 2 by simp
        qed
      qed
      moreover have "x[k + 1 := hiddenLayers s ! k] ! 0 = inputLayer s"
        using lt(2) by simp
      moreover have "\<exists>xa. s\<lparr>total_layers := x[k + 1 := hiddenLayers s ! k]\<rparr> = s\<lparr>total_layers := xa\<rparr>"
        by blast
      ultimately show ?thesis using lt(1) by simp
    qed
    ultimately show "\<exists>t'. ?body k t = Some t' \<and> ?P (Suc k) t'" by blast
  qed simp
  then obtain s3 where s3: "for_loop_opt 0 ?n ?body s2 = Some s3" and p3: "?P ?n s3"
    by blast
  from p3 obtain x where x: "s3 = s\<lparr>total_layers := x\<rparr>" by blast
  have lt: "length x = ?n + 2" "x ! 0 = inputLayer s" "\<forall>j < ?n. x ! (j + 1) = hiddenLayers s ! j"
    using p3 x by simp_all
  have fin: "x[?n + 1 := outputLayer s] = inputLayer s # hiddenLayers s @ [outputLayer s]"
  proof (rule nth_equalityI)
    show "length (x[?n + 1 := outputLayer s]) = length (inputLayer s # hiddenLayers s @ [outputLayer s])"
      using lt len by simp
  next
    fix i assume "i < length (x[?n + 1 := outputLayer s])"
    then have i: "i < ?n + 2" using lt by simp
    have "i = 0 \<or> (i = (i - 1) + 1 \<and> i - 1 < ?n) \<or> i = ?n + 1"
      using i by arith
    then consider "i = 0" | j where "i = j + 1" "j < ?n" | "i = ?n + 1"
      by blast
    then show "x[?n + 1 := outputLayer s] ! i = (inputLayer s # hiddenLayers s @ [outputLayer s]) ! i"
    proof cases
      case 1
      then show ?thesis using lt by simp
    next
      case 2
      then show ?thesis using lt len by (simp add: nth_append)
    next
      case 3
      then show ?thesis using lt len by (simp add: nth_append)
    qed
  qed
  have "collect_layers s = Some (s\<lparr>total_layers := x[?n + 1 := outputLayer s]\<rparr>)"
  proof -
    have ne: "?X \<noteq> []" using lx by auto
    show ?thesis
      using ne lt s3 [unfolded s2_def]
      by (simp add: collect_layers_def Let_def vec_set_def x)
  qed
  then show ?thesis using fin by simp
qed

lemma size_weight_matrix_Some:
  assumes l: "iLayer < length (weights_mat s)"
    and rows: "rows s = Some pr" "pr \<noteq> nullptr"
    and cols: "\<And>w. cols (s\<lparr>weights_mat := w\<rparr>) = Some pc" "pc \<noteq> nullptr"
  shows "\<exists>W. size_weight_matrix iLayer rows cols s =
              Some (s\<lparr>weights_mat := (weights_mat s)[iLayer := W]\<rparr>) \<and>
           length W = number_of_neurons (heap s pr) \<and>
           (\<forall>i < length W. length (W ! i) = number_of_neurons (heap s pc))"
proof -
  let ?R = "number_of_neurons (heap s pr)"
  let ?C = "number_of_neurons (heap s pc)"
  define s1 where "s1 = s\<lparr>weights_mat := (weights_mat s)[iLayer := resize ?R [] (weights_mat s ! iLayer)]\<rparr>"
  let ?body = "\<lambda>iNeuron t. do {
          w \<leftarrow> vec_at (weights_mat t) iLayer;
          r \<leftarrow> vec_at w iNeuron;
          pc \<leftarrow> cols t;
          lc \<leftarrow> load t pc;
          Some (t\<lparr>weights_mat := (weights_mat t)[iLayer := w[iNeuron := resize (GetNNeurons lc) 0 r]]\<rparr>)
        }"
  let ?P = "\<lambda>k t. \<exists>W. t = s\<lparr>weights_mat := (weights_mat s)[iLayer := W]\<rparr> \<and> length W = ?R \<and>
      (\<forall>i < k. length (W ! i) = ?C)"
  have "\<exists>t'. for_loop_opt 0 ?R ?body s1 = Some t' \<and> ?P ?R t'"
  proof (rule for_loop_opt_counted [where P = ?P])
    show "?P 0 s1" by (auto simp add: s1_def resize_def)
  next
    fix k t
    assume k: "k < ?R" and inv: "?P k t"
    then obtain W where W: "t = s\<lparr>weights_mat := (weights_mat s)[iLayer := W]\<rparr>"
      "length W = ?R" "\<forall>i < k. length (W ! i) = ?C"
      by blast
    let ?W' = "W[k := resize ?C 0 (W ! k)]"
    have "?body k t = Some (s\<lparr>weights_mat := (weights_mat s)[iLayer := ?W']\<rparr>)"
      using k l W(2) cols
      by (simp add: W(1) vec_at_def load_def GetNNeurons_def)
    moreover have "length ?W' = ?R \<and> (\<forall>i < Suc k. length (?W' ! i) = ?C)"
      using k W(2,3) by (auto simp add: nth_list_update less_Suc_eq resize_def)
    ultimately show "\<exists>t'. ?body k t = Some t' \<and> ?P (Suc k) t'" by blast
  qed simp
  then obtain W where "for_loop_opt 0 ?R ?body s1 = Some (s\<lparr>weights_mat := (weights_mat s)[iLayer := W]\<rparr>)"
    "length W = ?R" "\<forall>i < ?R. length (W ! i) = ?C"
    by blast
  moreover have "size_weight_matrix iLayer rows cols s = for_loop_opt 0 ?R ?body s1"
    using l rows by (simp add: size_weight_matrix_def vec_at_def load_def Let_def s1_def GetNNeurons_def)
  ultimately show ?thesis by auto
qed

lemma size_weights_Some:
  assumes len: "length (hiddenLayers s) = n_hidden_layers s" and pos: "0 < n_hidden_layers s"
    and nn: "inputLayer s \<noteq> nullptr" "outputLayer s \<noteq> nullptr" "nullptr \<notin> set (hiddenLayers s)"
  defines "P \<equiv> inputLayer s # hiddenLayers s @ [outputLayer s]"
  shows "\<exists>w. size_weights s = Some (s\<lparr>weights_mat := w\<rparr>) \<and> length w = n_hidden_layers s + 1 \<and>
     (\<forall>l < n_hidden_layers s + 1.
        length (w ! l) = number_of_neurons (heap s (P ! (l + 1))) \<and>
        (\<forall>i < length (w ! l). length (w ! l ! i) = number_of_neurons (heap s (P ! l))))"
proof -
  let ?n = "n_hidden_layers s"
  define ok where "ok w l \<longleftrightarrow>
        length (w ! l) = number_of_neurons (heap s (P ! (l + 1))) \<and>
        (\<forall>i < length (w ! l). length (w ! l ! i) = number_of_neurons (heap s (P ! l)))"
    for w :: "mlpdouble list list list" and l
  have P0: "P ! 0 = inputLayer s" by (simp add: P_def)
  have Ph: "P ! (j + 1) = hiddenLayers s ! j" if "j < ?n" for j
    using that len by (simp add: P_def nth_append)
  have Pn: "P ! (?n + 1) = outputLayer s"
    using len by (simp add: P_def nth_append)
  have hn: "hiddenLayers s ! j \<noteq> nullptr" if "j < ?n" for j
    using that len nn(3) by (metis nth_mem)
  have step: "\<exists>W. size_weight_matrix l rows cols (s\<lparr>weights_mat := w\<rparr>) =
                Some (s\<lparr>weights_mat := w[l := W]\<rparr>) \<and> ok (w[l := W]) l"
    if "l < length w" "rows (s\<lparr>weights_mat := w\<rparr>) = Some (P ! (l + 1))"
      "\<And>w'. cols (s\<lparr>weights_mat := w'\<rparr>) = Some (P ! l)"
      "P ! (l + 1) \<noteq> nullptr" "P ! l \<noteq> nullptr"
    for l rows cols w
  proof -
    have "\<exists>W. size_weight_matrix l rows cols (s\<lparr>weights_mat := w\<rparr>) =
              Some ((s\<lparr>weights_mat := w\<rparr>)\<lparr>weights_mat := (weights_mat (s\<lparr>weights_mat := w\<rparr>))[l := W]\<rparr>) \<and>
           length W = number_of_neurons (heap (s\<lparr>weights_mat := w\<rparr>) (P ! (l + 1))) \<and>
           (\<forall>i < length W. length (W ! i) = number_of_neurons (heap (s\<lparr>weights_mat := w\<rparr>) (P ! l)))"
    proof (rule size_weight_matrix_Some)
      show "l < length (weights_mat (s\<lparr>weights_mat := w\<rparr>))" using that(1) by simp
      show "rows (s\<lparr>weights_mat := w\<rparr>) = Some (P ! (l + 1))" by (rule that(2))
      show "P ! (l + 1) \<noteq> nullptr" by (rule that(4))
      show "cols (s\<lparr>weights_mat := w, weights_mat := w'\<rparr>) = Some (P ! l)" for w'
        using that(3) [of w'] by simp
      show "P ! l \<noteq> nullptr" by (rule that(5))
    qed
    then obtain W where W: "size_weight_matrix l rows cols (s\<lparr>weights_mat := w\<rparr>) =
              Some (s\<lparr>weights_mat := w[l := W]\<rparr>)"
      "length W = number_of_neurons (heap s (P ! (l + 1)))"
      "\<forall>i < length W. length (W ! i) = number_of_neurons (heap s (P ! l))"
      by auto
    have "ok (w[l := W]) l"
      using that(1) W(2,3) by (simp add: ok_def)
    then show ?thesis using W(1) by blast
  qed
  have keep: "ok (w[l := W]) j" if "ok w j" "j \<noteq> l" for w l W j
    using that by (simp add: ok_def)
  let ?w5 = "resize (?n + 1) [] (weights_mat s)"
  have l5: "length ?w5 = ?n + 1" by (simp add: resize_def)
  obtain W0 where W0: "size_weight_matrix 0 (\<lambda>t. vec_at (hiddenLayers t) 0) (\<lambda>t. Some (inputLayer t))
                  (s\<lparr>weights_mat := ?w5\<rparr>) = Some (s\<lparr>weights_mat := ?w5[0 := W0]\<rparr>)"
      and ok0: "ok (?w5[0 := W0]) 0"
  proof -
    have "\<exists>W. size_weight_matrix 0 (\<lambda>t. vec_at (hiddenLayers t) 0) (\<lambda>t. Some (inputLayer t))
                  (s\<lparr>weights_mat := ?w5\<rparr>) = Some (s\<lparr>weights_mat := ?w5[0 := W]\<rparr>) \<and>
              ok (?w5[0 := W]) 0"
    proof (rule step)
      show "0 < length ?w5" using l5 by simp
      show "vec_at (hiddenLayers (s\<lparr>weights_mat := ?w5\<rparr>)) 0 = Some (P ! (0 + 1))"
        using Ph [of 0] pos len by (simp add: vec_at_def)
      show "Some (inputLayer (s\<lparr>weights_mat := w'\<rparr>)) = Some (P ! 0)" for w'
        using P0 by simp
      show "P ! (0 + 1) \<noteq> nullptr" using Ph [of 0] hn [of 0] pos by simp
      show "P ! 0 \<noteq> nullptr" using P0 nn(1) by simp
    qed
    then show ?thesis using that by blast
  qed
  let ?body = "\<lambda>iLayer. size_weight_matrix iLayer
                (\<lambda>t. vec_at (hiddenLayers t) iLayer) (\<lambda>t. vec_at (hiddenLayers t) (iLayer - 1))"
  let ?Q = "\<lambda>k t. \<exists>w. t = s\<lparr>weights_mat := w\<rparr> \<and> length w = ?n + 1 \<and> (\<forall>l < k. ok w l)"
  have "\<exists>t'. for_loop_opt 1 ?n ?body (s\<lparr>weights_mat := ?w5[0 := W0]\<rparr>) = Some t' \<and> ?Q ?n t'"
  proof (rule for_loop_opt_counted [where P = ?Q])
    show "1 \<le> ?n" using pos by simp
    show "?Q 1 (s\<lparr>weights_mat := ?w5[0 := W0]\<rparr>)"
      using ok0 l5 by auto
  next
    fix k t
    assume k: "1 \<le> k" "k < ?n" and inv: "?Q k t"
    then obtain w where w: "t = s\<lparr>weights_mat := w\<rparr>" "length w = ?n + 1" "\<forall>l < k. ok w l"
      by blast
    have "\<exists>W. size_weight_matrix k (\<lambda>t. vec_at (hiddenLayers t) k)
                 (\<lambda>t. vec_at (hiddenLayers t) (k - 1)) (s\<lparr>weights_mat := w\<rparr>) =
                Some (s\<lparr>weights_mat := w[k := W]\<rparr>) \<and> ok (w[k := W]) k"
    proof (rule step)
      show "k < length w" using k w(2) by simp
      show "vec_at (hiddenLayers (s\<lparr>weights_mat := w\<rparr>)) k = Some (P ! (k + 1))"
        using Ph [of k] k len by (simp add: vec_at_def)
      show "vec_at (hiddenLayers (s\<lparr>weights_mat := w'\<rparr>)) (k - 1) = Some (P ! k)" for w'
        using Ph [of "k - 1"] k len by (simp add: vec_at_def)
      show "P ! (k + 1) \<noteq> nullptr" using Ph [of k] hn [of k] k by simp
      show "P ! k \<noteq> nullptr" using Ph [of "k - 1"] hn [of "k - 1"] k by simp
    qed
    then obtain W where W: "?body k t = Some (s\<lparr>weights_mat := w[k := W]\<rparr>)" "ok (w[k := W]) k"
      using w(1) by blast
    have "\<forall>l < Suc k. ok (w[k := W]) l"
    proof (intro allI impI)
      fix l assume "l < Suc k"
      then consider "l = k" | "l < k" by arith
      then show "ok (w[k := W]) l"
      proof cases
        case 1
        then show ?thesis using W(2) by simp
      next
        case 2
        then show ?thesis using keep [of w l k W] w(3) by simp
      qed
    qed
    moreover have "length (w[k := W]) = ?n + 1" using w(2) by simp
    ultimately show "\<exists>t'. ?body k t = Some t' \<and> ?Q (Suc k) t'"
      using W(1) by blast
  qed
  then obtain w7 where w7: "for_loop_opt 1 ?n ?body (s\<lparr>weights_mat := ?w5[0 := W0]\<rparr>) =
      Some (s\<lparr>weights_mat := w7\<rparr>)" "length w7 = ?n + 1" "\<forall>l < ?n. ok w7 l"
    by blast
  let ?cols = "\<lambda>t. if n_hidden_layers t = 0 then None
            else vec_at (hiddenLayers t) (n_hidden_layers t - 1)"
  have "\<exists>W. size_weight_matrix ?n (\<lambda>t. Some (outputLayer t)) ?cols (s\<lparr>weights_mat := w7\<rparr>) =
                Some (s\<lparr>weights_mat := w7[?n := W]\<rparr>) \<and> ok (w7[?n := W]) ?n"
  proof (rule step)
    show "?n < length w7" using w7(2) by simp
    show "Some (outputLayer (s\<lparr>weights_mat := w7\<rparr>)) = Some (P ! (?n + 1))"
      using Pn by simp
    show "?cols (s\<lparr>weights_mat := w'\<rparr>) = Some (P ! ?n)" for w'
      using Ph [of "?n - 1"] pos len by (simp add: vec_at_def)
    show "P ! (?n + 1) \<noteq> nullptr" using Pn nn(2) by simp
    show "P ! ?n \<noteq> nullptr" using Ph [of "?n - 1"] hn [of "?n - 1"] pos by simp
  qed
  then obtain W8 where W8: "size_weight_matrix ?n (\<lambda>t. Some (outputLayer t)) ?cols (s\<lparr>weights_mat := w7\<rparr>) =
                Some (s\<lparr>weights_mat := w7[?n := W8]\<rparr>)" "ok (w7[?n := W8]) ?n"
    by blast
  have all: "\<forall>l < ?n + 1. ok (w7[?n := W8]) l"
  proof (intro allI impI)
    fix l assume "l < ?n + 1"
    then consider "l = ?n" | "l < ?n" by arith
    then show "ok (w7[?n := W8]) l"
    proof cases
      case 1
      then show ?thesis using W8(2) by simp
    next
      case 2
      then show ?thesis using keep [of w7 l ?n W8] w7(3) by simp
    qed
  qed
  have "size_weights s = Some (s\<lparr>weights_mat := w7[?n := W8]\<rparr>)"
    using W0 w7(1) W8(1) by (simp add: size_weights_def Let_def)
  moreover have "length (w7[?n := W8]) = ?n + 1" using w7(2) by simp
  ultimately show ?thesis using all unfolding ok_def by blast
qed

lemma size_outputs_Some:
  assumes nn: "inputLayer s \<noteq> nullptr" "outputLayer s \<noteq> nullptr"
  shows "\<exists>a j. size_outputs s = Some (s\<lparr>ANN_outputs := a, dOutputs_dInputs := j\<rparr>) \<and>
           length a = number_of_neurons (heap s (outputLayer s)) \<and>
           map length j = replicate (number_of_neurons (heap s (outputLayer s)))
                            (number_of_neurons (heap s (inputLayer s)))"
proof -
  let ?NL = "number_of_neurons (heap s (outputLayer s))"
  let ?NI = "number_of_neurons (heap s (inputLayer s))"
  let ?a = "replicate ?NL (0 :: mlpdouble)"
  let ?j0 = "resize ?NL [] (dOutputs_dInputs s)"
  let ?body = "\<lambda>iOutput t. do {
          r \<leftarrow> vec_at (dOutputs_dInputs t) iOutput;
          li \<leftarrow> load t (inputLayer t);
          Some (t\<lparr>dOutputs_dInputs := (dOutputs_dInputs t)[iOutput := resize (GetNNeurons li) 0 r]\<rparr>)
        }"
  let ?Q = "\<lambda>k t. \<exists>j. t = s\<lparr>ANN_outputs := ?a, dOutputs_dInputs := j\<rparr> \<and> length j = ?NL \<and>
              (\<forall>i < k. length (j ! i) = ?NI)"
  have "\<exists>t'. for_loop_opt 0 ?NL ?body (s\<lparr>ANN_outputs := ?a, dOutputs_dInputs := ?j0\<rparr>) = Some t' \<and>
          ?Q ?NL t'"
  proof (rule for_loop_opt_counted [where P = ?Q])
    show "?Q 0 (s\<lparr>ANN_outputs := ?a, dOutputs_dInputs := ?j0\<rparr>)"
      by (auto simp add: resize_def)
  next
    fix k t
    assume k: "k < ?NL" and inv: "?Q k t"
    then obtain j where j: "t = s\<lparr>ANN_outputs := ?a, dOutputs_dInputs := j\<rparr>" "length j = ?NL"
      "\<forall>i < k. length (j ! i) = ?NI"
      by blast
    let ?j' = "j[k := resize ?NI 0 (j ! k)]"
    have "?body k t = Some (s\<lparr>ANN_outputs := ?a, dOutputs_dInputs := ?j'\<rparr>)"
      using k j(2) nn(1) by (simp add: j(1) vec_at_def load_def GetNNeurons_def)
    moreover have "length ?j' = ?NL \<and> (\<forall>i < Suc k. length (?j' ! i) = ?NI)"
      using k j(2,3) by (auto simp add: nth_list_update less_Suc_eq resize_def)
    ultimately show "\<exists>t'. ?body k t = Some t' \<and> ?Q (Suc k) t'" by blast
  qed simp
  then obtain j where j: "for_loop_opt 0 ?NL ?body (s\<lparr>ANN_outputs := ?a, dOutputs_dInputs := ?j0\<rparr>) =
      Some (s\<lparr>ANN_outputs := ?a, dOutputs_dInputs := j\<rparr>)" "length j = ?NL"
      "\<forall>i < ?NL. length (j ! i) = ?NI"
    by blast
  have "size_outputs s = Some (s\<lparr>ANN_outputs := ?a, dOutputs_dInputs := j\<rparr>)"
    using j(1) nn(2) by (simp add: size_outputs_def Let_def load_def GetNNeurons_def)
  moreover have "map length j = replicate ?NL ?NI"
    using j(2,3) by (simp add: list_eq_iff_nth_eq)
  ultimately show ?thesis by (intro exI [of _ ?a] exI [of _ j]) simp
qed

lemma size_gradients_Some:
  assumes tl: "length (total_layers s) = n_hidden_layers s + 2" "distinct (total_layers s)"
      "nullptr \<notin> set (total_layers s)"
    and inp: "inputLayer s \<noteq> nullptr"
    and full: "\<forall>p \<in> set (total_layers s). number_of_neurons (heap s p) \<le> length (neurons (heap s p))"
  shows "\<exists>h. size_gradients s = Some (s\<lparr>heap := h\<rparr>) \<and>
     (\<forall>p. number_of_neurons (h p) = number_of_neurons (heap s p) \<and>
          length (neurons (h p)) = length (neurons (heap s p))) \<and>
     (\<forall>l < n_hidden_layers s + 2. \<forall>i < number_of_neurons (heap s (total_layers s ! l)).
        length (gradient (neurons (h (total_layers s ! l)) ! i)) =
          number_of_neurons (heap s (inputLayer s)))"
proof -
  let ?n = "n_hidden_layers s + 2"
  let ?P = "total_layers s"
  let ?NI = "number_of_neurons (heap s (inputLayer s))"
  define same where "same h \<longleftrightarrow> (\<forall>p. number_of_neurons (h p) = number_of_neurons (heap s p) \<and>
          length (neurons (h p)) = length (neurons (heap s p)))"
    for h :: "addr \<Rightarrow> CLayer"
  define gok where "gok h l \<longleftrightarrow> (\<forall>i < number_of_neurons (heap s (?P ! l)).
        length (gradient (neurons (h (?P ! l)) ! i)) = ?NI)"
    for h :: "addr \<Rightarrow> CLayer" and l
  let ?body = "\<lambda>iLayer t. do {
          p \<leftarrow> vec_at (total_layers t) iLayer;
          l \<leftarrow> load t p;
          li \<leftarrow> load t (inputLayer t);
          l' \<leftarrow> SizeGradients (GetNNeurons li) l;
          Some (t\<lparr>heap := (heap t)(p := l')\<rparr>)
        }"
  let ?Q = "\<lambda>k t. \<exists>h. t = s\<lparr>heap := h\<rparr> \<and> same h \<and> (\<forall>l < k. gok h l)"
  have "\<exists>t'. for_loop_opt 0 ?n ?body s = Some t' \<and> ?Q ?n t'"
  proof (rule for_loop_opt_counted [where P = ?Q])
    have "s = s\<lparr>heap := heap s\<rparr>" by simp
    moreover have "same (heap s)" by (simp add: same_def)
    ultimately show "?Q 0 s" by blast
  next
    fix k t
    assume k: "k < ?n" and inv: "?Q k t"
    then obtain h where h: "t = s\<lparr>heap := h\<rparr>" "same h" "\<forall>l < k. gok h l"
      by blast
    have mem: "?P ! k \<in> set ?P" using k tl(1) by simp
    then have pk: "?P ! k \<noteq> nullptr" using tl(3) by metis
    have "number_of_neurons (h (?P ! k)) \<le> length (neurons (h (?P ! k)))"
      using full mem h(2) by (simp add: same_def)
    then obtain l' where l': "SizeGradients ?NI (h (?P ! k)) = Some l'"
      "number_of_neurons l' = number_of_neurons (h (?P ! k))"
      "length (neurons l') = length (neurons (h (?P ! k)))"
      "\<forall>i < number_of_neurons (h (?P ! k)). length (gradient (neurons l' ! i)) = ?NI"
      using SizeGradients_Some [of "h (?P ! k)" ?NI] by blast
    let ?h' = "h(?P ! k := l')"
    have ni: "number_of_neurons (h (inputLayer s)) = ?NI"
      using h(2) by (simp add: same_def)
    have "?body k t = Some (s\<lparr>heap := ?h'\<rparr>)"
      using k tl(1) pk inp l'(1) ni
      by (simp add: h(1) vec_at_def load_def GetNNeurons_def)
    moreover have "same ?h'"
      using h(2) l'(2,3) by (simp add: same_def)
    moreover have "\<forall>l < Suc k. gok ?h' l"
    proof (intro allI impI)
      fix l assume "l < Suc k"
      then consider "l = k" | "l < k" by arith
      then show "gok ?h' l"
      proof cases
        case 1
        have "number_of_neurons (h (?P ! k)) = number_of_neurons (heap s (?P ! k))"
          using h(2) by (simp add: same_def)
        then show ?thesis using l'(4) 1 by (simp add: gok_def)
      next
        case 2
        then have "?P ! l \<noteq> ?P ! k"
          using k tl(1,2) by (simp add: nth_eq_iff_index_eq)
        then have "?h' (?P ! l) = h (?P ! l)" by simp
        then show ?thesis using h(3) 2 by (simp add: gok_def)
      qed
    qed
    ultimately show "\<exists>t'. ?body k t = Some t' \<and> ?Q (Suc k) t'" by blast
  qed simp
  then show ?thesis
    unfolding size_gradients_def same_def gok_def by blast
qed

lemma SizeWeights_Some:
  assumes len: "length (hiddenLayers s) = n_hidden_layers s" and pos: "0 < n_hidden_layers s"
    and dist: "distinct (inputLayer s # hiddenLayers s @ [outputLayer s])"
    and nn: "nullptr \<notin> set (inputLayer s # hiddenLayers s @ [outputLayer s])"
    and full: "\<forall>p. length (neurons (heap s p)) = number_of_neurons (heap s p)"
  shows "\<exists>s'. SizeWeights s = Some s' \<and>
     total_layers s' = inputLayer s # hiddenLayers s @ [outputLayer s] \<and>
     (\<forall>p. number_of_neurons (heap s' p) = number_of_neurons (heap s p)) \<and>
     length (weights_mat s') = n_hidden_layers s + 1 \<and>
     (\<forall>l < n_hidden_layers s + 1.
        length (weights_mat s' ! l) = number_of_neurons (heap s (total_layers s' ! (l + 1))) \<and>
        (\<forall>i < length (weights_mat s' ! l).
           length (weights_mat s' ! l ! i) = number_of_neurons (heap s (total_layers s' ! l)))) \<and>
     sized s'"
proof -
  let ?n = "n_hidden_layers s"
  let ?P = "inputLayer s # hiddenLayers s @ [outputLayer s]"
  let ?NI = "number_of_neurons (heap s (inputLayer s))"
  let ?NL = "number_of_neurons (heap s (outputLayer s))"
  have nn': "inputLayer s \<noteq> nullptr" "outputLayer s \<noteq> nullptr" "nullptr \<notin> set (hiddenLayers s)"
    using nn by auto
  have lP: "length ?P = ?n + 2" using len by simp
  define s4 where "s4 = s\<lparr>total_layers := ?P\<rparr>"
  have c: "collect_layers s = Some s4"
    unfolding s4_def using len by (rule collect_layers_Some)
  have "\<exists>w. size_weights s4 = Some (s4\<lparr>weights_mat := w\<rparr>) \<and> length w = n_hidden_layers s4 + 1 \<and>
     (\<forall>l < n_hidden_layers s4 + 1.
        length (w ! l) = number_of_neurons (heap s4 ((inputLayer s4 # hiddenLayers s4 @ [outputLayer s4]) ! (l + 1))) \<and>
        (\<forall>i < length (w ! l). length (w ! l ! i) =
           number_of_neurons (heap s4 ((inputLayer s4 # hiddenLayers s4 @ [outputLayer s4]) ! l))))"
    by (rule size_weights_Some) (simp_all add: s4_def len pos nn')
  then obtain w where w: "size_weights s4 = Some (s4\<lparr>weights_mat := w\<rparr>)" "length w = ?n + 1"
     "\<forall>l < ?n + 1. length (w ! l) = number_of_neurons (heap s (?P ! (l + 1))) \<and>
        (\<forall>i < length (w ! l). length (w ! l ! i) = number_of_neurons (heap s (?P ! l)))"
    by (auto simp add: s4_def)
  define s8 where "s8 = s4\<lparr>weights_mat := w\<rparr>"
  have "\<exists>a j. size_outputs s8 = Some (s8\<lparr>ANN_outputs := a, dOutputs_dInputs := j\<rparr>) \<and>
           length a = number_of_neurons (heap s8 (outputLayer s8)) \<and>
           map length j = replicate (number_of_neurons (heap s8 (outputLayer s8)))
                            (number_of_neurons (heap s8 (inputLayer s8)))"
    by (rule size_outputs_Some) (simp_all add: s8_def s4_def nn')
  then obtain a j where aj: "size_outputs s8 = Some (s8\<lparr>ANN_outputs := a, dOutputs_dInputs := j\<rparr>)"
      "length a = ?NL" "map length j = replicate ?NL ?NI"
    by (auto simp add: s8_def s4_def)
  define s11 where "s11 = s8\<lparr>ANN_outputs := a, dOutputs_dInputs := j\<rparr>"
  have "\<exists>h. size_gradients s11 = Some (s11\<lparr>heap := h\<rparr>) \<and>
     (\<forall>p. number_of_neurons (h p) = number_of_neurons (heap s11 p) \<and>
          length (neurons (h p)) = length (neurons (heap s11 p))) \<and>
     (\<forall>l < n_hidden_layers s11 + 2. \<forall>i < number_of_neurons (heap s11 (total_layers s11 ! l)).
        length (gradient (neurons (h (total_layers s11 ! l)) ! i)) =
          number_of_neurons (heap s11 (inputLayer s11)))"
  proof (rule size_gradients_Some)
    show "length (total_layers s11) = n_hidden_layers s11 + 2"
      using len by (simp add: s11_def s8_def s4_def)
    show "distinct (total_layers s11)"
      using dist by (simp add: s11_def s8_def s4_def)
    show "nullptr \<notin> set (total_layers s11)"
      using nn by (simp add: s11_def s8_def s4_def)
    show "inputLayer s11 \<noteq> nullptr"
      using nn'(1) by (simp add: s11_def s8_def s4_def)
    show "\<forall>p \<in> set (total_layers s11). number_of_neurons (heap s11 p) \<le> length (neurons (heap s11 p))"
      using full by (simp add: s11_def s8_def s4_def)
  qed
  then obtain h where h: "size_gradients s11 = Some (s11\<lparr>heap := h\<rparr>)"
     "\<forall>p. number_of_neurons (h p) = number_of_neurons (heap s p) \<and>
          length (neurons (h p)) = length (neurons (heap s p))"
     "\<forall>l < ?n + 2. \<forall>i < number_of_neurons (heap s (?P ! l)).
        length (gradient (neurons (h (?P ! l)) ! i)) = ?NI"
    by (auto simp add: s11_def s8_def s4_def)
  define s' where "s' = s11\<lparr>heap := h\<rparr>"
  have f: "total_layers s' = ?P" "weights_mat s' = w" "heap s' = h" "ANN_outputs s' = a"
    "dOutputs_dInputs s' = j" "n_hidden_layers s' = ?n" "inputLayer s' = inputLayer s"
    "outputLayer s' = outputLayer s"
    by (simp_all add: s'_def s11_def s8_def s4_def)
  have run: "SizeWeights s = Some s'"
    using c w(1) aj(1) h(1)
    by (simp add: SizeWeights_def s'_def s11_def [symmetric] s8_def [symmetric])
  have shape: "layer_shape (h (?P ! l)) = replicate (number_of_neurons (h (?P ! l))) (number_of_neurons (h (inputLayer s)))"
    if "l < ?n + 2" for l
  proof -
    have "length (neurons (h (?P ! l))) = number_of_neurons (heap s (?P ! l))"
      using h(2) full by simp
    moreover have "\<forall>i < number_of_neurons (heap s (?P ! l)).
        length (gradient (neurons (h (?P ! l)) ! i)) = ?NI"
      using h(3) that by blast
    ultimately have "layer_shape (h (?P ! l)) = replicate (number_of_neurons (heap s (?P ! l))) ?NI"
      by (simp add: layer_shape_def list_eq_iff_nth_eq)
    then show ?thesis using h(2) by simp
  qed
  have "sized s'"
    unfolding sized_def f
    using lP dist shape h(2) aj(2,3) len
    by (simp add: nth_append)
  then show ?thesis
    using run f(1,2,3) h(2) w(2,3) by auto
qed

lemma fold_PushHiddenLayer:
  "hiddenLayers (fold PushHiddenLayer hidden s) =
     hiddenLayers s @ [next_addr s ..< next_addr s + length hidden] \<and>
   n_hidden_layers (fold PushHiddenLayer hidden s) = n_hidden_layers s + length hidden \<and>
   next_addr (fold PushHiddenLayer hidden s) = next_addr s + length hidden \<and>
   inputLayer (fold PushHiddenLayer hidden s) = inputLayer s \<and>
   outputLayer (fold PushHiddenLayer hidden s) = outputLayer s \<and>
   (\<forall>p. heap (fold PushHiddenLayer hidden s) p =
      (if next_addr s \<le> p \<and> p < next_addr s + length hidden
       then CLayer_new (hidden ! (p - next_addr s)) else heap s p))"
proof (induction hidden arbitrary: s)
  case Nil
  then show ?case by auto
next
  case (Cons x xs)
  let ?t = "PushHiddenLayer x s"
  have t: "hiddenLayers ?t = hiddenLayers s @ [next_addr s]"
    "n_hidden_layers ?t = n_hidden_layers s + 1" "next_addr ?t = next_addr s + 1"
    "inputLayer ?t = inputLayer s" "outputLayer ?t = outputLayer s"
    "heap ?t = (heap s)(next_addr s := CLayer_new x)"
    by (simp_all add: PushHiddenLayer_def new_CLayer_def Let_def)
  have ih: "hiddenLayers (fold PushHiddenLayer xs ?t) =
     hiddenLayers ?t @ [next_addr ?t ..< next_addr ?t + length xs]"
    "n_hidden_layers (fold PushHiddenLayer xs ?t) = n_hidden_layers ?t + length xs"
    "next_addr (fold PushHiddenLayer xs ?t) = next_addr ?t + length xs"
    "inputLayer (fold PushHiddenLayer xs ?t) = inputLayer ?t"
    "outputLayer (fold PushHiddenLayer xs ?t) = outputLayer ?t"
    "\<forall>p. heap (fold PushHiddenLayer xs ?t) p =
      (if next_addr ?t \<le> p \<and> p < next_addr ?t + length xs
       then CLayer_new (xs ! (p - next_addr ?t)) else heap ?t p)"
    using Cons.IH [of ?t] by blast+
  have u: "[next_addr s ..< next_addr s + length (x # xs)] =
      next_addr s # [next_addr s + 1 ..< next_addr s + 1 + length xs]"
    by (simp add: upt_conv_Cons del: upt_Suc)
  have "hiddenLayers (fold PushHiddenLayer (x # xs) s) =
      hiddenLayers ?t @ [next_addr ?t ..< next_addr ?t + length xs]"
    using ih(1) by simp
  also have "\<dots> = hiddenLayers s @ (next_addr s # [next_addr s + 1 ..< next_addr s + 1 + length xs])"
    by (simp only: t append_assoc append_Cons append_Nil)
  finally have "hiddenLayers (fold PushHiddenLayer (x # xs) s) =
     hiddenLayers s @ [next_addr s ..< next_addr s + length (x # xs)]"
    by (simp only: u)
  moreover have "\<forall>p. heap (fold PushHiddenLayer (x # xs) s) p =
      (if next_addr s \<le> p \<and> p < next_addr s + length (x # xs)
       then CLayer_new ((x # xs) ! (p - next_addr s)) else heap s p)"
  proof
    fix p
    consider "p < next_addr s" | "p = next_addr s" | "next_addr s < p"
      by arith
    then show "heap (fold PushHiddenLayer (x # xs) s) p =
      (if next_addr s \<le> p \<and> p < next_addr s + length (x # xs)
       then CLayer_new ((x # xs) ! (p - next_addr s)) else heap s p)"
    proof cases
      case 1
      have "heap (fold PushHiddenLayer xs ?t) p =
          (if next_addr ?t \<le> p \<and> p < next_addr ?t + length xs
           then CLayer_new (xs ! (p - next_addr ?t)) else heap ?t p)"
        by (rule ih(6) [rule_format])
      then show ?thesis using 1 by (simp add: t)
    next
      case 2
      have "heap (fold PushHiddenLayer xs ?t) p =
          (if next_addr ?t \<le> p \<and> p < next_addr ?t + length xs
           then CLayer_new (xs ! (p - next_addr ?t)) else heap ?t p)"
        by (rule ih(6) [rule_format])
      then show ?thesis using 2 by (simp add: t)
    next
      case 3
      define d where "d = p - next_addr s - 1"
      have d: "p = next_addr s + Suc d" using 3 by (simp add: d_def)
      have "heap (fold PushHiddenLayer xs ?t) p =
          (if next_addr ?t \<le> p \<and> p < next_addr ?t + length xs
           then CLayer_new (xs ! (p - next_addr ?t)) else heap ?t p)"
        by (rule ih(6) [rule_format])
      then show ?thesis by (simp add: t d)
    qed
  qed
  moreover have "n_hidden_layers (fold PushHiddenLayer (x # xs) s) = n_hidden_layers s + length (x # xs)"
    using ih(2) by (simp add: t)
  moreover have "next_addr (fold PushHiddenLayer (x # xs) s) = next_addr s + length (x # xs)"
    using ih(3) by (simp add: t)
  moreover have "inputLayer (fold PushHiddenLayer (x # xs) s) = inputLayer s"
    using ih(4) by (simp add: t)
  moreover have "outputLayer (fold PushHiddenLayer (x # xs) s) = outputLayer s"
    using ih(5) by (simp add: t)
  ultimately show ?case by blast
qed

lemma build_layers_fields:
  fixes n_in hidden n_out
  defines "s \<equiv> build_layers n_in hidden n_out"
  shows "inputLayer s = 1" "hiddenLayers s = [2 ..< 2 + length hidden]"
    "outputLayer s = 2 + length hidden" "n_hidden_layers s = length hidden"
    "\<forall>p. length (neurons (heap s p)) = number_of_neurons (heap s p)"
    "\<forall>l < length hidden + 2. number_of_neurons (heap s (l + 1)) = (n_in # hidden @ [n_out]) ! l"
proof -
  define s1 where "s1 = DefineInputLayer n_in CNeuralNetwork_new"
  define s2 where "s2 = fold PushHiddenLayer hidden s1"
  have s: "s = DefineOutputLayer n_out s2"
    by (simp add: s_def build_layers_def s2_def s1_def)
  have f1: "hiddenLayers s1 = []" "n_hidden_layers s1 = 0" "next_addr s1 = 2" "inputLayer s1 = 1"
    "heap s1 = (\<lambda>p. if p = 1 then SetInput_flag True (CLayer_new n_in) else CLayer_new 0)"
    by (simp_all add: s1_def DefineInputLayer_def CNeuralNetwork_new_def new_CLayer_def Let_def
        update_layer_def fun_eq_iff)
  have f2: "hiddenLayers s2 = [2 ..< 2 + length hidden]" "n_hidden_layers s2 = length hidden"
    "next_addr s2 = 2 + length hidden" "inputLayer s2 = 1"
    "\<forall>p. heap s2 p = (if 2 \<le> p \<and> p < 2 + length hidden then CLayer_new (hidden ! (p - 2))
       else heap s1 p)"
    using fold_PushHiddenLayer [of hidden s1] by (simp_all add: s2_def [symmetric] f1)
  have f3: "hiddenLayers s = hiddenLayers s2" "n_hidden_layers s = n_hidden_layers s2"
    "inputLayer s = inputLayer s2" "outputLayer s = next_addr s2"
    "heap s = (heap s2)(next_addr s2 := CLayer_new n_out)"
    by (simp_all add: s DefineOutputLayer_def new_CLayer_def Let_def)
  show "inputLayer s = 1" "hiddenLayers s = [2 ..< 2 + length hidden]"
    "outputLayer s = 2 + length hidden" "n_hidden_layers s = length hidden"
    by (simp_all add: f3 f2)
  show "\<forall>p. length (neurons (heap s p)) = number_of_neurons (heap s p)"
    using f2(5) by (simp add: f3 f2(3) f1 CLayer_new_def SetInput_flag_def)
  show "\<forall>l < length hidden + 2. number_of_neurons (heap s (l + 1)) = (n_in # hidden @ [n_out]) ! l"
  proof (intro allI impI)
    fix l assume "l < length hidden + 2"
    then consider "l = 0" | "0 < l \<and> l < length hidden + 1" | "l = length hidden + 1"
      by arith
    then show "number_of_neurons (heap s (l + 1)) = (n_in # hidden @ [n_out]) ! l"
    proof cases
      case 1
      then show ?thesis using f2(5) by (simp add: f3 f2(3) f1 CLayer_new_def SetInput_flag_def)
    next
      case 2
      then obtain j where j: "l = Suc j" "j < length hidden"
        by (cases l) auto
      show ?thesis using f2(5) j by (simp add: f3 f2(3) CLayer_new_def nth_append)
    next
      case 3
      then show ?thesis by (simp add: f3 f2(3) CLayer_new_def nth_append)
    qed
  qed
qed

lemma SizeWeights_no_hidden_layer:
  assumes "n_hidden_layers s = 0" "hiddenLayers s = []"
  shows "SizeWeights s = None"
proof -
  have "collect_layers s = Some (s\<lparr>total_layers := inputLayer s # hiddenLayers s @ [outputLayer s]\<rparr>)"
    using assms by (intro collect_layers_Some) simp
  moreover have "size_weights t = None" if "hiddenLayers t = []" for t
    using that by (simp add: size_weights_def size_weight_matrix_def vec_at_def Let_def)
  ultimately show ?thesis by (simp add: SizeWeights_def assms)
qed

text \<open>
  Claim C10. \<open>SizeWeights\<close> reads \<^verbatim>\<open>hiddenLayers[0]\<close> and
  \<^verbatim>\<open>hiddenLayers[n_hidden_layers - 1]\<close> without a check. After \<open>DefineInputLayer\<close> and
  \<open>DefineOutputLayer\<close> with no \<open>PushHiddenLayer\<close> in between, \<^verbatim>\<open>hiddenLayers\<close> is empty and
  the first of these accesses lies outside the vector: the model returns \<open>None\<close>. After a
  build sequence with at least one hidden layer every access of \<open>SizeWeights\<close> is in range
  and through a non-null pointer: the model returns a network. In it \<^verbatim>\<open>total_layers\<close> lists
  the layers with the neuron counts the build sequence gave them, there is one weight
  matrix less than there are layers, matrix \<open>l\<close> has one row per neuron of layer \<open>l + 1\<close>
  and every row has one entry per neuron of layer \<open>l\<close>; the network is sized as \<open>Predict\<close>
  expects it.
\<close>

theorem SizeWeights_shapes:
  "SizeWeights (build_layers n_in [] n_out) = None \<and>
   (hidden \<noteq> [] \<longrightarrow>
     (\<exists>s. SizeWeights (build_layers n_in hidden n_out) = Some s \<and>
        map (\<lambda>p. GetNNeurons (heap s p)) (total_layers s) = n_in # hidden @ [n_out] \<and>
        length (weights_mat s) = length (total_layers s) - 1 \<and>
        (\<forall>l < length (weights_mat s).
           length (weights_mat s ! l) = GetNNeurons (heap s (total_layers s ! (l + 1))) \<and>
           (\<forall>i < length (weights_mat s ! l).
              length (weights_mat s ! l ! i) = GetNNeurons (heap s (total_layers s ! l)))) \<and>
        sized s))"
proof (intro conjI impI)
  show "SizeWeights (build_layers n_in [] n_out) = None"
    using build_layers_fields(2,4) [where n_in = n_in and hidden = "[]" and n_out = n_out]
    by (intro SizeWeights_no_hidden_layer) simp_all
next
  assume ne: "hidden \<noteq> []"
  let ?b = "build_layers n_in hidden n_out"
  let ?m = "length hidden"
  note b = build_layers_fields [where n_in = n_in and hidden = hidden and n_out = n_out]
  have P: "inputLayer ?b # hiddenLayers ?b @ [outputLayer ?b] = [1 ..< ?m + 3]"
  proof -
    have e1: "[1 ..< ?m + 3] = 1 # [Suc 1 ..< ?m + 3]"
      by (rule upt_conv_Cons) simp
    have e2: "[2 ..< Suc (2 + ?m)] = [2 ..< 2 + ?m] @ [2 + ?m]"
      by (rule upt_Suc_append) simp
    have e3: "?m + 3 = Suc (2 + ?m)" "Suc 1 = 2"
      by simp_all
    note e1
    also have "1 # [Suc 1 ..< ?m + 3] = 1 # [2 ..< Suc (2 + ?m)]"
      by (simp only: e3)
    also have "\<dots> = 1 # [2 ..< 2 + ?m] @ [2 + ?m]"
      by (simp only: e2)
    finally show ?thesis by (simp only: b(1,2,3))
  qed
  have "\<exists>s'. SizeWeights ?b = Some s' \<and>
     total_layers s' = inputLayer ?b # hiddenLayers ?b @ [outputLayer ?b] \<and>
     (\<forall>p. number_of_neurons (heap s' p) = number_of_neurons (heap ?b p)) \<and>
     length (weights_mat s') = n_hidden_layers ?b + 1 \<and>
     (\<forall>l < n_hidden_layers ?b + 1.
        length (weights_mat s' ! l) = number_of_neurons (heap ?b (total_layers s' ! (l + 1))) \<and>
        (\<forall>i < length (weights_mat s' ! l).
           length (weights_mat s' ! l ! i) = number_of_neurons (heap ?b (total_layers s' ! l)))) \<and>
     sized s'"
  proof (rule SizeWeights_Some)
    show "length (hiddenLayers ?b) = n_hidden_layers ?b"
      by (simp only: b(2,4) length_upt add_diff_cancel_left')
    show "0 < n_hidden_layers ?b" using ne by (simp add: b(4))
    show "distinct (inputLayer ?b # hiddenLayers ?b @ [outputLayer ?b])"
      by (simp only: P distinct_upt)
    show "nullptr \<notin> set (inputLayer ?b # hiddenLayers ?b @ [outputLayer ?b])"
      by (simp only: P) (simp add: nullptr_def)
    show "\<forall>p. length (neurons (heap ?b p)) = number_of_neurons (heap ?b p)" by (rule b(5))
  qed
  then obtain s where s: "SizeWeights ?b = Some s" "total_layers s = [1 ..< ?m + 3]"
     "\<forall>p. number_of_neurons (heap s p) = number_of_neurons (heap ?b p)"
     "length (weights_mat s) = ?m + 1"
     "\<forall>l < ?m + 1.
        length (weights_mat s ! l) = number_of_neurons (heap ?b (total_layers s ! (l + 1))) \<and>
        (\<forall>i < length (weights_mat s ! l).
           length (weights_mat s ! l ! i) = number_of_neurons (heap ?b (total_layers s ! l)))"
     "sized s"
    unfolding P b(4) by blast
  have m1: "map (\<lambda>p. GetNNeurons (heap s p)) (total_layers s) = n_in # hidden @ [n_out]"
  proof (rule nth_equalityI)
    show "length (map (\<lambda>p. GetNNeurons (heap s p)) (total_layers s)) = length (n_in # hidden @ [n_out])"
      by (simp add: s(2))
  next
    fix l assume "l < length (map (\<lambda>p. GetNNeurons (heap s p)) (total_layers s))"
    then have l: "l < ?m + 2" by (simp add: s(2))
    then have "total_layers s ! l = l + 1" by (simp add: s(2))
    then show "map (\<lambda>p. GetNNeurons (heap s p)) (total_layers s) ! l = (n_in # hidden @ [n_out]) ! l"
      using l b(6) s(3) by (simp add: s(2) GetNNeurons_def)
  qed
  have m2: "length (weights_mat s) = length (total_layers s) - 1"
    by (simp add: s(2,4))
  have m3: "\<forall>l < length (weights_mat s).
           length (weights_mat s ! l) = GetNNeurons (heap s (total_layers s ! (l + 1))) \<and>
           (\<forall>i < length (weights_mat s ! l).
              length (weights_mat s ! l ! i) = GetNNeurons (heap s (total_layers s ! l)))"
    using s(5) by (simp add: s(3,4) GetNNeurons_def)
  show "\<exists>s. SizeWeights ?b = Some s \<and>
        map (\<lambda>p. GetNNeurons (heap s p)) (total_layers s) = n_in # hidden @ [n_out] \<and>
        length (weights_mat s) = length (total_layers s) - 1 \<and>
        (\<forall>l < length (weights_mat s).
           length (weights_mat s ! l) = GetNNeurons (heap s (total_layers s ! (l + 1))) \<and>
           (\<forall>i < length (weights_mat s ! l).
              length (weights_mat s ! l ! i) = GetNNeurons (heap s (total_layers s ! l)))) \<and>
        sized s"
    using s(1) m1 m2 m3 s(6) by (intro exI [of _ s] conjI)
qed

theorem SizeWeights_shapes_witness:
  "[3] \<noteq> ([] :: nat list) \<and>
   (\<exists>s. SizeWeights (build_layers 2 [3] 1) = Some s \<and>
      length (weights_mat s) = 2 \<and>
      length (weights_mat s ! 0) = 3 \<and> length (weights_mat s ! 0 ! 2) = 2 \<and>
      length (weights_mat s ! 1) = 1 \<and> length (weights_mat s ! 1 ! 0) = 3)"
proof -
  from SizeWeights_shapes [of 2 1 "[3]"]
  obtain s where s: "SizeWeights (build_layers 2 [3] 1) = Some s"
     "map (\<lambda>p. GetNNeurons (heap s p)) (total_layers s) = [2, 3, 1]"
     "length (weights_mat s) = length (total_layers s) - 1"
     "\<forall>l < length (weights_mat s).
           length (weights_mat s ! l) = GetNNeurons (heap s (total_layers s ! (l + 1))) \<and>
           (\<forall>i < length (weights_mat s ! l).
              length (weights_mat s ! l ! i) = GetNNeurons (heap s (total_layers s ! l)))"
    by auto
  have lt: "length (total_layers s) = 3"
    using arg_cong [OF s(2), of length] by simp
  have n: "GetNNeurons (heap s (total_layers s ! l)) = [2, 3, 1] ! l" if "l < 3" for l
    using arg_cong [OF s(2), of "\<lambda>xs. xs ! l"] that lt by simp
  have lw: "length (weights_mat s) = 2" using s(3) lt by simp
  have w0: "length (weights_mat s ! 0) = 3"
    "\<forall>i < length (weights_mat s ! 0). length (weights_mat s ! 0 ! i) = 2"
    using s(4) lw n [of 0] n [of 1] by auto
  have n2: "GetNNeurons (heap s (total_layers s ! Suc (Suc 0))) = 1"
    using n [of 2] by (simp add: numeral_2_eq_2)
  have w1: "length (weights_mat s ! 1) = 1"
    "\<forall>i < length (weights_mat s ! 1). length (weights_mat s ! 1 ! i) = 3"
    using s(4) lw n [of 1] n2 by auto
  show ?thesis using s(1) lw w0 w1 by auto
qed

section \<open>Reading a network file\<close>

lemma getline_unread_count:
  "unread_count (snd (getline f str)) \<le> unread_count f"
  by (simp add: getline_def unread_count_def split: list.splits)

lemma getline_unread_count_less:
  "\<not> fail (snd (getline f str)) \<Longrightarrow> unread_count (snd (getline f str)) < unread_count f"
  by (auto simp add: getline_def unread_count_def fail_def split: list.splits if_splits)

lemma read_line_unread:
  "unread_count (file_stream (read_line s)) \<le> unread_count (file_stream s)"
  by (simp add: read_line_def Let_def getline_unread_count)

lemma block_unread:
  fixes stmts :: "statement list"
  assumes "\<And>stmt t. stmt \<in> set stmts \<Longrightarrow>
             unread_count (file_stream (stmt t)) \<le> unread_count (file_stream t)"
  shows "unread_count (file_stream (block stmts s)) \<le> unread_count (file_stream s)"
  using assms
proof (induction stmts arbitrary: s)
  case Nil
  then show ?case by (simp add: block_def)
next
  case (Cons a stmts)
  have "unread_count (file_stream (block stmts t)) \<le> unread_count (file_stream t)" for t
    using Cons.IH Cons.prems by simp
  from this [of "if outcome s = Normal then a s else s"] Cons.prems [of a s]
  show ?case by (auto simp add: block_def)
qed

lemma for_loop_unread:
  fixes body :: "nat \<Rightarrow> statement"
  assumes "\<And>i t. unread_count (file_stream (body i t)) \<le> unread_count (file_stream t)"
  shows "unread_count (file_stream (for_loop lo hi body s)) \<le> unread_count (file_stream s)"
proof (rule for_loop_invariant [where P = "\<lambda>t. unread_count (file_stream t) \<le> unread_count (file_stream s)"])
  show "unread_count (file_stream s) \<le> unread_count (file_stream s)" by simp
next
  fix i and t :: ReadMLPFile_frame
  assume "unread_count (file_stream t) \<le> unread_count (file_stream s)"
  then show "unread_count (file_stream (body i t)) \<le> unread_count (file_stream s)"
    using assms [of i t] by simp
qed

lemmas stmt_defs = throw_def out_of_range_def open_line_stream_def read_word_def Let_def

lemma read_layer_count_unread:
  "unread_count (file_stream (read_layer_count s)) \<le> unread_count (file_stream s)"
  unfolding read_layer_count_def
  by (auto intro!: block_unread for_loop_unread simp add: read_line_unread stmt_defs split: sum.splits)

lemma read_neuron_count_unread:
  "unread_count (file_stream (read_neuron_count i s)) \<le> unread_count (file_stream s)"
  unfolding read_neuron_count_def
  by (auto intro!: block_unread for_loop_unread simp add: read_line_unread stmt_defs split: sum.splits)

lemma size_weights_between_unread:
  "unread_count (file_stream (size_weights_between i s)) \<le> unread_count (file_stream s)"
  unfolding size_weights_between_def size_weight_row_def
  by (auto intro!: block_unread for_loop_unread simp add: read_line_unread stmt_defs split: sum.splits)

lemma default_input_norm_unread:
  "unread_count (file_stream (default_input_norm s)) \<le> unread_count (file_stream s)"
  unfolding default_input_norm_def
  by (auto intro!: block_unread for_loop_unread simp add: read_line_unread stmt_defs split: sum.splits)

lemma default_output_norm_unread:
  "unread_count (file_stream (default_output_norm s)) \<le> unread_count (file_stream s)"
  unfolding default_output_norm_def
  by (auto intro!: block_unread for_loop_unread simp add: read_line_unread stmt_defs split: sum.splits)

lemma read_neuron_counts_unread:
  "unread_count (file_stream (read_neuron_counts s)) \<le> unread_count (file_stream s)"
  unfolding read_neuron_counts_def
  by (auto intro!: block_unread for_loop_unread
      simp add: read_line_unread stmt_defs read_neuron_count_unread size_weights_between_unread
        default_input_norm_unread default_output_norm_unread split: sum.splits)

lemma read_activation_functions_unread:
  "unread_count (file_stream (read_activation_functions s)) \<le> unread_count (file_stream s)"
  unfolding read_activation_functions_def
  by (auto intro!: block_unread for_loop_unread simp add: read_line_unread stmt_defs split: sum.splits)

lemma read_input_names_unread:
  "unread_count (file_stream (read_input_names s)) \<le> unread_count (file_stream s)"
  unfolding read_input_names_def
  by (auto intro!: block_unread for_loop_unread simp add: read_line_unread stmt_defs split: sum.splits)

lemma read_output_names_unread:
  "unread_count (file_stream (read_output_names s)) \<le> unread_count (file_stream s)"
  unfolding read_output_names_def
  by (auto intro!: block_unread for_loop_unread simp add: read_line_unread stmt_defs split: sum.splits)

lemma read_bounds_unread:
  assumes "\<And>b t. unread_count (file_stream (store b t)) \<le> unread_count (file_stream t)"
  shows "unread_count (file_stream (read_bounds store s)) \<le> unread_count (file_stream s)"
proof -
  have "unread_count (file_stream (store b (read_word (read_word (open_line_stream s))))) \<le>
      unread_count (file_stream s)" for b
    using assms [of b "read_word (read_word (open_line_stream s))"] by (simp add: stmt_defs)
  then show ?thesis
    by (simp add: read_bounds_def stmt_defs split: sum.splits)
qed

lemma read_input_normalization_unread:
  "unread_count (file_stream (read_input_normalization s)) \<le> unread_count (file_stream s)"
  unfolding read_input_normalization_def
  by (auto intro!: block_unread for_loop_unread read_bounds_unread
      simp add: read_line_unread stmt_defs split: sum.splits)

lemma read_output_normalization_unread:
  "unread_count (file_stream (read_output_normalization s)) \<le> unread_count (file_stream s)"
  unfolding read_output_normalization_def
  by (auto intro!: block_unread for_loop_unread read_bounds_unread
      simp add: read_line_unread stmt_defs split: sum.splits)

lemma header_body_unread:
  "unread_count (file_stream (header_body s)) \<le> unread_count (file_stream s)"
  unfolding header_body_def
  by (auto intro!: block_unread
      simp add: on_line_def read_layer_count_unread read_neuron_counts_unread
        read_activation_functions_unread read_input_names_unread read_input_normalization_unread
        read_output_names_unread read_output_normalization_unread)

termination header_loop
proof (relation "measure (\<lambda>s. unread_count (file_stream s))")
  show "wf (measure (\<lambda>s. unread_count (file_stream s)))" by simp
next
  fix s s1 s2 :: ReadMLPFile_frame
  assume s1: "s1 = read_line s" and ok: "\<not> fail (file_stream s1) \<and> \<not> eoHeader s1"
    and s2: "s2 = header_body s1"
  have "unread_count (file_stream s1) < unread_count (file_stream s)"
    using ok getline_unread_count_less [of "file_stream s" "line s"]
    by (simp add: s1 read_line_def Let_def)
  moreover have "unread_count (file_stream s2) \<le> unread_count (file_stream s1)"
    unfolding s2 by (rule header_body_unread)
  ultimately show "(s2, s) \<in> measure (\<lambda>s. unread_count (file_stream s))"
    by simp
qed

declare SkipToFlag_loop.simps [simp del] header_loop.simps [simp del]

lemma SkipToFlag_loop_stop:
  "str = flag \<or> eof f \<Longrightarrow> SkipToFlag_loop flag str f = (str, f)"
  by (subst SkipToFlag_loop.simps) auto

lemma SkipToFlag_loop_step:
  "str \<noteq> flag \<Longrightarrow> \<not> eof f \<Longrightarrow>
   SkipToFlag_loop flag str f = SkipToFlag_loop flag (fst (getline f str)) (snd (getline f str))"
  by (subst SkipToFlag_loop.simps) simp

lemma header_loop_exit:
  "fail (file_stream (read_line s)) \<or> eoHeader (read_line s) \<Longrightarrow> header_loop s = read_line s"
  by (subst header_loop.simps) (auto simp add: Let_def)

lemma block_Nil: "block [] s = s"
  by (simp add: block_def)

lemma block_stopped: "outcome s \<noteq> Normal \<Longrightarrow> block stmts s = s"
  by (induction stmts) (simp_all add: block_def)

lemma block_Cons:
  "block (stmt # stmts) s = (if outcome s = Normal then block stmts (stmt s) else s)"
  using block_stopped [of s stmts] by (simp add: block_def)

lemma for_loop_unfold:
  "for_loop lo hi body s = (if lo < hi then for_loop (Suc lo) hi body (body lo s) else s)"
  by (simp add: for_loop_def upt_rec)

lemma replicate_numeral_Cons:
  "replicate (numeral k) x = x # replicate (pred_numeral k) x"
  by (simp add: numeral_eq_Suc)

lemmas stream_defs = getline_def eof_def fail_def read_line_def read_word_def open_line_stream_def
  extract_word_def isspace_def Let_def

lemmas convert_defs = stoul_def stold_def strip_sign_def isspace_def isdigit_def digits_value_def
  exponent_part_def unsigned_long_max_def Let_def

lemmas section_defs = header_body_def on_line_def read_layer_count_def read_neuron_counts_def
  read_neuron_count_def size_weights_between_def size_weight_row_def default_input_norm_def
  default_output_norm_def read_activation_functions_def read_input_names_def
  read_output_names_def read_input_normalization_def read_output_normalization_def
  read_bounds_def block_Nil block_Cons throw_def out_of_range_def minus_one_def for_loop_unfold
  resize_def replicate_numeral_Cons

lemma header_loop_continue:
  "\<not> fail (file_stream (read_line s)) \<Longrightarrow> \<not> eoHeader (read_line s) \<Longrightarrow>
   header_loop s =
     (if outcome (header_body (read_line s)) = Normal then header_loop (header_body (read_line s))
      else header_body (read_line s))"
  by (subst header_loop.simps) (auto simp add: Let_def)

lemmas reader_defs = ReadMLPFile_def enter_def CReadNeuralNetwork_new_def text_file_def
  skip_to_def SkipToFlag_def SkipToFlag_loop_stop SkipToFlag_loop_step
  header_loop_exit header_loop_continue
  check_names_def read_weights_def read_weight_row_def store_weight_def read_biases_def
  store_bias_def stream_defs section_defs convert_defs

lemma ReadMLPFile_truncated_file:
  "ReadMLPFile (Some (text_file truncated_file)) (CReadNeuralNetwork_new ''net.mlp'') =
     \<lparr>input_names_rd = [''x''], output_names_rd = [''y''], filename = ''net.mlp'',
      n_layers = 2, n_neurons = [1, 1], weights_mat_rd = [[[3]]], biases_mat = [[5], [5]],
      activation_functions = [''none'', ''linear''],
      input_norm_rd = [(0, 1)], output_norm_rd = [(0, 1)],
      file_stream = \<lparr>unread = [], unterminated = [], rdstate = eof_failbit\<rparr>,
      line = [], word = ''5'', line_stream = [], eoHeader = True,
      found_layercount = True, found_input_names = True, found_output_names = True,
      outcome = Normal\<rparr>"
  by (simp add: truncated_file_def reader_defs)

lemma ReadMLPFile_names_first_file:
  "outcome (ReadMLPFile (Some (text_file names_first_file)) (CReadNeuralNetwork_new ''net.mlp'')) =
     Undefined"
  by (simp add: names_first_file_def reader_defs)

text \<open>
  Claim C8. \<open>ReadMLPFile\<close> is to fail with an error when a section of the header that
  depends on the number of layers comes before \<^verbatim>\<open>[number of layers]\<close>, when the input or
  output names are missing, and when the weights or the biases are cut short. It throws
  in the sections \<^verbatim>\<open>[neurons per layer]\<close> and \<^verbatim>\<open>[activation function]\<close> and for missing
  names. A file whose last bias line is missing is read to the end without an error: the
  read of the line fails, the extraction from the empty line fails and leaves \<^verbatim>\<open>word\<close> as
  it was, and the bias of the first layer, 5, is stored again for the second. A file
  with \<^verbatim>\<open>[input names]\<close> before \<^verbatim>\<open>[number of layers]\<close> makes the reader index the empty
  vector \<^verbatim>\<open>n_neurons\<close>; nothing is thrown.
\<close>

theorem ReadMLPFile_reads_truncated_biases:
  "outcome (ReadMLPFile (Some (text_file truncated_file)) (CReadNeuralNetwork_new ''net.mlp'')) =
     Normal \<and>
   biases_mat (ReadMLPFile (Some (text_file truncated_file)) (CReadNeuralNetwork_new ''net.mlp'')) =
     [[5], [5]] \<and>
   outcome (ReadMLPFile (Some (text_file names_first_file)) (CReadNeuralNetwork_new ''net.mlp'')) =
     Undefined"
  by (simp add: ReadMLPFile_truncated_file ReadMLPFile_names_first_file)

end
